theory Spec2Isabelle
  imports Complex_Main "HOL-Library.Sublist" "HOL-Library.AList"
begin

section \<open>JavaScript numbers\<close>

text \<open>
  Prices, sizes and pointer coordinates are JavaScript numbers. They are modelled as
  rationals: every operation the modelled code applies to them (addition, multiplication,
  division by a non-zero constant, comparison, \<^verbatim>\<open>Math.round\<close>, \<^verbatim>\<open>Math.floor\<close>,
  \<^verbatim>\<open>Math.min\<close>, \<^verbatim>\<open>Math.max\<close>) is then exact. The non-finite values
  \<^verbatim>\<open>NaN\<close> and \<^verbatim>\<open>Infinity\<close> have no counterpart; where the source can produce one
  (a division by zero) the definition says so.
\<close>

type_synonym number = rat

text \<open>\<^verbatim>\<open>Math.round(x)\<close> rounds to the nearest integer, halves towards plus infinity.\<close>

definition Math_round :: "number \<Rightarrow> number" where
  "Math_round x = of_int \<lfloor>x + 1 / 2\<rfloor>"

definition Math_floor :: "number \<Rightarrow> number" where
  "Math_floor x = of_int \<lfloor>x\<rfloor>"

text \<open>A number is falsy exactly when it is zero (\<^verbatim>\<open>NaN\<close> is not modelled).\<close>

definition truthy_num :: "number \<Rightarrow> bool" where
  "truthy_num x \<longleftrightarrow> x \<noteq> 0"


section \<open>PriceRangeSlider.tsx\<close>

datatype listing_type = ForSale | ForRent | ForLease

text \<open>
  The state of one slider instance: the \<^verbatim>\<open>listingType\<close> prop, the pair
  \<^verbatim>\<open>localValues\<close> and the two dragging flags.
\<close>

record slider =
  listingType_prop :: "listing_type option"
  localValues :: "number \<times> number"
  isMinThumbDragging :: bool
  isMaxThumbDragging :: bool

definition isRent :: "slider \<Rightarrow> bool" where
  "isRent s \<longleftrightarrow> listingType_prop s = Some ForRent \<or> listingType_prop s = Some ForLease"

definition effectiveMin :: "slider \<Rightarrow> number" where
  "effectiveMin s = (if isRent s then 500 else 100000)"

definition effectiveMax :: "slider \<Rightarrow> number" where
  "effectiveMax s = (if isRent s then 15000 else 10000000)"

definition effectiveStep :: "slider \<Rightarrow> number" where
  "effectiveStep s = (if isRent s then 100 else 50000)"

definition minVal :: "slider \<Rightarrow> number" where
  "minVal s = fst (localValues s)"

definition maxVal :: "slider \<Rightarrow> number" where
  "maxVal s = snd (localValues s)"

text \<open>
  \<^verbatim>\<open>handleValueChange\<close> stores the pair and reports it to the parent through
  \<^verbatim>\<open>onValueChange\<close>; the parent hands the same pair back as the controlled value.
\<close>

definition handleValueChange :: "slider \<Rightarrow> number \<times> number \<Rightarrow> slider" where
  "handleValueChange s newValues = s\<lparr>localValues := newValues\<rparr>"

text \<open>
  A pointer move carries \<^verbatim>\<open>clientX\<close> and, when \<^verbatim>\<open>sliderRef.current\<close> is set, the
  left edge and width of its bounding rectangle. With a width of zero the source divides
  by zero and obtains \<^verbatim>\<open>Infinity\<close> or \<^verbatim>\<open>NaN\<close>; the rational model is faithful for a
  non-zero width only (predicate \<open>finite_move\<close> below).
\<close>

record pointer_move =
  clientX :: number
  rect :: "(number \<times> number) option"

definition handleMouseMove :: "slider \<Rightarrow> pointer_move \<Rightarrow> slider" where
  "handleMouseMove s ev =
     (case rect ev of
        None \<Rightarrow> s
      | Some (rect_left, rect_width) \<Rightarrow>
          if \<not> isMinThumbDragging s \<and> \<not> isMaxThumbDragging s then s
          else
            let percent = max 0 (min 100 (((clientX ev - rect_left) / rect_width) * 100));
                rounded = Math_round ((effectiveMin s + (percent / 100) * (effectiveMax s - effectiveMin s))
                                        / effectiveStep s) * effectiveStep s;
                newValue = max (effectiveMin s) (min (effectiveMax s) rounded);
                s1 = (if isMinThumbDragging s
                      then handleValueChange s (min newValue (maxVal s - effectiveStep s), maxVal s)
                      else s);
                s2 = (if isMaxThumbDragging s
                      then handleValueChange s1 (minVal s, max newValue (minVal s + effectiveStep s))
                      else s1)
            in s2)"

definition handleMouseUp :: "slider \<Rightarrow> slider" where
  "handleMouseUp s = s\<lparr>isMinThumbDragging := False, isMaxThumbDragging := False\<rparr>"

datatype thumb = MinThumb | MaxThumb

definition handleMouseDown :: "slider \<Rightarrow> thumb \<Rightarrow> slider" where
  "handleMouseDown s t =
     (case t of MinThumb \<Rightarrow> s\<lparr>isMinThumbDragging := True\<rparr>
              | MaxThumb \<Rightarrow> s\<lparr>isMaxThumbDragging := True\<rparr>)"

text \<open>\<^verbatim>\<open>handleKeyDown(e, thumb)\<close>, with \<open>key\<close> the string \<^verbatim>\<open>e.key\<close>.\<close>

definition handleKeyDown :: "slider \<Rightarrow> string \<Rightarrow> thumb \<Rightarrow> slider" where
  "handleKeyDown s key t =
     (let newMinValue = minVal s; newMaxValue = maxVal s;
          (newMinValue, newMaxValue) =
            (if key = ''ArrowLeft'' \<or> key = ''ArrowDown'' then
               (if t = MinThumb then (max (effectiveMin s) (minVal s - effectiveStep s), newMaxValue)
                else (newMinValue, max (minVal s + effectiveStep s) (maxVal s - effectiveStep s)))
             else if key = ''ArrowRight'' \<or> key = ''ArrowUp'' then
               (if t = MinThumb then (min (maxVal s - effectiveStep s) (minVal s + effectiveStep s), newMaxValue)
                else (newMinValue, min (effectiveMax s) (maxVal s + effectiveStep s)))
             else if key = ''Home'' then
               (if t = MinThumb then (effectiveMin s, newMaxValue)
                else (newMinValue, minVal s + effectiveStep s))
             else if key = ''End'' then
               (if t = MinThumb then (maxVal s - effectiveStep s, newMaxValue)
                else (newMinValue, effectiveMax s))
             else (newMinValue, newMaxValue))
      in handleValueChange s (newMinValue, newMaxValue))"

text \<open>The interactions a user can perform on the slider, and a run of them.\<close>

datatype slider_event =
    MouseDown thumb
  | MouseMove pointer_move
  | MouseUp
  | KeyDown string thumb

fun slider_step :: "slider \<Rightarrow> slider_event \<Rightarrow> slider" where
  "slider_step s (MouseDown t) = handleMouseDown s t"
| "slider_step s (MouseMove ev) = handleMouseMove s ev"
| "slider_step s MouseUp = handleMouseUp s"
| "slider_step s (KeyDown key t) = handleKeyDown s key t"

definition slider_run :: "slider \<Rightarrow> slider_event list \<Rightarrow> slider" where
  "slider_run s evs = foldl slider_step s evs"

text \<open>The ordering invariant of the claim, and the range the thumbs are clamped to.\<close>

definition ordered :: "slider \<Rightarrow> bool" where
  "ordered s \<longleftrightarrow> minVal s + effectiveStep s \<le> maxVal s"

definition in_range :: "slider \<Rightarrow> bool" where
  "in_range s \<longleftrightarrow> effectiveMin s \<le> minVal s \<and> maxVal s \<le> effectiveMax s"

fun finite_move :: "slider_event \<Rightarrow> bool" where
  "finite_move (MouseMove ev) = (case rect ev of None \<Rightarrow> True | Some (l, w) \<Rightarrow> w \<noteq> 0)"
| "finite_move _ = True"



section \<open>lib/types.ts: search parameters and mock results\<close>

datatype tag_type = New | Premium | OpenHouse | Auction

text \<open>
  The interface \<^verbatim>\<open>SearchParams\<close>; every field is optional, \<open>None\<close> stands for
  \<^verbatim>\<open>undefined\<close>.
\<close>

record SearchParams =
  location :: "string option"
  locationRadiusKm :: "number option"
  propertyType :: "string option"
  listingType :: "listing_type option"
  priceMin :: "number option"
  priceMax :: "number option"
  bedroomsMin :: "number option"
  bathroomsMin :: "number option"
  sizeMetersMin :: "number option"
  sizeMetersMax :: "number option"
  style :: "string option"
  styleImage :: "string option"
  amenities :: "string list option"
  tags :: "tag_type list option"

text \<open>
  \<^verbatim>\<open>x || d\<close> on an optional number and on an optional string: the default is taken
  when the value is undefined, and also when it is \<^verbatim>\<open>0\<close> or the empty string.
\<close>

definition or_num :: "number option \<Rightarrow> number \<Rightarrow> number" where
  "or_num x d = (case x of None \<Rightarrow> d | Some v \<Rightarrow> if truthy_num v then v else d)"

definition or_str :: "string option \<Rightarrow> string \<Rightarrow> string" where
  "or_str x d = (case x of None \<Rightarrow> d | Some v \<Rightarrow> if v \<noteq> [] then v else d)"

text \<open>The truthiness test \<^verbatim>\<open>params.priceMax && ...\<close> on an optional number.\<close>

definition is_truthy :: "number option \<Rightarrow> bool" where
  "is_truthy x = (case x of None \<Rightarrow> False | Some v \<Rightarrow> truthy_num v)"

text \<open>
  The tag shown on a result card, \<^verbatim>\<open>{ text, type }\<close>, and the table \<^verbatim>\<open>allTags\<close>.
\<close>

record tag =
  tag_text :: string
  tag_type :: tag_type

definition allTags :: "tag list" where
  "allTags = [\<lparr>tag_text = ''New'', tag_type = New\<rparr>,
              \<lparr>tag_text = ''Premium'', tag_type = Premium\<rparr>,
              \<lparr>tag_text = ''Open House'', tag_type = OpenHouse\<rparr>,
              \<lparr>tag_text = ''Auction'', tag_type = Auction\<rparr>]"

text \<open>
  The price shown on a card. JavaScript prints the number \<open>x\<close> with
  \<^verbatim>\<open>Number(x.toFixed(d))\<close> rounded to \<open>d\<close> decimals, a tie away from zero (from
  \<open>10 ^ 21\<close> on \<^verbatim>\<open>toFixed\<close> prints the number itself), and with
  \<^verbatim>\<open>x.toLocaleString()\<close> rounded to at most three decimals in the same way.
\<close>

definition round_half_away :: "nat \<Rightarrow> number \<Rightarrow> number" where
  "round_half_away d x = sgn x * of_int \<lfloor>\<bar>x\<bar> * 10 ^ d + 1 / 2\<rfloor> / 10 ^ d"

definition Number_toFixed :: "number \<Rightarrow> nat \<Rightarrow> number" where
  "Number_toFixed x d = (if \<bar>x\<bar> \<ge> 10 ^ 21 then x else round_half_away d x)"

definition toLocaleString_number :: "number \<Rightarrow> number" where
  "toLocaleString_number x = round_half_away 3 x"

text \<open>
  The string \<^verbatim>\<open>priceDisplay\<close>: \<open>PerMonth n\<close> is \<^verbatim>\<open>$n/mo\<close> and \<open>Millions n\<close> is
  \<^verbatim>\<open>$nM\<close>, for the number \<open>n\<close> that is printed; \<open>shown_price\<close> is the amount in dollars
  that the string states.
\<close>

datatype price_display = PerMonth number | Millions number

fun shown_price :: "price_display \<Rightarrow> number" where
  "shown_price (PerMonth n) = n"
| "shown_price (Millions n) = n * 1000000"

text \<open>
  The two formats: \<^verbatim>\<open>`$${rent.toLocaleString()}/mo`\<close> for a rental and
  \<^verbatim>\<open>`$${Number((price / 1_000_000).toFixed(2))}M`\<close> otherwise.
\<close>

definition priceDisplay :: "bool \<Rightarrow> number \<Rightarrow> price_display" where
  "priceDisplay rental amount =
     (if rental then PerMonth (toLocaleString_number amount)
      else Millions (Number_toFixed (amount / 1000000) 2))"

text \<open>
  The outcomes of \<^verbatim>\<open>Math.random()\<close> lie in the interval from 0 (inclusive) to 1
  (exclusive).
\<close>

definition unit_interval :: "number \<Rightarrow> bool" where
  "unit_interval r \<longleftrightarrow> 0 \<le> r \<and> r < 1"

text \<open>
  The price of one result before it is formatted: the two branches on
  \<^verbatim>\<open>params.listingType\<close>, with \<open>r\<close> the random draw. Both copies of
  \<^verbatim>\<open>generateMockResults\<close> compute it in the same way.
\<close>

definition mock_rent :: "SearchParams \<Rightarrow> number \<Rightarrow> number" where
  "mock_rent params r =
     (let minRentDefault = 2000; maxRentDefault = 15000;
          rent = or_num (priceMin params) minRentDefault
                 + r * (or_num (priceMax params) maxRentDefault - or_num (priceMin params) minRentDefault);
          rent = Math_round (rent / 100) * 100;
          rent = (if is_truthy (priceMax params) \<and> rent > the (priceMax params)
                  then the (priceMax params) else rent);
          rent = (if is_truthy (priceMin params) \<and> rent < the (priceMin params)
                  then the (priceMin params) else rent)
      in rent)"

definition mock_price :: "SearchParams \<Rightarrow> number \<Rightarrow> number" where
  "mock_price params r =
     (let minPriceDefault = 800000; maxPriceDefault = 5000000;
          price = or_num (priceMin params) minPriceDefault
                  + r * (or_num (priceMax params) maxPriceDefault - or_num (priceMin params) minPriceDefault);
          price = (if is_truthy (priceMin params) \<and> \<not> is_truthy (priceMax params)
                   then max price (the (priceMin params)) else price);
          price = (if is_truthy (priceMax params) \<and> \<not> is_truthy (priceMin params)
                   then min price (the (priceMax params)) else price);
          price = Math_round (price / 100000) * 100000;
          price = (if is_truthy (priceMax params) \<and> price > the (priceMax params)
                   then the (priceMax params) else price);
          price = (if is_truthy (priceMin params) \<and> price < the (priceMin params)
                   then the (priceMin params) else price)
      in price)"

definition is_rental :: "SearchParams \<Rightarrow> bool" where
  "is_rental params \<longleftrightarrow> listingType params = Some ForRent \<or> listingType params = Some ForLease"

text \<open>
  The tag of the \<open>i\<close>-th result; \<open>r_has\<close> and \<open>r_which\<close> are the two random draws of the
  branch without requested tags.
\<close>

definition mock_tag :: "SearchParams \<Rightarrow> number \<Rightarrow> number \<Rightarrow> nat \<Rightarrow> tag option" where
  "mock_tag params r_has r_which i =
     (case tags params of
        Some (t # ts) \<Rightarrow>
          (let selectedTagType = (t # ts) ! (i mod length (t # ts))
           in find (\<lambda>x. tag_type x = selectedTagType) allTags)
      | _ \<Rightarrow>
          if r_has > 6 / 10
          then Some (allTags ! nat \<lfloor>r_which * of_nat (length allTags)\<rfloor>)
          else None)"

text \<open>The size in square metres; \<open>beds\<close> is the number of bedrooms, \<open>r\<close> the random draw.\<close>

definition mock_sqm :: "SearchParams \<Rightarrow> number \<Rightarrow> number \<Rightarrow> number" where
  "mock_sqm params beds r =
     (let defaultSqm = 110 + beds * 35
      in if sizeMetersMin params \<noteq> None \<or> sizeMetersMax params \<noteq> None then
           (let minSqm = (case sizeMetersMin params of None \<Rightarrow> 0 | Some v \<Rightarrow> v);
                maxSqm = (case sizeMetersMax params of None \<Rightarrow> minSqm + 150 | Some v \<Rightarrow> v)
            in Math_round (minSqm + r * (maxSqm - minSqm)))
         else defaultSqm + Math_floor (r * 40 - 20))"

text \<open>\<^verbatim>\<open>count = 3 + Math.floor(Math.random() * 2)\<close>, with \<open>r\<close> the random draw.\<close>

definition mock_count :: "number \<Rightarrow> nat" where
  "mock_count r = nat (3 + \<lfloor>r * 2\<rfloor>)"


subsection \<open>The copy that returns the price as a string\<close>

definition defaultLocations :: "string list" where
  "defaultLocations = [''Sydney, NSW'', ''Melbourne, VIC'', ''Brisbane, QLD'', ''Perth, WA'',
                       ''Auckland'', ''Queenstown'', ''Wellington'']"

definition defaultTypes :: "string list" where
  "defaultTypes = [''Condo'', ''House'', ''Loft'', ''Townhouse'', ''Apartment'']"

text \<open>
  A generated \<^verbatim>\<open>Property\<close>. Its \<open>price\<close> is the string \<^verbatim>\<open>priceDisplay\<close>. The strings
  \<^verbatim>\<open>details\<close>, \<^verbatim>\<open>imageUrl\<close> and \<^verbatim>\<open>description\<close> print the numbers \<open>id\<close>,
  \<open>bedrooms\<close>, \<open>bathrooms\<close> and \<open>sqm\<close>, which the record keeps instead; the fixed
  \<^verbatim>\<open>button\<close> field is left out.
\<close>

record Property =
  id :: number
  title :: string
  property_location :: string
  price :: price_display
  bedrooms :: number
  bathrooms :: number
  sqm :: number
  property_tag :: "tag option"
  tourAvailable :: bool

text \<open>
  The outcomes of \<^verbatim>\<open>Math.random()\<close>, one per call site; the calls inside the loop are
  indexed by the iteration \<open>i\<close>.
\<close>

record randoms =
  r_count :: number
  r_sqm :: "nat \<Rightarrow> number"
  r_price :: "nat \<Rightarrow> number"
  r_has_tag :: "nat \<Rightarrow> number"
  r_tag :: "nat \<Rightarrow> number"
  r_tour :: "nat \<Rightarrow> number"

definition valid_randoms :: "randoms \<Rightarrow> bool" where
  "valid_randoms rs \<longleftrightarrow>
     unit_interval (r_count rs) \<and>
     (\<forall>i. unit_interval (r_sqm rs i) \<and> unit_interval (r_price rs i) \<and>
          unit_interval (r_has_tag rs i) \<and> unit_interval (r_tag rs i) \<and>
          unit_interval (r_tour rs i))"

text \<open>
  The body of the loop for index \<open>i\<close>; \<open>now\<close> is the value of \<^verbatim>\<open>Date.now()\<close>.
\<close>

definition mock_result :: "SearchParams \<Rightarrow> number \<Rightarrow> randoms \<Rightarrow> nat \<Rightarrow> Property" where
  "mock_result params now rs i =
     (let ident = now + of_nat i;
          loc = or_str (location params) (defaultLocations ! (i mod length defaultLocations));
          ptype = or_str (propertyType params) (defaultTypes ! (i mod length defaultTypes));
          beds = or_num (bedroomsMin params) (2 + of_nat i);
          baths = or_num (bathroomsMin params) (if beds > 1 then beds - 1 else 1);
          size = mock_sqm params beds (r_sqm rs i);
          ams = (case amenities params of None \<Rightarrow> [] | Some xs \<Rightarrow> xs);
          ttl = (if length ams > 0
                 then or_str (style params) ''Modern'' @ '' '' @ ptype @ '' with '' @ hd ams
                 else or_str (style params) ''Spacious'' @ '' '' @ ptype);
          shown =
            (if is_rental params
             then priceDisplay True (mock_rent params (r_price rs i))
             else priceDisplay False (mock_price params (r_price rs i)))
      in \<lparr>id = ident, title = ttl, property_location = loc, price = shown,
          bedrooms = beds, bathrooms = baths, sqm = size,
          property_tag = mock_tag params (r_has_tag rs i) (r_tag rs i) i,
          tourAvailable = (r_tour rs i > 1 / 2)\<rparr>)"

text \<open>\<^verbatim>\<open>generateMockResults\<close>: one result for each \<open>i\<close> from 0 up to \<open>count - 1\<close>.\<close>

definition generateMockResults :: "SearchParams \<Rightarrow> number \<Rightarrow> randoms \<Rightarrow> Property list" where
  "generateMockResults params now rs = map (mock_result params now rs) [0 ..< mock_count (r_count rs)]"


subsection \<open>The copy that returns the price as a number\<close>

definition defaultLocations2 :: "string list" where
  "defaultLocations2 = [''Sydney, NSW'', ''Melbourne, VIC'', ''Brisbane, QLD'', ''Perth, WA'',
                        ''Bondi Beach, NSW'', ''South Yarra, VIC'', ''Surfers Paradise, QLD'']"

definition defaultTypes2 :: "string list" where
  "defaultTypes2 = [''Apartment'', ''House'', ''Townhouse'', ''Unit'', ''Villa'']"

definition allAmenities :: "string list" where
  "allAmenities = [''Pool'', ''Garage'', ''Garden'', ''Balcony'', ''Air Conditioning'', ''Gym'',
                   ''Waterfront'', ''Sea View'', ''Mountain View'', ''Pet Friendly'']"

text \<open>
  The \<^verbatim>\<open>Property\<close> of this copy has the price as a number and the further fields of
  the property card. As above the record keeps the numbers that the strings
  \<^verbatim>\<open>details\<close>, \<^verbatim>\<open>imageUrl\<close>, \<^verbatim>\<open>description\<close> and \<^verbatim>\<open>size\<close> print; of the agent it
  keeps the number in the name and the number in the e-mail address, and of
  \<^verbatim>\<open>listedDate\<close> the instant, in milliseconds, that the ISO string denotes.
\<close>

record Property2 =
  p2_id :: number
  p2_title :: string
  p2_location :: string
  p2_price :: number
  p2_bedrooms :: number
  p2_bathrooms :: number
  p2_parking :: number
  p2_sqm :: number
  p2_amenities :: "string list"
  p2_tag :: "tag option"
  p2_tourAvailable :: bool
  p2_agent_name :: number
  p2_agent_email :: number
  p2_listedDate :: number
  p2_listingType :: listing_type

text \<open>
  The random draws of this copy. \<^verbatim>\<open>allAmenities.sort(() => 0.5 - Math.random())\<close>
  sorts the array in place with a random comparator; how many draws it makes and which
  order results depends on the engine, so the order of the array after the sort of
  iteration \<open>i\<close> is taken as the outcome \<open>r2_shuffle rs i\<close>: a rearrangement of
  \<^verbatim>\<open>allAmenities\<close>.
\<close>

record randoms2 =
  r2_count :: number
  r2_parking :: "nat \<Rightarrow> number"
  r2_sqm :: "nat \<Rightarrow> number"
  r2_shuffle :: "nat \<Rightarrow> string list"
  r2_amenity_count :: "nat \<Rightarrow> number"
  r2_price :: "nat \<Rightarrow> number"
  r2_has_tag :: "nat \<Rightarrow> number"
  r2_tag :: "nat \<Rightarrow> number"
  r2_listed :: "nat \<Rightarrow> number"
  r2_tour :: "nat \<Rightarrow> number"
  r2_agent_name :: "nat \<Rightarrow> number"
  r2_agent_email :: "nat \<Rightarrow> number"

definition valid_randoms2 :: "randoms2 \<Rightarrow> bool" where
  "valid_randoms2 rs \<longleftrightarrow>
     unit_interval (r2_count rs) \<and>
     (\<forall>i. unit_interval (r2_parking rs i) \<and> unit_interval (r2_sqm rs i) \<and>
          distinct (r2_shuffle rs i) \<and> set (r2_shuffle rs i) = set allAmenities \<and>
          unit_interval (r2_amenity_count rs i) \<and> unit_interval (r2_price rs i) \<and>
          unit_interval (r2_has_tag rs i) \<and> unit_interval (r2_tag rs i) \<and>
          unit_interval (r2_listed rs i) \<and> unit_interval (r2_tour rs i) \<and>
          unit_interval (r2_agent_name rs i) \<and> unit_interval (r2_agent_email rs i))"

text \<open>\<^verbatim>\<open>new Date(t)\<close> keeps the whole milliseconds of \<open>t\<close>.\<close>

definition Date_of :: "number \<Rightarrow> number" where
  "Date_of t = sgn t * of_int \<lfloor>\<bar>t\<bar>\<rfloor>"

definition mock_result2 :: "SearchParams \<Rightarrow> number \<Rightarrow> randoms2 \<Rightarrow> nat \<Rightarrow> Property2" where
  "mock_result2 params now rs i =
     (let ident = now + of_nat i;
          loc = or_str (location params) (defaultLocations2 ! (i mod length defaultLocations2));
          ptype = or_str (propertyType params) (defaultTypes2 ! (i mod length defaultTypes2));
          beds = or_num (bedroomsMin params) (2 + of_nat i);
          baths = or_num (bathroomsMin params) (if beds > 1 then beds - 1 else 1);
          parking = Math_floor (r2_parking rs i * 3);
          size = mock_sqm params beds (r2_sqm rs i);
          ams = (case amenities params of
                   Some (a # as) \<Rightarrow> a # as
                 | _ \<Rightarrow> take (nat (3 + \<lfloor>r2_amenity_count rs i * 3\<rfloor>)) (r2_shuffle rs i));
          ttl = (if length ams > 0
                 then or_str (style params) ''Modern'' @ '' '' @ ptype @ '' with '' @ hd ams
                 else or_str (style params) ''Spacious'' @ '' '' @ ptype);
          lt = (case listingType params of None \<Rightarrow> ForSale | Some t \<Rightarrow> t);
          priceValue = (if lt = ForRent \<or> lt = ForLease then mock_rent params (r2_price rs i)
                        else mock_price params (r2_price rs i))
      in \<lparr>p2_id = ident, p2_title = ttl, p2_location = loc, p2_price = priceValue,
          p2_bedrooms = beds, p2_bathrooms = baths, p2_parking = parking, p2_sqm = size,
          p2_amenities = ams, p2_tag = mock_tag params (r2_has_tag rs i) (r2_tag rs i) i,
          p2_tourAvailable = (r2_tour rs i > 1 / 2),
          p2_agent_name = Math_floor (r2_agent_name rs i * 10) + 1,
          p2_agent_email = Math_floor (r2_agent_email rs i * 10) + 1,
          p2_listedDate = Date_of (now - r2_listed rs i * 30 * 24 * 60 * 60 * 1000),
          p2_listingType = lt\<rparr>)"

definition generateMockResults2 :: "SearchParams \<Rightarrow> number \<Rightarrow> randoms2 \<Rightarrow> Property2 list" where
  "generateMockResults2 params now rs = map (mock_result2 params now rs) [0 ..< mock_count (r2_count rs)]"

text \<open>A search with nothing set, and random sources that always draw the same number.\<close>

definition emptyParams :: SearchParams where
  "emptyParams = \<lparr>location = None, locationRadiusKm = None, propertyType = None,
                   listingType = None, priceMin = None, priceMax = None, bedroomsMin = None,
                   bathroomsMin = None, sizeMetersMin = None, sizeMetersMax = None,
                   style = None, styleImage = None, amenities = None, tags = None\<rparr>"

definition constant_randoms :: "number \<Rightarrow> randoms" where
  "constant_randoms r = \<lparr>r_count = r, r_sqm = (\<lambda>i. r), r_price = (\<lambda>i. r),
                          r_has_tag = (\<lambda>i. r), r_tag = (\<lambda>i. r), r_tour = (\<lambda>i. r)\<rparr>"

definition constant_randoms2 :: "number \<Rightarrow> randoms2" where
  "constant_randoms2 r = \<lparr>r2_count = r, r2_parking = (\<lambda>i. r), r2_sqm = (\<lambda>i. r),
                           r2_shuffle = (\<lambda>i. allAmenities), r2_amenity_count = (\<lambda>i. r),
                           r2_price = (\<lambda>i. r), r2_has_tag = (\<lambda>i. r), r2_tag = (\<lambda>i. r),
                           r2_listed = (\<lambda>i. r), r2_tour = (\<lambda>i. r), r2_agent_name = (\<lambda>i. r),
                           r2_agent_email = (\<lambda>i. r)\<rparr>"

section \<open>JavaScript values\<close>

text \<open>
  The values that \<^verbatim>\<open>JSON.parse\<close> and \<^verbatim>\<open>response.json()\<close> produce, together with
  \<^verbatim>\<open>undefined\<close>. An object is the list of its own properties in insertion order.
\<close>

datatype jsval =
    Undefined
  | Null
  | Bool bool
  | Num number
  | Str string
  | Arr "jsval list"
  | Obj "(string \<times> jsval) list"

text \<open>Truthiness (\<^verbatim>\<open>!v\<close>, \<^verbatim>\<open>v && ...\<close>, \<^verbatim>\<open>v || ...\<close>).\<close>

fun truthy :: "jsval \<Rightarrow> bool" where
  "truthy Undefined = False"
| "truthy Null = False"
| "truthy (Bool b) = b"
| "truthy (Num n) = truthy_num n"
| "truthy (Str s) = (s \<noteq> [])"
| "truthy (Arr xs) = True"
| "truthy (Obj kvs) = True"

fun nullish :: "jsval \<Rightarrow> bool" where
  "nullish Undefined = True"
| "nullish Null = True"
| "nullish _ = False"

fun is_string :: "jsval \<Rightarrow> bool" where
  "is_string (Str s) = True"
| "is_string _ = False"

datatype js_error = TypeError | SyntaxError | NetworkError | Error string

text \<open>
  Reading the property \<open>k\<close> of a non-nullish value, for the property names the modelled
  code reads (\<^verbatim>\<open>query\<close>, \<^verbatim>\<open>currentParams\<close>, \<^verbatim>\<open>value\<close>, \<^verbatim>\<open>sourceText\<close>,
  \<^verbatim>\<open>candidates\<close>, ...): none of them is defined on a prototype, so only an object can
  have one. Reading a property of \<^verbatim>\<open>undefined\<close> or \<^verbatim>\<open>null\<close> throws.
\<close>

fun get_member :: "jsval \<Rightarrow> string \<Rightarrow> jsval" where
  "get_member (Obj kvs) k = (case map_of kvs k of None \<Rightarrow> Undefined | Some v \<Rightarrow> v)"
| "get_member _ k = Undefined"

definition member :: "jsval \<Rightarrow> string \<Rightarrow> js_error + jsval" where
  "member v k = (if nullish v then Inl TypeError else Inr (get_member v k))"

text \<open>
  The optional chain \<^verbatim>\<open>v?.k\<close> and the optional index \<^verbatim>\<open>v?.[0]\<close>: undefined for a
  nullish \<open>v\<close>.
\<close>

definition opt_member :: "jsval \<Rightarrow> string \<Rightarrow> jsval" where
  "opt_member v k = (if nullish v then Undefined else get_member v k)"

fun opt_first :: "jsval \<Rightarrow> jsval" where
  "opt_first (Arr (x # xs)) = x"
| "opt_first (Str (c # cs)) = Str [c]"
| "opt_first (Obj kvs) = get_member (Obj kvs) ''0''"
| "opt_first _ = Undefined"


text \<open>
  \<^verbatim>\<open>generateMockResults(params)\<close> on a value that was not checked against
  \<^verbatim>\<open>SearchParams\<close>: reading \<^verbatim>\<open>params.location\<close> throws when \<open>params\<close> is
  \<^verbatim>\<open>undefined\<close> or \<^verbatim>\<open>null\<close>, and \<^verbatim>\<open>propertyType.toLowerCase()\<close> throws when
  \<^verbatim>\<open>params.propertyType\<close> is truthy and not a string. Nothing else in the function
  throws.
\<close>

definition generateMockResults_throws :: "jsval \<Rightarrow> bool" where
  "generateMockResults_throws params \<longleftrightarrow>
     nullish params
     \<or> (truthy (get_member params ''propertyType'') \<and> \<not> is_string (get_member params ''propertyType''))"


section \<open>Effects\<close>

text \<open>
  What a handler does to the world outside its own state, in the order it does it:
  \<^item> it writes to the console;
  \<^item> the route handler calls Gemini (\<open>fetch_gemini apiKey query currentParams\<close>);
  \<^item> a component posts a JSON body to \<^verbatim>\<open>/api/voice/process\<close>;
  \<^item> it starts or stops a speech recognition session;
  \<^item> it hands results to \<^verbatim>\<open>onResults\<close> (\<open>onResults_of\<close>: the mock results generated
    from the given search parameters; \<open>onResults_found\<close>: the properties found by the
    property service), or calls \<^verbatim>\<open>onClose\<close>;
  \<^item> the realtime service opens its web socket, sends a message over it (\<open>ws_send\<close>
    gives the message whose JSON text is sent) or closes it; it closes the audio
    context, asks for the microphone, starts the media recorder or stops the tracks of
    the media stream; it calls the handlers registered under an event name with an
    event object (\<open>emit\<close>);
  \<^item> the realtime component asks the property service for a search, requests or cancels
    an animation frame;
  \<^item> it writes an item of \<^verbatim>\<open>localStorage\<close>;
  \<^item> it creates a realtime service with an API key and calls its \<^verbatim>\<open>initialize\<close>.
\<close>

datatype effect =
    console_error string
  | console_warn string
  | console_log string
  | fetch_gemini string jsval jsval
  | fetch_voice_process jsval
  | recognition_start
  | recognition_stop
  | onResults_of jsval
  | onResults_found "jsval list"
  | onClose
  | ws_connect string
  | ws_send jsval
  | ws_close
  | audioContext_close
  | getUserMedia
  | mediaRecorder_start
  | mediaStream_stop
  | emit string jsval
  | searchProperties jsval
  | requestAnimationFrame
  | cancelAnimationFrame
  | localStorage_setItem string string
  | initializeService string


section \<open>The route handler \<^verbatim>\<open>POST\<close> of the voice-processing API\<close>


record http_response =
  status_code :: nat
  json_body :: jsval

definition NextResponse_json :: "jsval \<Rightarrow> nat \<Rightarrow> http_response" where
  "NextResponse_json b st = \<lparr>status_code = st, json_body = b\<rparr>"

text \<open>The environment variables read by the handler.\<close>

record process_env =
  GOOGLE_AI_API_KEY :: "string option"
  GEMINI_API_KEY :: "string option"

definition apiKey_of :: "process_env \<Rightarrow> string option" where
  "apiKey_of env =
     (case GOOGLE_AI_API_KEY env of
        Some k \<Rightarrow> if k \<noteq> [] then Some k else
                   (case GEMINI_API_KEY env of Some k' \<Rightarrow> if k' \<noteq> [] then Some k' else None
                                            | None \<Rightarrow> None)
      | None \<Rightarrow> (case GEMINI_API_KEY env of Some k' \<Rightarrow> if k' \<noteq> [] then Some k' else None
                                          | None \<Rightarrow> None))"

text \<open>
  The outcome of the call to Gemini: the \<^verbatim>\<open>fetch\<close> rejects; or it answers with a
  status that is not OK and an error text (\<open>None\<close> when reading the text fails); or it
  answers OK with a JSON body (\<open>None\<close> when \<^verbatim>\<open>response.json()\<close> rejects).
\<close>

datatype gemini_outcome =
    FetchRejected
  | NotOk "string option"
  | Ok "jsval option"

text \<open>The catch block of the handler.\<close>

definition internal_server_error :: "effect list \<Rightarrow> http_response \<times> effect list" where
  "internal_server_error effs =
     (NextResponse_json (Obj [(''error'', Str ''Internal server error'')]) 500,
      effs @ [console_error ''Voice processing error:''])"

text \<open>
  \<^verbatim>\<open>const { query, currentParams } = await req.json()\<close>: destructuring
  \<^verbatim>\<open>null\<close> throws a \<^verbatim>\<open>TypeError\<close>.
\<close>

definition destructure_request :: "jsval \<Rightarrow> js_error + (jsval \<times> jsval)" where
  "destructure_request b =
     (if nullish b then Inl TypeError
      else Inr (get_member b ''query'', get_member b ''currentParams''))"

text \<open>\<^verbatim>\<open>data.candidates?.[0]?.content?.parts?.[0]?.text\<close>\<close>

definition extractedText_of :: "jsval \<Rightarrow> js_error + jsval" where
  "extractedText_of data =
     (case member data ''candidates'' of
        Inl e \<Rightarrow> Inl e
      | Inr cands \<Rightarrow>
          Inr (opt_member (opt_first (opt_member (opt_member (opt_first cands) ''content'') ''parts'')) ''text''))"

text \<open>
  The handler. \<open>JSON_parse\<close> is the built-in \<^verbatim>\<open>JSON.parse\<close> applied to the extracted
  text (\<open>None\<close> when it throws); \<open>req_json\<close> is the result of \<^verbatim>\<open>req.json()\<close>
  (\<open>None\<close> when the body is not JSON); \<open>gemini\<close> is what the call to Gemini would
  bring. The result is the response together with the effects in the order they happen.
\<close>

definition POST ::
  "(jsval \<Rightarrow> jsval option) \<Rightarrow> process_env \<Rightarrow> gemini_outcome \<Rightarrow> jsval option
     \<Rightarrow> http_response \<times> effect list" where
  "POST JSON_parse env gemini req_json =
     (case req_json of
        None \<Rightarrow> internal_server_error []
      | Some b \<Rightarrow>
          (case destructure_request b of
             Inl e \<Rightarrow> internal_server_error []
           | Inr (query, currentParams) \<Rightarrow>
               if \<not> truthy query \<or> \<not> is_string query then
                 (NextResponse_json (Obj [(''error'', Str ''Invalid query'')]) 400, [])
               else
                 (case apiKey_of env of
                    None \<Rightarrow> (NextResponse_json (Obj [(''error'', Str ''AI service not configured'')]) 500, [])
                  | Some apiKey \<Rightarrow>
                      (let called = [fetch_gemini apiKey query currentParams] in
                       case gemini of
                         FetchRejected \<Rightarrow> internal_server_error called
                       | NotOk None \<Rightarrow> internal_server_error called
                       | NotOk (Some errorText) \<Rightarrow>
                           (NextResponse_json (Obj [(''error'', Str ''Failed to process voice query'')]) 500,
                            called @ [console_error ''Gemini API error:''])
                       | Ok None \<Rightarrow> internal_server_error called
                       | Ok (Some data) \<Rightarrow>
                           (case extractedText_of data of
                              Inl e \<Rightarrow> internal_server_error called
                            | Inr extractedText \<Rightarrow>
                                if \<not> truthy extractedText then (NextResponse_json (Obj []) 200, called)
                                else (case JSON_parse extractedText of
                                        None \<Rightarrow> internal_server_error called
                                      | Some parsed \<Rightarrow> (NextResponse_json parsed 200, called)))))))"

text \<open>Whether the handler contacted Gemini.\<close>

fun is_fetch_gemini :: "effect \<Rightarrow> bool" where
  "is_fetch_gemini (fetch_gemini k q p) = True"
| "is_fetch_gemini _ = False"

definition contacts_gemini :: "http_response \<times> effect list \<Rightarrow> bool" where
  "contacts_gemini r \<longleftrightarrow> list_ex is_fetch_gemini (snd r)"

section \<open>Strings\<close>

text \<open>
  A string is a sequence of UTF-16 code units; a \<^typ>\<open>char\<close> stands for a code unit
  below 256 (Basic Latin and Latin-1 Supplement). \<^verbatim>\<open>String.prototype.trim\<close> removes
  white space and line terminators from both ends; in this range these are tab, line
  feed, vertical tab, form feed, carriage return, space and the no-break space U+00A0.
  \<^verbatim>\<open>toLowerCase\<close> maps the letters A to Z, and the letters U+00C0 to U+00DE other than
  the multiplication sign U+00D7, to the code unit 32 above.
\<close>

definition is_space :: "char \<Rightarrow> bool" where
  "is_space c \<longleftrightarrow>
     c \<in> set [CHR '' '', CHR 0x09, CHR 0x0A, CHR 0x0B, CHR 0x0C, CHR 0x0D, CHR 0xA0]"

definition trim :: "string \<Rightarrow> string" where
  "trim s = rev (dropWhile is_space (rev (dropWhile is_space s)))"

definition lower_char :: "char \<Rightarrow> char" where
  "lower_char c =
     (if ((65::nat) \<le> of_char c \<and> of_char c \<le> (90::nat))
         \<or> ((192::nat) \<le> of_char c \<and> of_char c \<le> (222::nat) \<and> of_char c \<noteq> (215::nat))
      then char_of (of_char c + (32::nat)) else c)"

definition toLowerCase :: "string \<Rightarrow> string" where
  "toLowerCase s = map lower_char s"

text \<open>\<^verbatim>\<open>s.includes(p)\<close>: \<open>p\<close> occurs in \<open>s\<close> as a contiguous substring.\<close>

fun String_includes :: "string \<Rightarrow> string \<Rightarrow> bool" where
  "String_includes [] p = (p = [])"
| "String_includes (x # xs) p = (prefix p (x # xs) \<or> String_includes xs p)"


section \<open>VoiceSearch.tsx: the constant tables\<close>

text \<open>
  A search-parameter object as it exists at run time: the list of its own properties.
  The extraction response is written into it unchecked, so any JavaScript value can
  stand under any key.
\<close>

type_synonym params = "(string \<times> jsval) list"

definition initialSearchParams :: params where
  "initialSearchParams =
     [(''location'', Undefined), (''locationRadiusKm'', Undefined), (''propertyType'', Undefined),
      (''listingType'', Undefined), (''priceMin'', Undefined), (''priceMax'', Undefined),
      (''bedroomsMin'', Undefined), (''bathroomsMin'', Undefined), (''sizeMetersMin'', Undefined),
      (''sizeMetersMax'', Undefined), (''style'', Undefined), (''styleImage'', Undefined),
      (''amenities'', Arr []), (''tags'', Arr [])]"

text \<open>The \<^verbatim>\<open>key\<close> fields of \<^verbatim>\<open>AMENITY_CONFIG\<close> and of \<^verbatim>\<open>PERMANENT_TAG_CONFIG\<close>.\<close>

definition AMENITY_CONFIG :: "string list" where
  "AMENITY_CONFIG =
     [''Pool'', ''Pets Allowed'', ''Garage'', ''Garden'', ''Gym'', ''Balcony'', ''Waterfront'',
      ''Sea View'', ''Mountain View'', ''City View'', ''Hot Tub'', ''Fireplace'', ''Laundry'',
      ''Furnished'', ''Dishwasher'', ''Hardwood Floors'', ''Wheelchair Accessible'',
      ''EV Charging'', ''Gated Community'', ''Security System'', ''Solar Panels'',
      ''Wine Cellar'', ''Home Office'', ''High Ceilings'', ''Central Heating'', ''Elevator'',
      ''Fenced Yard'', ''Good School District'', ''Outdoor Entertaining'', ''New Build'',
      ''Earthquake Strengthened'']"

definition PERMANENT_TAG_CONFIG :: "string list" where
  "PERMANENT_TAG_CONFIG = [''new'', ''premium'', ''open-house'', ''auction'']"

text \<open>
  \<^verbatim>\<open>key in initialSearchParams\<close>. The operator \<^verbatim>\<open>in\<close> follows the prototype chain:
  besides the fourteen own keys it holds for every property name of
  \<^verbatim>\<open>Object.prototype\<close>.
\<close>

definition Object_prototype_keys :: "string list" where
  "Object_prototype_keys =
     [''constructor'', ''__defineGetter__'', ''__defineSetter__'', ''hasOwnProperty'',
      ''__lookupGetter__'', ''__lookupSetter__'', ''isPrototypeOf'', ''propertyIsEnumerable'',
      ''toString'', ''valueOf'', ''__proto__'', ''toLocaleString'']"

definition own_keys :: "params \<Rightarrow> string list" where
  "own_keys obj = map fst obj"

definition key_in :: "string \<Rightarrow> params \<Rightarrow> bool" where
  "key_in key obj \<longleftrightarrow> key \<in> set (own_keys obj) \<or> key \<in> set Object_prototype_keys"


section \<open>VoiceSearch.tsx: objects, sets and spreads\<close>

text \<open>
  Reading an own property (\<^verbatim>\<open>undefined\<close> when there is none), the assignment
  \<^verbatim>\<open>obj[key] = v\<close> and the spread \<^verbatim>\<open>{ ...a, ...b }\<close>. Assigning to the key
  \<^verbatim>\<open>__proto__\<close> invokes the setter inherited from \<^verbatim>\<open>Object.prototype\<close> and creates
  no own property.
\<close>

definition own_prop :: "params \<Rightarrow> string \<Rightarrow> jsval" where
  "own_prop obj k = (case map_of obj k of None \<Rightarrow> Undefined | Some v \<Rightarrow> v)"

definition assign :: "params \<Rightarrow> string \<Rightarrow> jsval \<Rightarrow> params" where
  "assign obj k v = (if k = ''__proto__'' then obj else AList.update k v obj)"

definition spread :: "params \<Rightarrow> params \<Rightarrow> params" where
  "spread a b = foldl (\<lambda>obj (k, v). AList.update k v obj) a b"

text \<open>
  \<^verbatim>\<open>new Set(iterable)\<close>: the elements in insertion order, each once. Two elements
  are the same under SameValueZero when they are equal primitives; arrays and objects
  are compared by identity, and distinct occurrences in parsed data are distinct
  objects. Iterating a string yields its characters; iterating anything but an array
  or a string throws.
\<close>

fun same_value_zero :: "jsval \<Rightarrow> jsval \<Rightarrow> bool" where
  "same_value_zero (Arr xs) y = False"
| "same_value_zero (Obj kvs) y = False"
| "same_value_zero x y = (x = y)"

definition Set_has :: "jsval list \<Rightarrow> jsval \<Rightarrow> bool" where
  "Set_has s v \<longleftrightarrow> list_ex (same_value_zero v) s"

definition Set_add :: "jsval list \<Rightarrow> jsval \<Rightarrow> jsval list" where
  "Set_add s v = (if Set_has s v then s else s @ [v])"

fun iterate :: "jsval \<Rightarrow> js_error + jsval list" where
  "iterate (Arr xs) = Inr xs"
| "iterate (Str s) = Inr (map (\<lambda>c. Str [c]) s)"
| "iterate _ = Inl TypeError"

definition new_Set :: "jsval \<Rightarrow> js_error + jsval list" where
  "new_Set v = (case iterate v of Inl e \<Rightarrow> Inl e | Inr xs \<Rightarrow> Inr (foldl Set_add [] xs))"

text \<open>The same for a set of strings (\<^verbatim>\<open>glowingParams\<close>, \<^verbatim>\<open>highlightedText\<close>).\<close>

definition add_all :: "string list \<Rightarrow> string list \<Rightarrow> string list" where
  "add_all s xs = foldl (\<lambda>acc x. if x \<in> set acc then acc else acc @ [x]) s xs"

text \<open>The strings among the elements of an array.\<close>

fun strings_of :: "jsval list \<Rightarrow> string list" where
  "strings_of [] = []"
| "strings_of (Str s # xs) = s # strings_of xs"
| "strings_of (x # xs) = strings_of xs"


section \<open>VoiceSearch.tsx: the merge of an extraction response\<close>

text \<open>The three accumulators of the loop in \<^verbatim>\<open>processTranscript\<close>.\<close>

record merge_acc =
  updatedParamsPartial :: params
  newGlowing :: "string list"
  newlyHighlighted :: "string list"

text \<open>
  The branch for \<^verbatim>\<open>amenities\<close> and for \<^verbatim>\<open>tags\<close>: \<open>key\<close> is the branch, \<open>config\<close>
  its catalogue, \<open>searchParams\<close> the object the closure captured. The source calls
  \<^verbatim>\<open>.filter\<close> on \<^verbatim>\<open>param.value\<close>, which throws unless the value is an array. An
  element passes the filter when it is strictly equal to a catalogue key, hence a string,
  and the set of existing entries does not have it.
\<close>

definition merge_list ::
  "string \<Rightarrow> string list \<Rightarrow> params \<Rightarrow> jsval \<Rightarrow> merge_acc \<Rightarrow> js_error + merge_acc" where
  "merge_list key config searchParams v acc =
     (case new_Set (if truthy (own_prop searchParams key) then own_prop searchParams key else Arr []) of
        Inl e \<Rightarrow> Inl e
      | Inr existing \<Rightarrow>
          (case v of
             Arr xs \<Rightarrow>
               (let new = filter (\<lambda>a. a \<in> set config \<and> \<not> Set_has existing (Str a)) (strings_of xs)
                in if length new > 0
                   then Inr (acc\<lparr>updatedParamsPartial :=
                                   AList.update key (Arr (existing @ map Str new)) (updatedParamsPartial acc),
                                 newGlowing := newGlowing acc @ new\<rparr>)
                   else Inr acc)
           | _ \<Rightarrow> Inl TypeError))"

text \<open>
  \<^verbatim>\<open>param.sourceText.filter((s) => s && s.trim().length > 0)\<close>: a falsy element is
  dropped, a string is kept when it is not blank, and any other element has no
  \<^verbatim>\<open>trim\<close> method, which throws.
\<close>

fun filter_sourceText :: "jsval list \<Rightarrow> js_error + string list" where
  "filter_sourceText [] = Inr []"
| "filter_sourceText (s # ss) =
     (if \<not> truthy s then filter_sourceText ss
      else (case s of
              Str t \<Rightarrow> (case filter_sourceText ss of
                          Inl e \<Rightarrow> Inl e
                        | Inr ts \<Rightarrow> Inr (if length (trim t) > 0 then t # ts else ts))
            | _ \<Rightarrow> Inl TypeError))"

definition merge_sourceText :: "jsval \<Rightarrow> merge_acc \<Rightarrow> js_error + merge_acc" where
  "merge_sourceText sourceText acc =
     (case sourceText of
        Arr ss \<Rightarrow> (case filter_sourceText ss of
                     Inl e \<Rightarrow> Inl e
                   | Inr ts \<Rightarrow> Inr (acc\<lparr>newlyHighlighted := newlyHighlighted acc @ ts\<rparr>))
      | _ \<Rightarrow> Inr acc)"

text \<open>
  The body of the loop for one own property \<open>(key, param)\<close> of the response. Every key
  the loop sees is an own property, so the \<^verbatim>\<open>hasOwnProperty\<close> test holds.
\<close>

definition merge_key :: "params \<Rightarrow> merge_acc \<Rightarrow> string \<times> jsval \<Rightarrow> js_error + merge_acc" where
  "merge_key searchParams acc kp =
     (let key = fst kp; param = snd kp in
      if \<not> key_in key initialSearchParams then Inr acc
      else if \<not> truthy param \<or> get_member param ''value'' = Undefined
                \<or> get_member param ''value'' = Null then Inr acc
      else
        (case (if key = ''amenities'' then
                 merge_list ''amenities'' AMENITY_CONFIG searchParams (get_member param ''value'') acc
               else if key = ''tags'' then
                 merge_list ''tags'' PERMANENT_TAG_CONFIG searchParams (get_member param ''value'') acc
               else
                 Inr (acc\<lparr>updatedParamsPartial :=
                            assign (updatedParamsPartial acc) key (get_member param ''value''),
                          newGlowing := newGlowing acc @ [key]\<rparr>)) of
           Inl e \<Rightarrow> Inl e
         | Inr acc' \<Rightarrow> merge_sourceText (get_member param ''sourceText'') acc'))"

text \<open>
  The properties of the response that the loop passes over: the key is not
  \<^verbatim>\<open>in initialSearchParams\<close>, or the parameter is falsy, or its \<^verbatim>\<open>value\<close> is
  \<^verbatim>\<open>undefined\<close> or \<^verbatim>\<open>null\<close>.
\<close>

definition skipped :: "string \<times> jsval \<Rightarrow> bool" where
  "skipped kp \<longleftrightarrow>
     \<not> key_in (fst kp) initialSearchParams \<or> \<not> truthy (snd kp)
     \<or> get_member (snd kp) ''value'' = Undefined \<or> get_member (snd kp) ''value'' = Null"

text \<open>An object all of whose own properties are set: none is \<^verbatim>\<open>undefined\<close> or \<^verbatim>\<open>null\<close>.\<close>

definition set_values :: "params \<Rightarrow> bool" where
  "set_values obj \<longleftrightarrow> list_all (\<lambda>kv. \<not> nullish (snd kv)) obj"

fun merge_loop :: "params \<Rightarrow> merge_acc \<Rightarrow> (string \<times> jsval) list \<Rightarrow> js_error + merge_acc" where
  "merge_loop searchParams acc [] = Inr acc"
| "merge_loop searchParams acc (kp # kps) =
     (case merge_key searchParams acc kp of
        Inl e \<Rightarrow> Inl e
      | Inr acc' \<Rightarrow> merge_loop searchParams acc' kps)"

text \<open>
  \<^verbatim>\<open>for (const key in responseData)\<close>: the own properties of an object, in insertion
  order (keys that look like array indices come first, and are not keys of
  \<^verbatim>\<open>initialSearchParams\<close>); a parsed object has one property for each key. A string or an array has index keys only, and
  \<^verbatim>\<open>null\<close>, a number or a boolean has none, so for them the loop changes nothing.
  After the loop the price slider glows when the partial update holds a truthy
  \<^verbatim>\<open>priceMin\<close> or \<^verbatim>\<open>priceMax\<close> (read as own properties; a prototype installed
  through a \<^verbatim>\<open>__proto__\<close> key is not followed).
\<close>

definition enumerable_properties :: "jsval \<Rightarrow> (string \<times> jsval) list" where
  "enumerable_properties v = (case v of Obj kvs \<Rightarrow> kvs | _ \<Rightarrow> [])"

definition merge_response :: "params \<Rightarrow> jsval \<Rightarrow> js_error + merge_acc" where
  "merge_response searchParams responseData =
     (case merge_loop searchParams
             \<lparr>updatedParamsPartial = [], newGlowing = [], newlyHighlighted = []\<rparr>
             (enumerable_properties responseData) of
        Inl e \<Rightarrow> Inl e
      | Inr acc \<Rightarrow>
          Inr (if truthy (own_prop (updatedParamsPartial acc) ''priceMin'')
                  \<or> truthy (own_prop (updatedParamsPartial acc) ''priceMax'')
               then acc\<lparr>newGlowing := newGlowing acc @ [''priceSlider'']\<rparr> else acc))"


section \<open>VoiceSearch.tsx: the component\<close>

datatype SearchStatus = Demo | Idle | Listening | Processing | Confirming | Done

text \<open>
  A handler is a closure created by one render; it reads the values of
  \<^verbatim>\<open>isDemoMode\<close>, \<^verbatim>\<open>status\<close> and \<^verbatim>\<open>searchParams\<close> of that render, whatever the
  state has become when it runs.
\<close>

record closure =
  cl_isDemoMode :: bool
  cl_status :: SearchStatus
  cl_searchParams :: params

text \<open>
  The state of the component: its \<^verbatim>\<open>useState\<close> cells, the two refs, and the
  \<^verbatim>\<open>searchParams\<close> cell of the parent that \<^verbatim>\<open>setSearchParams\<close> updates.
  \<open>recognitionRef\<close> holds, for a running recognition session, the closure its
  \<^verbatim>\<open>onresult\<close> and \<^verbatim>\<open>onend\<close> handlers were created in. \<open>inFlight\<close> lists the
  calls of \<^verbatim>\<open>processTranscript\<close> that await the response to their \<^verbatim>\<open>fetch\<close>, each
  with the closure it runs in.
\<close>

record VoiceSearch =
  status :: SearchStatus
  isDemoMode :: bool
  animatedText :: string
  transcript :: string
  glowingParams :: "string list"
  highlightedText :: "string list"
  recognitionRef :: "closure option"
  lastFinalTranscript :: string
  searchParams :: params
  inFlight :: "closure list"

text \<open>The closure of a handler created by a render of the state \<open>c\<close>.\<close>

definition render :: "VoiceSearch \<Rightarrow> closure" where
  "render c = \<lparr>cl_isDemoMode = isDemoMode c, cl_status = status c, cl_searchParams = searchParams c\<rparr>"

definition switchToRealSearch :: "closure \<Rightarrow> VoiceSearch \<Rightarrow> VoiceSearch" where
  "switchToRealSearch cl c =
     (if cl_isDemoMode cl then c\<lparr>isDemoMode := False, animatedText := [], glowingParams := []\<rparr> else c)"

text \<open>\<^verbatim>\<open>prev => ({ ...initialSearchParams, tags: prev.tags })\<close>\<close>

definition reset_keeping_tags :: "params \<Rightarrow> params" where
  "reset_keeping_tags prev = AList.update ''tags'' (own_prop prev ''tags'') initialSearchParams"

definition handleCancel :: "closure \<Rightarrow> VoiceSearch \<Rightarrow> VoiceSearch \<times> effect list" where
  "handleCancel cl c =
     (let c1 = c\<lparr>status := Idle\<rparr>;
          stopped = (if recognitionRef c1 \<noteq> None then [recognition_stop] else []);
          c2 = c1\<lparr>recognitionRef := None\<rparr>;
          c3 = switchToRealSearch cl c2;
          c4 = c3\<lparr>transcript := [], lastFinalTranscript := [], highlightedText := [],
                  searchParams := reset_keeping_tags (searchParams c3), glowingParams := []\<rparr>
      in (c4, stopped))"

text \<open>
  \<^verbatim>\<open>handleStartListening\<close>; \<open>supported\<close> tells whether the browser has a
  \<^verbatim>\<open>SpeechRecognition\<close> constructor. The new session keeps the closure \<open>cl\<close>.
\<close>

definition handleStartListening :: "bool \<Rightarrow> closure \<Rightarrow> VoiceSearch \<Rightarrow> VoiceSearch \<times> effect list" where
  "handleStartListening supported cl c =
     (let c1 = (if cl_isDemoMode cl then switchToRealSearch cl c
                else if cl_status cl = Done \<or> cl_status cl = Idle \<or> cl_status cl = Confirming
                then c\<lparr>searchParams := reset_keeping_tags (searchParams c), glowingParams := []\<rparr>
                else c)
      in if \<not> supported then (c1, [console_error ''Speech Recognition not supported.''])
         else if recognitionRef c1 \<noteq> None then (c1, [])
         else (c1\<lparr>transcript := [], lastFinalTranscript := [], highlightedText := [],
                  status := Listening, recognitionRef := Some cl\<rparr>,
               [recognition_start]))"

definition handleStopListening :: "VoiceSearch \<Rightarrow> VoiceSearch \<times> effect list" where
  "handleStopListening c = (c, if recognitionRef c \<noteq> None then [recognition_stop] else [])"

text \<open>
  \<^verbatim>\<open>handleSearch\<close>: the results handed to \<^verbatim>\<open>onResults\<close> after 800 ms are generated
  from the \<^verbatim>\<open>searchParams\<close> of the closure; when their generation throws, the
  handler ends there and nothing is handed over.
\<close>

definition handleSearch :: "closure \<Rightarrow> VoiceSearch \<Rightarrow> VoiceSearch \<times> effect list" where
  "handleSearch cl c =
     (c\<lparr>status := Done\<rparr>,
      (if recognitionRef c \<noteq> None then [recognition_stop] else [])
      @ (if generateMockResults_throws (Obj (cl_searchParams cl)) then []
         else [onResults_of (Obj (cl_searchParams cl))]))"

text \<open>
  \<^verbatim>\<open>processTranscript\<close> up to its \<^verbatim>\<open>await\<close>. The regular expression accepts exactly
  seven commands.
\<close>

definition is_command :: "string \<Rightarrow> bool" where
  "is_command s \<longleftrightarrow>
     s \<in> set [''search'', ''let'' @ [CHR 0x27] @ ''s go'', ''lets go'', ''find'', ''ok'',
              ''find my house'', ''find my haus'']"

definition processTranscript_begin :: "closure \<Rightarrow> string \<Rightarrow> VoiceSearch \<Rightarrow> VoiceSearch \<times> effect list" where
  "processTranscript_begin cl text c =
     (if is_command (toLowerCase (trim text)) then handleSearch cl c
      else if length (trim text) < 3 then (c, [])
      else (c\<lparr>status := Processing, inFlight := inFlight c @ [cl]\<rparr>,
            [fetch_voice_process (Obj [(''query'', Str text), (''currentParams'', Obj (cl_searchParams cl))])]))"

text \<open>
  What the \<^verbatim>\<open>fetch\<close> brings: it rejects, or it resolves with a response that is OK or
  not and whose body parses as JSON or not.
\<close>

datatype fetch_outcome =
    Rejected
  | Response bool "jsval option"

text \<open>The catch block of \<^verbatim>\<open>processTranscript\<close>.\<close>

definition processTranscript_catch :: "VoiceSearch \<Rightarrow> VoiceSearch \<times> effect list" where
  "processTranscript_catch c =
     (c\<lparr>status := (if recognitionRef c \<noteq> None then Listening else Idle)\<rparr>,
      [console_error ''Error processing transcript:''])"

text \<open>
  \<^verbatim>\<open>processTranscript\<close> from the moment the \<^verbatim>\<open>fetch\<close> settles: \<open>c\<close> is the state
  at that moment, \<open>cl\<close> the closure the call was made in. The existing amenities and
  tags are read from the closure; the update is applied to the current state.
\<close>

definition processTranscript_settle ::
  "closure \<Rightarrow> fetch_outcome \<Rightarrow> VoiceSearch \<Rightarrow> VoiceSearch \<times> effect list" where
  "processTranscript_settle cl outcome c =
     (case outcome of
        Rejected \<Rightarrow> processTranscript_catch c
      | Response ok json \<Rightarrow>
          if \<not> ok then processTranscript_catch c
          else
            (case json of
               None \<Rightarrow> processTranscript_catch c
             | Some responseData \<Rightarrow>
                 (case merge_response (cl_searchParams cl) responseData of
                    Inl e \<Rightarrow> processTranscript_catch c
                  | Inr acc \<Rightarrow>
                      if length (updatedParamsPartial acc) > 0 then
                        (c\<lparr>searchParams := spread (searchParams c) (updatedParamsPartial acc),
                           glowingParams := add_all (glowingParams c) (newGlowing acc),
                           highlightedText := add_all [] (highlightedText c @ newlyHighlighted acc),
                           status := Confirming\<rparr>, [])
                      else (c\<lparr>status := (if recognitionRef c \<noteq> None then Listening else Idle)\<rparr>, []))))"

text \<open>
  The strings a settled call passes on to \<^verbatim>\<open>setHighlightedText\<close>, when it gets
  that far: the array \<^verbatim>\<open>newlyHighlighted\<close>.
\<close>

definition step_highlights :: "params \<Rightarrow> fetch_outcome \<Rightarrow> string list option" where
  "step_highlights sp outcome =
     (case outcome of
        Response True (Some responseData) \<Rightarrow>
          (case merge_response sp responseData of
             Inr acc \<Rightarrow> if length (updatedParamsPartial acc) > 0 then Some (newlyHighlighted acc) else None
           | Inl e \<Rightarrow> None)
      | _ \<Rightarrow> None)"

text \<open>
  \<^verbatim>\<open>recognition.onresult\<close>: \<open>results\<close> is \<^verbatim>\<open>event.results\<close>, each result with its
  \<^verbatim>\<open>isFinal\<close> flag and the transcript of its first alternative. \<open>raw_chunk\<close> is
  \<^verbatim>\<open>newChunk\<close>, when the final transcript is non-empty and differs from
  \<^verbatim>\<open>lastFinalTranscript.current\<close>.
\<close>

definition final_transcript :: "(bool \<times> string) list \<Rightarrow> string" where
  "final_transcript results = concat (map snd (filter fst results))"

definition interim_transcript :: "(bool \<times> string) list \<Rightarrow> string" where
  "interim_transcript results = concat (map snd (filter (\<lambda>r. \<not> fst r) results))"

definition raw_chunk :: "string \<Rightarrow> string \<Rightarrow> string option" where
  "raw_chunk lastFinal final =
     (if final \<noteq> [] \<and> final \<noteq> lastFinal then Some (drop (length lastFinal) final) else None)"

definition onresult :: "closure \<Rightarrow> (bool \<times> string) list \<Rightarrow> VoiceSearch \<Rightarrow> VoiceSearch \<times> effect list" where
  "onresult cl results c =
     (let c1 = (if cl_isDemoMode cl then switchToRealSearch cl c else c);
          final = final_transcript results;
          c2 = c1\<lparr>transcript := final @ interim_transcript results\<rparr>
      in case raw_chunk (lastFinalTranscript c2) final of
           None \<Rightarrow> (c2, [])
         | Some newChunk \<Rightarrow>
             (let c3 = c2\<lparr>lastFinalTranscript := final\<rparr>
              in if trim newChunk \<noteq> [] then processTranscript_begin cl (trim newChunk) c3
                 else (c3, [])))"

text \<open>
  A listening session: the states that successive \<^verbatim>\<open>onresult\<close> events lead through,
  and the chunks they cut off the final transcript.
\<close>

fun onresult_states :: "closure \<Rightarrow> VoiceSearch \<Rightarrow> (bool \<times> string) list list \<Rightarrow> VoiceSearch" where
  "onresult_states cl c [] = c"
| "onresult_states cl c (r # rs) = onresult_states cl (fst (onresult cl r c)) rs"

fun onresult_chunks :: "closure \<Rightarrow> VoiceSearch \<Rightarrow> (bool \<times> string) list list \<Rightarrow> string list" where
  "onresult_chunks cl c [] = []"
| "onresult_chunks cl c (r # rs) =
     (case raw_chunk (lastFinalTranscript c) (final_transcript r) of
        None \<Rightarrow> onresult_chunks cl (fst (onresult cl r c)) rs
      | Some newChunk \<Rightarrow> newChunk # onresult_chunks cl (fst (onresult cl r c)) rs)"

text \<open>
  The final transcript of a session only grows: the recogniser appends final results
  and never changes one.
\<close>

fun growing :: "string \<Rightarrow> (bool \<times> string) list list \<Rightarrow> bool" where
  "growing lastFinal [] = True"
| "growing lastFinal (r # rs) =
     (prefix lastFinal (final_transcript r) \<and> growing (final_transcript r) rs)"

definition onend :: "closure \<Rightarrow> VoiceSearch \<Rightarrow> VoiceSearch \<times> effect list" where
  "onend cl c =
     (let c1 = c\<lparr>recognitionRef := None\<rparr>
      in (if cl_status cl = Listening then c1\<lparr>status := Confirming\<rparr> else c1, []))"

text \<open>
  \<^verbatim>\<open>handleToggleTag\<close> and \<^verbatim>\<open>handlePriceChange\<close>. When \<^verbatim>\<open>prev.tags\<close> cannot
  be iterated the updater of \<^verbatim>\<open>handleToggleTag\<close> throws; the model then leaves the
  state as it is.
\<close>

definition handleToggleTag :: "closure \<Rightarrow> string \<Rightarrow> VoiceSearch \<Rightarrow> VoiceSearch \<times> effect list" where
  "handleToggleTag cl tagKey c =
     (let c1 = switchToRealSearch cl c;
          prev = searchParams c1;
          toggled =
            (case new_Set (if truthy (own_prop prev ''tags'') then own_prop prev ''tags'' else Arr []) of
               Inl e \<Rightarrow> None
             | Inr currentTags \<Rightarrow>
                 Some (if Set_has currentTags (Str tagKey)
                       then filter (\<lambda>t. t \<noteq> Str tagKey) currentTags
                       else currentTags @ [Str tagKey]))
      in case toggled of
           None \<Rightarrow> (c1, [])
         | Some ts \<Rightarrow>
             (c1\<lparr>searchParams := AList.update ''tags'' (Arr ts) prev,
                 glowingParams := add_all (glowingParams c1) [tagKey]\<rparr>, []))"

definition handlePriceChange :: "closure \<Rightarrow> number \<times> number \<Rightarrow> VoiceSearch \<Rightarrow> VoiceSearch \<times> effect list" where
  "handlePriceChange cl newRange c =
     (let c1 = switchToRealSearch cl c
      in (c1\<lparr>searchParams := AList.update ''priceMax'' (Num (snd newRange))
                                 (AList.update ''priceMin'' (Num (fst newRange)) (searchParams c1)),
             glowingParams := add_all (glowingParams c1) [''priceSlider'']\<rparr>, []))"

text \<open>The cleanup that runs when the component unmounts.\<close>

definition unmount_cleanup :: "VoiceSearch \<Rightarrow> VoiceSearch \<times> effect list" where
  "unmount_cleanup c = (c, if recognitionRef c \<noteq> None then [recognition_stop] else [])"

text \<open>
  The operations of the component. A click runs the handler of the latest render. A
  recognition event runs the handler of the session that emits it, in the closure the
  session was started in; \<^verbatim>\<open>handleCancel\<close> removes the \<^verbatim>\<open>onend\<close> handler of
  the session it stops, so that session emits no end event afterwards, but its
  \<^verbatim>\<open>onresult\<close> handler stays. A settled \<^verbatim>\<open>fetch\<close> resumes a call that awaits
  it, in that call's closure; the call is then no longer in flight.
\<close>

datatype vs_event =
    click_cancel
  | click_start bool
  | click_stop
  | click_search
  | toggle_tag string
  | price_change "number \<times> number"
  | recognition_result closure "(bool \<times> string) list"
  | recognition_end closure
  | fetch_settled closure fetch_outcome
  | unmount

fun vs_step :: "VoiceSearch \<Rightarrow> vs_event \<Rightarrow> VoiceSearch \<times> effect list" where
  "vs_step c click_cancel = handleCancel (render c) c"
| "vs_step c (click_start supported) = handleStartListening supported (render c) c"
| "vs_step c click_stop = handleStopListening c"
| "vs_step c click_search = handleSearch (render c) c"
| "vs_step c (toggle_tag tagKey) = handleToggleTag (render c) tagKey c"
| "vs_step c (price_change newRange) = handlePriceChange (render c) newRange c"
| "vs_step c (recognition_result cl results) = onresult cl results c"
| "vs_step c (recognition_end cl) = onend cl c"
| "vs_step c (fetch_settled cl outcome) =
     (if cl \<in> set (inFlight c)
      then processTranscript_settle cl outcome (c\<lparr>inFlight := remove1 cl (inFlight c)\<rparr>)
      else (c, []))"
| "vs_step c unmount = unmount_cleanup c"

fun vs_run :: "VoiceSearch \<Rightarrow> vs_event list \<Rightarrow> VoiceSearch \<times> effect list" where
  "vs_run c [] = (c, [])"
| "vs_run c (ev # evs) =
     (let (c1, effs1) = vs_step c ev; (c2, effs2) = vs_run c1 evs in (c2, effs1 @ effs2))"

text \<open>
  The kinds of effect the component has: it logs an error, posts to the extraction
  API, starts or stops the recognition session and hands results over.
\<close>

fun voice_search_effect :: "effect \<Rightarrow> bool" where
  "voice_search_effect (console_error msg) = True"
| "voice_search_effect (fetch_voice_process b) = True"
| "voice_search_effect recognition_start = True"
| "voice_search_effect recognition_stop = True"
| "voice_search_effect (onResults_of p) = True"
| "voice_search_effect _ = False"

text \<open>
  The state of a freshly mounted component; its parent \<^verbatim>\<open>HeroWithVoiceSearch\<close>
  starts with the empty object as \<^verbatim>\<open>searchParams\<close>.
\<close>

definition mounted :: VoiceSearch where
  "mounted = \<lparr>status = Demo, isDemoMode = True, animatedText = [], transcript = [],
               glowingParams = [], highlightedText = [], recognitionRef = None,
               lastFinalTranscript = [], searchParams = [], inFlight = []\<rparr>"
section \<open>EnhancedVoiceSearch.tsx and InstantVoiceSearch.tsx\<close>

datatype VoiceState = VS_initializing | VS_listening | VS_processing | VS_confirming | VS_complete

text \<open>
  The two modal components are built alike. A handler is a closure of one render and
  reads the state cells as they were in that render.
\<close>

record modal_closure =
  mc_state :: VoiceState
  mc_liveTranscript :: string
  mc_finalTranscript :: string
  mc_isListening :: bool

text \<open>
  The state cells the two components share (the enhanced variant calls the live
  transcript \<^verbatim>\<open>transcript\<close>; the instant variant has no \<^verbatim>\<open>showConfirm\<close>), and
  what is pending around them:
  \<^item> \<open>recognitions\<close>: the \<^verbatim>\<open>SpeechRecognition\<close> objects created so far, each with the
    closure its handlers were created in; \<^verbatim>\<open>recognitionRef.current\<close> is the last one,
    and is \<^verbatim>\<open>null\<close> as long as there is none;
  \<^item> \<open>mountTimer\<close>: the 500 ms timer set by the mount effect, with the closure of its
    callback, until it fires or is cleared;
  \<^item> \<open>silenceTimeout\<close>: the silence timer, in the same way;
  \<^item> \<open>requests\<close>: the number of requests to the extraction API that await their
    response.

  The components accumulate no search parameters: the response of the extraction API
  is handed over as the parameters of the search. The keyword badges
  (\<^verbatim>\<open>extractedKeywords\<close>, \<^verbatim>\<open>liveKeywords\<close>) are display only and are left out.
\<close>

record modal_search =
  voice_state :: VoiceState
  liveTranscript :: string
  finalTranscript :: string
  isListening :: bool
  showConfirm :: bool
  recognitions :: "modal_closure list"
  mountTimer :: "modal_closure option"
  silenceTimeout :: "modal_closure option"
  requests :: nat

definition modal_render :: "modal_search \<Rightarrow> modal_closure" where
  "modal_render c = \<lparr>mc_state = voice_state c, mc_liveTranscript = liveTranscript c,
                     mc_finalTranscript = finalTranscript c, mc_isListening = isListening c\<rparr>"

text \<open>
  A freshly mounted component: the mount effect has run (its dependency list is empty,
  so it runs for the first render only) and has set the timer that will call
  \<^verbatim>\<open>initializeVoiceRecognition\<close> of that render.
\<close>

definition first_render :: modal_closure where
  "first_render = \<lparr>mc_state = VS_initializing, mc_liveTranscript = [],
                    mc_finalTranscript = [], mc_isListening = False\<rparr>"

definition modal_mounted :: modal_search where
  "modal_mounted =
     \<lparr>voice_state = VS_initializing, liveTranscript = [], finalTranscript = [],
      isListening = False, showConfirm = False, recognitions = [],
      mountTimer = Some first_render, silenceTimeout = None, requests = 0\<rparr>"

text \<open>
  \<^verbatim>\<open>initializeVoiceRecognition\<close>; \<open>supported\<close> tells whether the browser has a
  \<^verbatim>\<open>SpeechRecognition\<close> constructor. The handlers of the new recognition object are
  closures of the render \<open>cl\<close>.
\<close>

definition initializeVoiceRecognition :: "bool \<Rightarrow> modal_closure \<Rightarrow> modal_search \<Rightarrow> modal_search \<times> effect list" where
  "initializeVoiceRecognition supported cl c =
     (if \<not> supported then (c, [console_error ''Speech Recognition not supported.'', onClose])
      else (c\<lparr>recognitions := recognitions c @ [cl]\<rparr>, [recognition_start]))"

definition modal_onstart :: "modal_search \<Rightarrow> modal_search \<times> effect list" where
  "modal_onstart c = (c\<lparr>isListening := True, voice_state := VS_listening\<rparr>, [])"

definition modal_onerror :: "string \<Rightarrow> modal_search \<Rightarrow> modal_search \<times> effect list" where
  "modal_onerror err c =
     (c\<lparr>isListening := False\<rparr>,
      console_error ''Speech recognition error:'' # (if err = ''no-speech'' then [onClose] else []))"

text \<open>
  \<^verbatim>\<open>resetSilenceTimer\<close> replaces the pending silence timer; when the timer fires, its
  callback stops the recognition if \<^verbatim>\<open>isListening\<close> held in the render of the closure.
\<close>

definition resetSilenceTimer :: "modal_closure \<Rightarrow> modal_search \<Rightarrow> modal_search" where
  "resetSilenceTimer cl c = c\<lparr>silenceTimeout := Some cl\<rparr>"

definition silence_timer_fires :: "modal_search \<Rightarrow> modal_search \<times> effect list" where
  "silence_timer_fires c =
     (case silenceTimeout c of
        None \<Rightarrow> (c, [])
      | Some cl \<Rightarrow>
          (c\<lparr>silenceTimeout := None\<rparr>,
           if recognitions c \<noteq> [] \<and> mc_isListening cl then [recognition_stop] else []))"

text \<open>
  The loop of \<^verbatim>\<open>onresult\<close> over the results from \<^verbatim>\<open>event.resultIndex\<close> on, each
  with its \<^verbatim>\<open>isFinal\<close> flag and the transcript of its first alternative.
\<close>

definition finalTranscriptUpdate :: "(bool \<times> string) list \<Rightarrow> string" where
  "finalTranscriptUpdate results = concat (map (\<lambda>r. snd r @ '' '') (filter fst results))"

definition interimTranscript :: "(bool \<times> string) list \<Rightarrow> string" where
  "interimTranscript results = concat (map snd (filter (\<lambda>r. \<not> fst r) results))"

text \<open>
  Both components continue alike when the \<^verbatim>\<open>fetch\<close> settles. There is no test of
  \<^verbatim>\<open>response.ok\<close>: whatever JSON the response carries becomes the search parameters,
  and the generation of the mock results and their delivery are scheduled; when the
  generation throws, nothing is delivered. The catch block runs when the \<^verbatim>\<open>fetch\<close>
  rejects or the body is not JSON.
\<close>

definition modal_processTranscript_settle :: "fetch_outcome \<Rightarrow> modal_search \<Rightarrow> modal_search \<times> effect list" where
  "modal_processTranscript_settle outcome c =
     (case outcome of
        Rejected \<Rightarrow> (c, [console_error ''Error processing transcript:'', onClose])
      | Response ok None \<Rightarrow> (c, [console_error ''Error processing transcript:'', onClose])
      | Response ok (Some data) \<Rightarrow>
          (c\<lparr>voice_state := VS_complete\<rparr>,
           if generateMockResults_throws data then [] else [onResults_of data]))"

text \<open>The cleanup of the mount effect, which runs when the component unmounts.\<close>

definition modal_unmount :: "modal_search \<Rightarrow> modal_search \<times> effect list" where
  "modal_unmount c =
     (c\<lparr>mountTimer := None, silenceTimeout := None\<rparr>,
      if recognitions c \<noteq> [] then [recognition_stop] else [])"

text \<open>
  What can happen to a modal component: its mount timer fires; the recognition object
  number \<open>i\<close> reports its start, a result, its end or an error; the silence timer
  fires; a button is clicked; the response to a request arrives; the component
  unmounts.
\<close>

datatype modal_event =
    mount_timer_fires bool
  | recognition_onstart nat
  | recognition_onresult nat "(bool \<times> string) list"
  | recognition_onend nat
  | recognition_onerror nat string
  | silence_timeout_fires
  | click_close
  | click_retry bool
  | click_find
  | response_settled fetch_outcome
  | modal_unmounts


subsection \<open>EnhancedVoiceSearch\<close>

definition CONFIRMATION_PHRASES :: "string list" where
  "CONFIRMATION_PHRASES =
     [''let'' @ [CHR 0x27] @ ''s go'', ''lets go'', ''okay'', ''yes'', ''search'', ''find'',
      ''do it'', ''confirm'']"

definition checkConfirmationPhrase :: "string \<Rightarrow> bool" where
  "checkConfirmationPhrase text =
     (let cleanText = trim (toLowerCase text)
      in list_ex (\<lambda>phrase. String_includes cleanText phrase) CONFIRMATION_PHRASES)"

text \<open>\<^verbatim>\<open>processTranscript\<close> up to its \<^verbatim>\<open>await\<close>, in the closure \<open>cl\<close>.\<close>

definition enhanced_processTranscript :: "modal_closure \<Rightarrow> modal_search \<Rightarrow> modal_search \<times> effect list" where
  "enhanced_processTranscript cl c =
     (let c1 = c\<lparr>voice_state := VS_processing\<rparr>; textToProcess = trim (mc_finalTranscript cl)
      in if length textToProcess < 5 then (c1, [onClose])
         else (c1\<lparr>requests := Suc (requests c1)\<rparr>,
               [fetch_voice_process (Obj [(''query'', Str textToProcess)])]))"

definition enhanced_handleSearch :: "modal_closure \<Rightarrow> modal_search \<Rightarrow> modal_search \<times> effect list" where
  "enhanced_handleSearch cl c =
     (let (c1, effs) = enhanced_processTranscript cl c
      in (c1, (if recognitions c \<noteq> [] then [recognition_stop] else []) @ effs))"

definition enhanced_onresult ::
  "modal_closure \<Rightarrow> (bool \<times> string) list \<Rightarrow> modal_search \<Rightarrow> modal_search \<times> effect list" where
  "enhanced_onresult cl results c =
     (let upd = finalTranscriptUpdate results;
          currentFullTranscript = mc_finalTranscript cl @ upd @ interimTranscript results;
          c1 = c\<lparr>liveTranscript := currentFullTranscript\<rparr>
      in if upd \<noteq> [] then
           (let c2 = resetSilenceTimer cl (c1\<lparr>finalTranscript := finalTranscript c1 @ upd\<rparr>)
            in if checkConfirmationPhrase upd then enhanced_handleSearch cl c2 else (c2, []))
         else (c1, []))"

definition enhanced_onend :: "modal_closure \<Rightarrow> modal_search \<Rightarrow> modal_search \<times> effect list" where
  "enhanced_onend cl c =
     (let c1 = c\<lparr>isListening := False\<rparr>
      in (if mc_state cl = VS_listening \<and> length (trim (mc_finalTranscript cl)) > 0
          then c1\<lparr>showConfirm := True, voice_state := VS_confirming\<rparr> else c1, []))"

definition handleRetry :: "bool \<Rightarrow> modal_closure \<Rightarrow> modal_search \<Rightarrow> modal_search \<times> effect list" where
  "handleRetry supported cl c =
     initializeVoiceRecognition supported cl
       (c\<lparr>finalTranscript := [], liveTranscript := [], showConfirm := False,
          voice_state := VS_listening\<rparr>)"

text \<open>
  One event. A recognition event runs the handler of the object that emits it, in the
  closure the object was created in. The two action buttons are rendered in the state
  \<^verbatim>\<open>confirming\<close> only and run the handlers of the latest render. A response can
  arrive only for a request that awaits it.
\<close>

fun enhanced_step :: "modal_search \<Rightarrow> modal_event \<Rightarrow> modal_search \<times> effect list" where
  "enhanced_step c (mount_timer_fires supported) =
     (case mountTimer c of
        None \<Rightarrow> (c, [])
      | Some cl \<Rightarrow> initializeVoiceRecognition supported cl (c\<lparr>mountTimer := None\<rparr>))"
| "enhanced_step c (recognition_onstart i) =
     (if i < length (recognitions c) then modal_onstart c else (c, []))"
| "enhanced_step c (recognition_onresult i results) =
     (if i < length (recognitions c) then enhanced_onresult (recognitions c ! i) results c else (c, []))"
| "enhanced_step c (recognition_onend i) =
     (if i < length (recognitions c) then enhanced_onend (recognitions c ! i) c else (c, []))"
| "enhanced_step c (recognition_onerror i err) =
     (if i < length (recognitions c) then modal_onerror err c else (c, []))"
| "enhanced_step c silence_timeout_fires = silence_timer_fires c"
| "enhanced_step c click_close = (c, [onClose])"
| "enhanced_step c (click_retry supported) =
     (if voice_state c = VS_confirming then handleRetry supported (modal_render c) c else (c, []))"
| "enhanced_step c click_find =
     (if voice_state c = VS_confirming then enhanced_handleSearch (modal_render c) c else (c, []))"
| "enhanced_step c (response_settled outcome) =
     (if requests c > 0 then modal_processTranscript_settle outcome (c\<lparr>requests := requests c - 1\<rparr>)
      else (c, []))"
| "enhanced_step c modal_unmounts = modal_unmount c"



subsection \<open>InstantVoiceSearch\<close>

text \<open>
  \<^verbatim>\<open>processCompleteTranscript\<close> up to its \<^verbatim>\<open>await\<close>; it falls back to the live
  transcript.
\<close>

definition processCompleteTranscript :: "modal_closure \<Rightarrow> modal_search \<Rightarrow> modal_search \<times> effect list" where
  "processCompleteTranscript cl c =
     (let c1 = c\<lparr>voice_state := VS_processing\<rparr>;
          textToProcess = (if trim (mc_finalTranscript cl) \<noteq> [] then trim (mc_finalTranscript cl)
                           else trim (mc_liveTranscript cl))
      in if length textToProcess < 5 then (c1, [onClose])
         else (c1\<lparr>requests := Suc (requests c1)\<rparr>,
               [fetch_voice_process (Obj [(''query'', Str textToProcess)])]))"

definition instant_onresult ::
  "modal_closure \<Rightarrow> (bool \<times> string) list \<Rightarrow> modal_search \<Rightarrow> modal_search \<times> effect list" where
  "instant_onresult cl results c =
     (let upd = finalTranscriptUpdate results;
          currentFullTranscript = mc_finalTranscript cl @ upd @ interimTranscript results;
          c1 = c\<lparr>liveTranscript := currentFullTranscript\<rparr>
      in if upd \<noteq> [] then (resetSilenceTimer cl (c1\<lparr>finalTranscript := finalTranscript c1 @ upd\<rparr>), [])
         else (c1, []))"

definition instant_onend :: "modal_closure \<Rightarrow> modal_search \<Rightarrow> modal_search \<times> effect list" where
  "instant_onend cl c =
     (let c1 = c\<lparr>isListening := False\<rparr>
      in if mc_state cl = VS_listening
            \<and> (length (trim (mc_finalTranscript cl)) > 0 \<or> length (trim (mc_liveTranscript cl)) > 0)
         then processCompleteTranscript cl c1 else (c1, []))"

text \<open>One event; the component has the close button only.\<close>

fun instant_step :: "modal_search \<Rightarrow> modal_event \<Rightarrow> modal_search \<times> effect list" where
  "instant_step c (mount_timer_fires supported) =
     (case mountTimer c of
        None \<Rightarrow> (c, [])
      | Some cl \<Rightarrow> initializeVoiceRecognition supported cl (c\<lparr>mountTimer := None\<rparr>))"
| "instant_step c (recognition_onstart i) =
     (if i < length (recognitions c) then modal_onstart c else (c, []))"
| "instant_step c (recognition_onresult i results) =
     (if i < length (recognitions c) then instant_onresult (recognitions c ! i) results c else (c, []))"
| "instant_step c (recognition_onend i) =
     (if i < length (recognitions c) then instant_onend (recognitions c ! i) c else (c, []))"
| "instant_step c (recognition_onerror i err) =
     (if i < length (recognitions c) then modal_onerror err c else (c, []))"
| "instant_step c silence_timeout_fires = silence_timer_fires c"
| "instant_step c click_close = (c, [onClose])"
| "instant_step c (click_retry supported) = (c, [])"
| "instant_step c click_find = (c, [])"
| "instant_step c (response_settled outcome) =
     (if requests c > 0 then modal_processTranscript_settle outcome (c\<lparr>requests := requests c - 1\<rparr>)
      else (c, []))"
| "instant_step c modal_unmounts = modal_unmount c"


text \<open>
  What holds of a modal component throughout its life: it is not in the state
  \<^verbatim>\<open>confirming\<close>, every recognition object and timer callback is a closure of the
  first render, and no request is in flight.
\<close>

definition first_render_only :: "modal_search \<Rightarrow> bool" where
  "first_render_only c \<longleftrightarrow>
     voice_state c \<noteq> VS_confirming
     \<and> list_all (\<lambda>cl. cl = first_render) (recognitions c)
     \<and> (mountTimer c = None \<or> mountTimer c = Some first_render)
     \<and> (silenceTimeout c = None \<or> silenceTimeout c = Some first_render)
     \<and> requests c = 0"



section \<open>OpenAIRealtimeService\<close>

datatype ready_state = CONNECTING | OPEN | CLOSING | CLOSED

text \<open>
  The fields of the service: \<open>ws\<close> is the \<^verbatim>\<open>readyState\<close> of the socket, when there is
  one; \<open>mediaStream\<close> and \<open>audioContext\<close> tell whether the field is set; the
  \<^verbatim>\<open>config\<close> object is spread into its fields. Two more cells record what the service
  awaits: \<open>connecting\<close> holds while the promise of \<^verbatim>\<open>connect\<close> is pending, and
  \<open>mediaRequests\<close> counts the calls of \<^verbatim>\<open>startRecording\<close> that await the
  microphone. The field \<^verbatim>\<open>audioChunks\<close> is never read and is left out; the handlers
  registered with \<^verbatim>\<open>on\<close> belong to the component, and calling them is the effect
  \<open>emit\<close>.
\<close>

record OpenAIRealtimeService =
  ws :: "ready_state option"
  isConnected :: bool
  isRecording :: bool
  mediaStream :: bool
  audioContext :: bool
  config_apiKey :: string
  config_model :: string
  config_voice :: string
  config_language :: "string option"
  config_temperature :: number
  config_instructions :: string
  currentSessionId :: jsval
  eventIdCounter :: nat
  connecting :: bool
  mediaRequests :: nat

definition default_instructions :: string where
  "default_instructions =
     concat
       [
        ''You are HAUS, an enthusiastic Australian real estate voice assistant. Help users find their perfect property in Australia using natural conversation.'' @ [CHR 0x0A],
        [CHR 0x0A],
        ''CRITICAL: You MUST respond in the language the user speaks.'' @ [CHR 0x0A],
        [CHR 0x0A],
        ''Australian Context:'' @ [CHR 0x0A],
        ''- Focus on Australian locations: Sydney, Melbourne, Brisbane, Perth, Adelaide, Canberra, Darwin, Hobart'' @ [CHR 0x0A],
        ''- Popular suburbs: Bondi, South Yarra, Surfers Paradise, Paddington, Fitzroy, Newtown, St Kilda, Manly'' @ [CHR 0x0A],
        ''- Use Australian property terminology: apartment/unit (not condo), house, townhouse, villa, terrace'' @ [CHR 0x0A],
        ''- Prices in Australian Dollars (AUD): $500K = $500,000, $1.5M = $1,500,000'' @ [CHR 0x0A],
        ''- Australian features: pool, garage, garden, balcony, air conditioning, solar panels'' @ [CHR 0x0A],
        [CHR 0x0A],
        ''When users describe what they want, extract these parameters:'' @ [CHR 0x0A],
        ''- Location (suburb, city, state, postcode)'' @ [CHR 0x0A],
        ''- Property type (house, apartment, unit, townhouse, villa, terrace, penthouse)'' @ [CHR 0x0A],
        ''- Price range (minimum and maximum in AUD)'' @ [CHR 0x0A],
        ''- Bedrooms and bathrooms'' @ [CHR 0x0A],
        ''- Amenities (pool, garage, garden, balcony, parking, etc.)'' @ [CHR 0x0A],
        [CHR 0x0A],
        ''Always:'' @ [CHR 0x0A],
        ''1. Be conversational and helpful'' @ [CHR 0x0A],
        ''2. Ask clarifying questions if needed'' @ [CHR 0x0A],
        ''3. Call search_properties with extracted parameters'' @ [CHR 0x0A],
        ''4. Explain the search results enthusiastically'' @ [CHR 0x0A],
        ''5. Suggest alternatives if no results found'' @ [CHR 0x0A],
        [CHR 0x0A],
        ''Remember: Respond naturally in the user'' @ [CHR 0x27] @ ''s language and focus on Australian real estate!'']"

text \<open>
  The constructor, as the component calls it: with an API key, a voice and a language;
  the model, the temperature and the instructions keep their defaults.
\<close>

definition new_OpenAIRealtimeService :: "string \<Rightarrow> string \<Rightarrow> string \<Rightarrow> OpenAIRealtimeService" where
  "new_OpenAIRealtimeService key voice language =
     \<lparr>ws = None, isConnected = False, isRecording = False, mediaStream = False,
      audioContext = False, config_apiKey = key, config_model = ''gpt-4o-realtime-preview'',
      config_voice = voice, config_language = Some language, config_temperature = 8 / 10,
      config_instructions = default_instructions, currentSessionId = Null,
      eventIdCounter = 0, connecting = False, mediaRequests = 0\<rparr>"

text \<open>
  What the code takes from the JavaScript environment: \<^verbatim>\<open>JSON.parse\<close> (\<open>None\<close>
  when it throws), \<^verbatim>\<open>JSON.stringify\<close>, the conversion of a value that is not a
  string to a string, and the two readings of \<^verbatim>\<open>Date.now()\<close> that one method
  makes.
\<close>

record js_env =
  JSON_parse_of :: "jsval \<Rightarrow> jsval option"
  JSON_stringify_of :: "jsval \<Rightarrow> string"
  ToString_of :: "jsval \<Rightarrow> string"
  Date_now1 :: nat
  Date_now2 :: nat

text \<open>Decimal digits of a natural number, as a template literal prints it.\<close>

fun digits :: "nat \<Rightarrow> string" where
  "digits n = (if n < 10 then [char_of (48 + n)] else digits (n div 10) @ [char_of (48 + n mod 10)])"

declare digits.simps [simp del]

text \<open>
  The socket's \<^verbatim>\<open>send\<close> is wrapped by \<^verbatim>\<open>connect\<close>: a \<^verbatim>\<open>session.update\<close> event gets
  the API key as its \<^verbatim>\<open>authorization\<close> before it is sent. \<^verbatim>\<open>sendMessage\<close> sends
  over an open socket and warns otherwise. (In the JSON text a property whose value is
  \<^verbatim>\<open>undefined\<close> is absent.)
\<close>

definition ws_send_wrapper :: "OpenAIRealtimeService \<Rightarrow> jsval \<Rightarrow> jsval" where
  "ws_send_wrapper s event =
     (case event of
        Obj kvs \<Rightarrow>
          if get_member event ''type'' = Str ''session.update''
          then Obj (AList.update ''authorization'' (Str (''Bearer '' @ config_apiKey s)) kvs)
          else event
      | _ \<Rightarrow> event)"

definition sendMessage :: "OpenAIRealtimeService \<Rightarrow> jsval \<Rightarrow> effect list" where
  "sendMessage s message =
     (if ws s = Some OPEN then [ws_send (ws_send_wrapper s message)]
      else [console_warn ''WebSocket not connected, cannot send message:''])"

definition sessionConfig :: "OpenAIRealtimeService \<Rightarrow> jsval" where
  "sessionConfig s =
     Obj [(''type'', Str ''session.update''),
          (''session'', Obj
            [(''modalities'', Arr [Str ''text'', Str ''audio'']),
             (''instructions'', Str (config_instructions s)),
             (''voice'', Str (config_voice s)),
             (''input_audio_format'', Str ''pcm16''),
             (''output_audio_format'', Str ''pcm16''),
             (''input_audio_transcription'', Obj [(''model'', Str ''whisper-1'')]),
             (''turn_detection'', Obj
               [(''type'', Str ''server_vad''), (''threshold'', Num (1 / 2)),
                (''prefix_padding_ms'', Num 300), (''silence_duration_ms'', Num 800)]),
             (''tools'', Arr
               [Obj [(''type'', Str ''function''),
                     (''name'', Str ''search_properties''),
                     (''description'', Str ''Search for properties based on user criteria''),
                     (''parameters'', Obj
                       [(''type'', Str ''object''),
                        (''properties'', Obj
                          [(''location'', Obj
                             [(''type'', Str ''string''),
                              (''description'', Str ''City, state, neighborhood, or area to search in'')]),
                           (''propertyType'', Obj
                             [(''type'', Str ''string''),
                              (''description'', Str ''Type of property: house, apartment, condo, loft, penthouse, townhouse, studio, etc.'')]),
                           (''priceMin'', Obj
                             [(''type'', Str ''number''),
                              (''description'', Str ''Minimum price in USD'')]),
                           (''priceMax'', Obj
                             [(''type'', Str ''number''),
                              (''description'', Str ''Maximum price in USD'')]),
                           (''bedrooms'', Obj
                             [(''type'', Str ''number''),
                              (''description'', Str ''Minimum number of bedrooms'')]),
                           (''amenities'', Obj
                             [(''type'', Str ''array''),
                              (''items'', Obj [(''type'', Str ''string'')]),
                              (''description'', Str ''List of desired amenities like pool, garage, garden, gym, balcony, etc.'')])])])]]),
             (''tool_choice'', Str ''auto''),
             (''temperature'', Num (config_temperature s))])]"

definition sendSessionUpdate :: "OpenAIRealtimeService \<Rightarrow> effect list" where
  "sendSessionUpdate s = sendMessage s (sessionConfig s)"

text \<open>
  \<^verbatim>\<open>emit(eventType, data)\<close> calls the handlers registered under the event type and
  those registered under \<^verbatim>\<open>*\<close> with the object \<^verbatim>\<open>{ type: eventType, ...data }\<close>.
\<close>

definition emit_event :: "string \<Rightarrow> (string \<times> jsval) list \<Rightarrow> effect list" where
  "emit_event eventType data =
     (let event = Obj (spread [(''type'', Str eventType)] data)
      in [emit eventType event, emit ''*'' event])"

text \<open>\<^verbatim>\<open>generateEventId\<close>, with \<open>now\<close> the reading of \<^verbatim>\<open>Date.now()\<close>.\<close>

definition generateEventId :: "nat \<Rightarrow> OpenAIRealtimeService \<Rightarrow> OpenAIRealtimeService \<times> string" where
  "generateEventId now s =
     (s\<lparr>eventIdCounter := Suc (eventIdCounter s)\<rparr>,
      ''event_'' @ digits now @ ''_'' @ digits (Suc (eventIdCounter s)))"

definition sendTextMessage ::
  "js_env \<Rightarrow> string \<Rightarrow> string option \<Rightarrow> OpenAIRealtimeService \<Rightarrow> OpenAIRealtimeService \<times> effect list" where
  "sendTextMessage env text language s =
     (let (s1, eventId) = generateEventId (Date_now1 env) s;
          message = Obj [(''event_id'', Str eventId),
                         (''type'', Str ''conversation.item.create''),
                         (''item'', Obj
                           [(''type'', Str ''message''),
                            (''role'', Str ''user''),
                            (''content'', Arr
                              [Obj [(''type'', Str ''input_text''),
                                    (''text'', Str (case language of
                                                     None \<Rightarrow> text
                                                   | Some l \<Rightarrow>
                                                       if l \<noteq> [] then ''[Language: '' @ l @ ''] '' @ text
                                                       else text))]])])];
          (s2, eventId2) = generateEventId (Date_now2 env) s1
      in (s2, sendMessage s2 message
              @ sendMessage s2 (Obj [(''event_id'', Str eventId2), (''type'', Str ''response.create'')])))"

definition sendFunctionResult ::
  "js_env \<Rightarrow> jsval \<Rightarrow> jsval \<Rightarrow> OpenAIRealtimeService \<Rightarrow> OpenAIRealtimeService \<times> effect list" where
  "sendFunctionResult env callId result s =
     (let (s1, eventId) = generateEventId (Date_now1 env) s;
          message = Obj [(''event_id'', Str eventId),
                         (''type'', Str ''conversation.item.create''),
                         (''item'', Obj
                           [(''type'', Str ''function_call_output''),
                            (''call_id'', callId),
                            (''output'', Str (JSON_stringify_of env result))])];
          (s2, eventId2) = generateEventId (Date_now2 env) s1
      in (s2, sendMessage s2 message
              @ sendMessage s2 (Obj [(''event_id'', Str eventId2), (''type'', Str ''response.create'')])))"

text \<open>
  \<^verbatim>\<open>initialize\<close>: the audio context is created and resumed and the socket is
  created; each of the three can fail, which the catch block logs. With the socket
  created the method awaits its opening.
\<close>

datatype initialize_outcome = ContextFails | ResumeFails | SocketFails | SocketCreated

definition initialize :: "initialize_outcome \<Rightarrow> OpenAIRealtimeService \<Rightarrow> OpenAIRealtimeService \<times> effect list" where
  "initialize outcome s =
     (case outcome of
        ContextFails \<Rightarrow> (s, [console_error ''Failed to initialize OpenAI Realtime Service:''])
      | ResumeFails \<Rightarrow>
          (s\<lparr>audioContext := True\<rparr>, [console_error ''Failed to initialize OpenAI Realtime Service:''])
      | SocketFails \<Rightarrow>
          (s\<lparr>audioContext := True\<rparr>, [console_error ''Failed to initialize OpenAI Realtime Service:''])
      | SocketCreated \<Rightarrow>
          (s\<lparr>audioContext := True, ws := Some CONNECTING, connecting := True\<rparr>,
           [ws_connect (''wss://api.openai.com/v1/realtime?model='' @ config_model s)]))"

text \<open>
  The callbacks of the socket. The events of a socket that \<^verbatim>\<open>disconnect\<close> has
  dropped still reach the callbacks; \<open>ws\<close> then stays unset.
\<close>

definition ws_onopen :: "OpenAIRealtimeService \<Rightarrow> OpenAIRealtimeService \<times> effect list" where
  "ws_onopen s =
     (let s1 = s\<lparr>ws := map_option (\<lambda>r. OPEN) (ws s), isConnected := True\<rparr>
      in (s1\<lparr>connecting := False\<rparr>,
          console_log ''Connected to OpenAI Realtime API'' # sendSessionUpdate s1))"

definition ws_onerror :: "OpenAIRealtimeService \<Rightarrow> OpenAIRealtimeService \<times> effect list" where
  "ws_onerror s =
     (s\<lparr>isConnected := False, connecting := False\<rparr>,
      console_error ''WebSocket error:''
      # (if connecting s then [console_error ''Failed to initialize OpenAI Realtime Service:''] else []))"

definition ws_onclose :: "OpenAIRealtimeService \<Rightarrow> OpenAIRealtimeService \<times> effect list" where
  "ws_onclose s =
     (s\<lparr>ws := map_option (\<lambda>r. CLOSED) (ws s), isConnected := False\<rparr>,
      [console_log ''Disconnected from OpenAI Realtime API''])"

text \<open>
  \<^verbatim>\<open>handleFunctionCall\<close>: the arguments of a call of \<^verbatim>\<open>search_properties\<close> are
  parsed and handed to the listeners; when they do not parse, the error is logged and
  reported back.
\<close>

definition handleFunctionCall ::
  "js_env \<Rightarrow> jsval \<Rightarrow> OpenAIRealtimeService \<Rightarrow> OpenAIRealtimeService \<times> effect list" where
  "handleFunctionCall env message s =
     (if get_member message ''name'' = Str ''search_properties'' then
        (case JSON_parse_of env (get_member message ''arguments'') of
           Some args \<Rightarrow>
             (s, emit_event ''property_search_requested''
                   [(''searchParams'', args), (''callId'', get_member message ''call_id'')])
         | None \<Rightarrow>
             (let (s1, effs) =
                    sendFunctionResult env (get_member message ''call_id'')
                      (Obj [(''error'', Str ''Invalid search parameters''),
                            (''message'', Str ''Could not parse search criteria'')]) s
              in (s1, console_error ''Error parsing function call arguments:'' # effs)))
      else (s, []))"

text \<open>
  \<^verbatim>\<open>handleRealtimeMessage\<close>, for a message that is not \<^verbatim>\<open>null\<close>: it is logged, the
  handlers registered under its type and under \<^verbatim>\<open>*\<close> are called with it, and the
  switch on its type follows. Reading \<^verbatim>\<open>message.session.id\<close> throws when the message
  has no session; the caller catches that.
\<close>

definition handleRealtimeMessage ::
  "js_env \<Rightarrow> jsval \<Rightarrow> OpenAIRealtimeService \<Rightarrow> OpenAIRealtimeService \<times> effect list" where
  "handleRealtimeMessage env message s =
     (let t = get_member message ''type'';
          props = (case message of Obj kvs \<Rightarrow> kvs | _ \<Rightarrow> []);
          heard = console_log ''Received realtime message:''
                  # (case t of Str name \<Rightarrow> [emit name message] | _ \<Rightarrow> []) @ [emit ''*'' message]
      in if t = Str ''session.created'' then
           (if nullish (get_member message ''session'')
            then (s, heard @ [console_error ''Error parsing realtime message:''])
            else (s\<lparr>currentSessionId := get_member (get_member message ''session'') ''id''\<rparr>,
                  heard @ emit_event ''session_ready'' props))
         else if t = Str ''input_audio_buffer.speech_started'' then
           (s, heard @ emit_event ''speech_started'' props)
         else if t = Str ''input_audio_buffer.speech_stopped'' then
           (s, heard @ emit_event ''speech_stopped'' props)
         else if t = Str ''response.created'' then
           (s, heard @ emit_event ''response_started'' props)
         else if t = Str ''response.audio_transcript.delta'' then
           (s, heard @ emit_event ''transcript_delta'' props)
         else if t = Str ''response.function_call_arguments.done'' then
           (let (s1, effs) = handleFunctionCall env message s in (s1, heard @ effs))
         else if t = Str ''response.done'' then
           (s, heard @ emit_event ''response_complete'' props)
         else if t = Str ''error'' then
           (s, heard @ console_error ''Realtime API error:'' # emit_event ''error'' props)
         else (s, heard))"

text \<open>
  \<^verbatim>\<open>ws.onmessage\<close>: \<open>parsed\<close> is the parsed \<^verbatim>\<open>event.data\<close>, \<open>None\<close> when it does
  not parse.
\<close>

definition ws_onmessage ::
  "js_env \<Rightarrow> jsval option \<Rightarrow> OpenAIRealtimeService \<Rightarrow> OpenAIRealtimeService \<times> effect list" where
  "ws_onmessage env parsed s =
     (case parsed of
        None \<Rightarrow> (s, [console_error ''Error parsing realtime message:''])
      | Some message \<Rightarrow>
          if nullish message then (s, [console_error ''Error parsing realtime message:''])
          else handleRealtimeMessage env message s)"

text \<open>
  \<^verbatim>\<open>startRecording\<close> up to its \<^verbatim>\<open>await\<close>, and from the moment the request for the
  microphone settles: it is denied, or the recorder cannot be created, or the recording
  starts. The error handed to the listeners is an object without enumerable properties.
\<close>

definition startRecording :: "OpenAIRealtimeService \<Rightarrow> OpenAIRealtimeService \<times> effect list" where
  "startRecording s =
     (if isRecording s \<or> \<not> audioContext s then (s, [])
      else (s\<lparr>mediaRequests := Suc (mediaRequests s)\<rparr>, [getUserMedia]))"

datatype media_outcome = MediaDenied | RecorderFails | RecorderStarted

definition startRecording_settle ::
  "media_outcome \<Rightarrow> OpenAIRealtimeService \<Rightarrow> OpenAIRealtimeService \<times> effect list" where
  "startRecording_settle outcome s =
     (if mediaRequests s = 0 then (s, [])
      else
        (let s1 = s\<lparr>mediaRequests := mediaRequests s - 1\<rparr>
         in case outcome of
              MediaDenied \<Rightarrow>
                (s1, console_error ''Error starting recording:''
                     # emit_event ''recording_error'' [(''error'', Obj [])])
            | RecorderFails \<Rightarrow>
                (s1\<lparr>mediaStream := True\<rparr>,
                 console_error ''Error starting recording:''
                 # emit_event ''recording_error'' [(''error'', Obj [])])
            | RecorderStarted \<Rightarrow>
                (s1\<lparr>mediaStream := True, isRecording := True\<rparr>,
                 mediaRecorder_start # emit_event ''recording_started'' [])))"

text \<open>
  The callbacks of the media recorder: a chunk of audio is empty, or cannot be read, or
  is sent in base 64; and when the recorder stops, the audio buffer is committed.
\<close>

datatype audio_chunk = EmptyChunk | UnreadableChunk | Base64Audio string

definition ondataavailable :: "audio_chunk \<Rightarrow> OpenAIRealtimeService \<Rightarrow> OpenAIRealtimeService \<times> effect list" where
  "ondataavailable chunk s =
     (case chunk of
        EmptyChunk \<Rightarrow> (s, [])
      | UnreadableChunk \<Rightarrow> (s, [console_error ''Error sending audio chunk:''])
      | Base64Audio base64Audio \<Rightarrow>
          (s, sendMessage s (Obj [(''type'', Str ''input_audio_buffer.append''),
                                  (''audio'', Str base64Audio)])))"

definition mediaRecorder_onstop :: "OpenAIRealtimeService \<Rightarrow> OpenAIRealtimeService \<times> effect list" where
  "mediaRecorder_onstop s = (s, sendMessage s (Obj [(''type'', Str ''input_audio_buffer.commit'')]))"

definition stopRecording :: "OpenAIRealtimeService \<Rightarrow> OpenAIRealtimeService \<times> effect list" where
  "stopRecording s =
     (if \<not> isRecording s \<or> \<not> mediaStream s then (s, [])
      else (s\<lparr>mediaStream := False, isRecording := False\<rparr>,
            mediaStream_stop # emit_event ''recording_stopped'' []))"

definition changeVoice :: "string \<Rightarrow> OpenAIRealtimeService \<Rightarrow> OpenAIRealtimeService \<times> effect list" where
  "changeVoice voice s =
     (let s1 = s\<lparr>config_voice := voice\<rparr>
      in (s1, if isConnected s1 then sendSessionUpdate s1 else []))"

definition changeLanguage :: "string \<Rightarrow> OpenAIRealtimeService \<Rightarrow> OpenAIRealtimeService \<times> effect list" where
  "changeLanguage language s =
     (let s1 = s\<lparr>config_language := Some language\<rparr>;
          updatedInstructions = config_instructions s1
            @ [CHR 0x0A, CHR 0x0A] @ ''IMPORTANT: Always respond in '' @ language @ '' language.''
      in (s1, if isConnected s1
              then sendMessage s1 (Obj [(''type'', Str ''session.update''),
                                        (''session'', Obj [(''instructions'', Str updatedInstructions)])])
              else []))"

definition interrupt :: "OpenAIRealtimeService \<Rightarrow> OpenAIRealtimeService \<times> effect list" where
  "interrupt s =
     (s, if isConnected s then sendMessage s (Obj [(''type'', Str ''response.cancel'')]) else [])"

definition disconnect :: "OpenAIRealtimeService \<Rightarrow> OpenAIRealtimeService \<times> effect list" where
  "disconnect s =
     (let (s1, e1) = (if isRecording s then stopRecording s else (s, []));
          (s2, e2) = (if ws s1 \<noteq> None then (s1\<lparr>ws := None\<rparr>, [ws_close]) else (s1, []));
          (s3, e3) = (if audioContext s2 then (s2\<lparr>audioContext := False\<rparr>, [audioContext_close])
                      else (s2, []));
          (s4, e4) = (if mediaStream s3 then (s3\<lparr>mediaStream := False\<rparr>, [mediaStream_stop])
                      else (s3, []))
      in (s4\<lparr>isConnected := False, currentSessionId := Null\<rparr>, e1 @ e2 @ e3 @ e4))"

text \<open>
  The operations of the service: the public methods, which a client calls, and the
  callbacks, by which the socket, the microphone and the recorder report back.
  Registering and removing a handler (\<^verbatim>\<open>on\<close>, \<^verbatim>\<open>off\<close>) and the three getters have
  no effect outside the service.
\<close>

datatype service_call =
    call_initialize initialize_outcome
  | call_startRecording
  | call_stopRecording
  | call_sendTextMessage string "string option"
  | call_sendFunctionResult jsval jsval
  | call_changeVoice string
  | call_changeLanguage string
  | call_interrupt
  | call_disconnect

datatype service_callback =
    socket_open
  | socket_message "jsval option"
  | socket_error
  | socket_close
  | microphone media_outcome
  | recorder_data audio_chunk
  | recorder_stop

fun service_perform :: "js_env \<Rightarrow> OpenAIRealtimeService \<Rightarrow> service_call \<Rightarrow> OpenAIRealtimeService \<times> effect list" where
  "service_perform env s (call_initialize outcome) = initialize outcome s"
| "service_perform env s call_startRecording = startRecording s"
| "service_perform env s call_stopRecording = stopRecording s"
| "service_perform env s (call_sendTextMessage text language) = sendTextMessage env text language s"
| "service_perform env s (call_sendFunctionResult callId result) = sendFunctionResult env callId result s"
| "service_perform env s (call_changeVoice voice) = changeVoice voice s"
| "service_perform env s (call_changeLanguage language) = changeLanguage language s"
| "service_perform env s call_interrupt = interrupt s"
| "service_perform env s call_disconnect = disconnect s"

fun service_notify ::
  "js_env \<Rightarrow> OpenAIRealtimeService \<Rightarrow> service_callback \<Rightarrow> OpenAIRealtimeService \<times> effect list" where
  "service_notify env s socket_open = ws_onopen s"
| "service_notify env s (socket_message parsed) = ws_onmessage env parsed s"
| "service_notify env s socket_error = ws_onerror s"
| "service_notify env s socket_close = ws_onclose s"
| "service_notify env s (microphone outcome) = startRecording_settle outcome s"
| "service_notify env s (recorder_data chunk) = ondataavailable chunk s"
| "service_notify env s recorder_stop = mediaRecorder_onstop s"

text \<open>A message that cancels the pending response, and the effects that cancel.\<close>

fun is_response_cancel :: "effect \<Rightarrow> bool" where
  "is_response_cancel (ws_send message) = (get_member message ''type'' = Str ''response.cancel'')"
| "is_response_cancel _ = False"


section \<open>EnhancedRealtimeVoiceSearch.tsx\<close>

datatype ConnectionState = CS_connecting | CS_connected | CS_listening | CS_speaking | CS_processing | CS_error

text \<open>
  The state cells of the component (\<open>spoken\<close> is the cell \<^verbatim>\<open>transcript\<close>), its refs,
  and what it awaits:
  \<^item> \<open>serviceRef\<close>: the service that \<^verbatim>\<open>serviceRef.current\<close> refers to, in its current
    state;
  \<^item> \<open>animationRef\<close>: whether an animation frame has been requested;
  \<^item> \<open>initializing\<close>: whether the call of \<^verbatim>\<open>initialize\<close> on that service is still to
    settle;
  \<^item> \<open>recordingCalls\<close> and \<open>searches\<close>: the number of calls of \<^verbatim>\<open>startRecording\<close> and
    of \<^verbatim>\<open>searchProperties\<close> that the component awaits.

  The cells \<^verbatim>\<open>aiResponse\<close>, which is never set, and \<^verbatim>\<open>audioLevels\<close>, which is
  display only, are left out.
\<close>

record realtime_search =
  connection_state :: ConnectionState
  spoken :: string
  showSettings :: bool
  selectedVoice :: string
  selectedLanguage :: string
  apiKey :: string
  serviceRef :: "OpenAIRealtimeService option"
  animationRef :: bool
  initializing :: bool
  recordingCalls :: nat
  searches :: nat

definition realtime_initial :: realtime_search where
  "realtime_initial =
     \<lparr>connection_state = CS_connecting, spoken = [], showSettings = False,
      selectedVoice = ''cedar'', selectedLanguage = ''en'', apiKey = [], serviceRef = None,
      animationRef = False, initializing = False, recordingCalls = 0, searches = 0\<rparr>"

text \<open>
  \<^verbatim>\<open>localStorage\<close> is the store of the browser profile; it outlives the component and
  the session. An effect list acts on it through its \<^verbatim>\<open>setItem\<close> calls.
\<close>

type_synonym storage = "(string \<times> string) list"

fun store_effect :: "storage \<Rightarrow> effect \<Rightarrow> storage" where
  "store_effect st (localStorage_setItem k v) = AList.update k v st"
| "store_effect st _ = st"

definition store_after :: "storage \<Rightarrow> effect list \<Rightarrow> storage" where
  "store_after st effs = foldl store_effect st effs"

text \<open>
  \<^verbatim>\<open>initializeService\<close>: a new service replaces the one in \<^verbatim>\<open>serviceRef\<close>, which is
  not disconnected, the handlers are registered on it and its \<^verbatim>\<open>initialize\<close> is
  called. \<open>voice\<close> and \<open>language\<close> are the selections of the render that makes the call.
\<close>

definition realtime_initializeService ::
  "string \<Rightarrow> string \<Rightarrow> string \<Rightarrow> realtime_search \<Rightarrow> realtime_search \<times> effect list" where
  "realtime_initializeService key voice language c =
     (c\<lparr>serviceRef := Some (new_OpenAIRealtimeService key voice language), initializing := True\<rparr>,
      [initializeService key])"

definition handleApiKeySave :: "string \<Rightarrow> realtime_search \<Rightarrow> realtime_search \<times> effect list" where
  "handleApiKeySave key c =
     (let (c1, effs) = realtime_initializeService key (selectedVoice c) (selectedLanguage c)
                         (c\<lparr>apiKey := key, showSettings := False\<rparr>)
      in (c1, localStorage_setItem ''openai_api_key'' key # effs))"

text \<open>
  The effect that runs when the component mounts reads the stored key back:
  \<^verbatim>\<open>localStorage.getItem('openai_api_key')\<close>.
\<close>

definition realtime_mount :: "storage \<Rightarrow> realtime_search \<times> effect list" where
  "realtime_mount st =
     (case map_of st ''openai_api_key'' of
        Some storedApiKey \<Rightarrow>
          if storedApiKey \<noteq> []
          then realtime_initializeService storedApiKey (selectedVoice realtime_initial)
                 (selectedLanguage realtime_initial) (realtime_initial\<lparr>apiKey := storedApiKey\<rparr>)
          else (realtime_initial\<lparr>connection_state := CS_error\<rparr>, [])
      | None \<Rightarrow> (realtime_initial\<lparr>connection_state := CS_error\<rparr>, []))"

text \<open>The cleanup of the mount effect, which runs when the component unmounts.\<close>

definition realtime_unmount :: "realtime_search \<Rightarrow> realtime_search \<times> effect list" where
  "realtime_unmount c =
     (let (c1, effs) = (case serviceRef c of
                          None \<Rightarrow> (c, [])
                        | Some s \<Rightarrow> (let (s1, e1) = disconnect s in (c\<lparr>serviceRef := Some s1\<rparr>, e1)))
      in (c1, effs @ (if animationRef c then [cancelAnimationFrame] else [])))"

text \<open>
  \<^verbatim>\<open>startRecording\<close> of the component up to its \<^verbatim>\<open>await\<close>, and
  \<^verbatim>\<open>startAudioVisualization\<close>, which follows when the call returns and which every
  animation frame repeats.
\<close>

definition realtime_startRecording :: "realtime_search \<Rightarrow> realtime_search \<times> effect list" where
  "realtime_startRecording c =
     (case serviceRef c of
        None \<Rightarrow> (c, [])
      | Some s \<Rightarrow>
          (let (s1, effs) = startRecording s
           in (c\<lparr>serviceRef := Some s1, recordingCalls := Suc (recordingCalls c)\<rparr>, effs)))"

definition startAudioVisualization :: "realtime_search \<Rightarrow> realtime_search \<times> effect list" where
  "startAudioVisualization c = (c\<lparr>animationRef := True\<rparr>, [requestAnimationFrame])"

text \<open>
  \<^verbatim>\<open>stopRecording\<close> of the component; no element of the page is bound to it and no
  handler calls it.
\<close>

definition realtime_stopRecording :: "realtime_search \<Rightarrow> realtime_search \<times> effect list" where
  "realtime_stopRecording c =
     (let (c1, effs) = (case serviceRef c of
                          None \<Rightarrow> (c, [])
                        | Some s \<Rightarrow> (let (s1, e1) = stopRecording s in (c\<lparr>serviceRef := Some s1\<rparr>, e1)))
      in (c1, effs @ (if animationRef c then [cancelAnimationFrame] else [])))"

text \<open>
  \<^verbatim>\<open>handlePropertySearch\<close> up to its \<^verbatim>\<open>await\<close> and from the moment the search
  settles: it fails, or it finds a list of properties. The first five are summarised for
  the assistant and all are handed to \<^verbatim>\<open>onResults\<close> after a second. The property
  service itself, which filters a list of randomly generated properties, is not
  modelled.
\<close>

definition handlePropertySearch :: "jsval \<Rightarrow> realtime_search \<Rightarrow> realtime_search \<times> effect list" where
  "handlePropertySearch params c = (c\<lparr>searches := Suc (searches c)\<rparr>, [searchProperties params])"

datatype search_outcome = SearchFails | Found "jsval list"

definition template :: "js_env \<Rightarrow> jsval \<Rightarrow> string" where
  "template env v = (case v of Str s \<Rightarrow> s | _ \<Rightarrow> ToString_of env v)"

definition property_summary :: "js_env \<Rightarrow> jsval \<Rightarrow> jsval" where
  "property_summary env p =
     Obj [(''title'', get_member p ''title''),
          (''price'', get_member p ''price''),
          (''location'', Str (template env (get_member p ''suburb'') @ '', ''
                              @ template env (get_member p ''state''))),
          (''bedrooms'', get_member p ''bedrooms''),
          (''bathrooms'', get_member p ''bathrooms'')]"

definition handlePropertySearch_settle ::
  "js_env \<Rightarrow> search_outcome \<Rightarrow> realtime_search \<Rightarrow> realtime_search \<times> effect list" where
  "handlePropertySearch_settle env outcome c =
     (if searches c = 0 then (c, [])
      else
        (let c1 = c\<lparr>searches := searches c - 1\<rparr>
         in case outcome of
              SearchFails \<Rightarrow> (c1, [console_error ''Property search error:''])
            | Found properties \<Rightarrow>
                (let (c2, effs) =
                       (case serviceRef c1 of
                          None \<Rightarrow> (c1, [])
                        | Some s \<Rightarrow>
                            (let (s1, e1) =
                                   sendFunctionResult env
                                     (Str (if length properties > 0 then ''success'' else ''no_results''))
                                     (Obj [(''count'', Num (of_nat (length properties))),
                                           (''properties'',
                                            Arr (map (property_summary env) (take 5 properties)))])
                                     s
                             in (c1\<lparr>serviceRef := Some s1\<rparr>, e1)))
                 in (c2, effs @ [onResults_found properties]))))"

text \<open>
  The handlers that \<^verbatim>\<open>initializeService\<close> registers on the service, by the event
  name they are registered under; \<open>event\<close> is the event object.
\<close>

definition realtime_on :: "js_env \<Rightarrow> string \<Rightarrow> jsval \<Rightarrow> realtime_search \<Rightarrow> realtime_search \<times> effect list" where
  "realtime_on env name event c =
     (if name = ''session_ready'' then realtime_startRecording (c\<lparr>connection_state := CS_connected\<rparr>)
      else if name = ''speech_started'' then (c\<lparr>connection_state := CS_listening\<rparr>, [])
      else if name = ''speech_stopped'' then (c\<lparr>connection_state := CS_processing\<rparr>, [])
      else if name = ''transcript_delta'' then
        (if truthy (get_member event ''delta'')
         then (c\<lparr>spoken := spoken c @ template env (get_member event ''delta'')\<rparr>, [])
         else (c, []))
      else if name = ''response_started'' then (c\<lparr>connection_state := CS_speaking\<rparr>, [])
      else if name = ''response_complete'' then realtime_startRecording (c\<lparr>connection_state := CS_connected\<rparr>)
      else if name = ''property_search_requested'' then
        handlePropertySearch (get_member event ''searchParams'') c
      else if name = ''error'' then
        (c\<lparr>connection_state := CS_error\<rparr>, [console_error ''Realtime service error:''])
      else (c, []))"

definition handleVoiceChange :: "string \<Rightarrow> realtime_search \<Rightarrow> realtime_search \<times> effect list" where
  "handleVoiceChange voiceId c =
     (let c1 = c\<lparr>selectedVoice := voiceId\<rparr>
      in case serviceRef c1 of
           None \<Rightarrow> (c1, [])
         | Some s \<Rightarrow> (let (s1, effs) = changeVoice voiceId s in (c1\<lparr>serviceRef := Some s1\<rparr>, effs)))"

definition handleLanguageChange :: "string \<Rightarrow> realtime_search \<Rightarrow> realtime_search \<times> effect list" where
  "handleLanguageChange languageCode c =
     (let c1 = c\<lparr>selectedLanguage := languageCode\<rparr>
      in case serviceRef c1 of
           None \<Rightarrow> (c1, [])
         | Some s \<Rightarrow> (let (s1, effs) = changeLanguage languageCode s in (c1\<lparr>serviceRef := Some s1\<rparr>, effs)))"

text \<open>
  What can happen to the mounted component: a click or an input in the page; a callback
  of the service in \<^verbatim>\<open>serviceRef\<close>; the settling of its \<^verbatim>\<open>initialize\<close>; a call of one
  of the registered handlers, by that service or by one that has been replaced; the
  return of \<^verbatim>\<open>startRecording\<close>; an animation frame; the settling of a property search;
  the unmounting.
\<close>

datatype realtime_event =
    rt_click_close
  | rt_toggle_settings
  | rt_close_settings
  | rt_type_apiKey string
  | rt_select_voice string
  | rt_select_language string
  | rt_click_save
  | rt_callback service_callback
  | rt_initialize_settles initialize_outcome
  | rt_on string jsval
  | rt_recording_returns
  | rt_animation_frame
  | rt_search_settles search_outcome
  | rt_unmounts

fun realtime_step :: "js_env \<Rightarrow> realtime_search \<Rightarrow> realtime_event \<Rightarrow> realtime_search \<times> effect list" where
  "realtime_step env c rt_click_close = (c, [onClose])"
| "realtime_step env c rt_toggle_settings = (c\<lparr>showSettings := \<not> showSettings c\<rparr>, [])"
| "realtime_step env c rt_close_settings = (c\<lparr>showSettings := False\<rparr>, [])"
| "realtime_step env c (rt_type_apiKey text) =
     (if showSettings c then (c\<lparr>apiKey := text\<rparr>, []) else (c, []))"
| "realtime_step env c (rt_select_voice voiceId) =
     (if showSettings c then handleVoiceChange voiceId c else (c, []))"
| "realtime_step env c (rt_select_language languageCode) =
     (if showSettings c then handleLanguageChange languageCode c else (c, []))"
| "realtime_step env c rt_click_save =
     (if showSettings c then handleApiKeySave (apiKey c) c else (c, []))"
| "realtime_step env c (rt_callback cb) =
     (case serviceRef c of
        None \<Rightarrow> (c, [])
      | Some s \<Rightarrow> (let (s1, effs) = service_notify env s cb in (c\<lparr>serviceRef := Some s1\<rparr>, effs)))"
| "realtime_step env c (rt_initialize_settles outcome) =
     (case serviceRef c of
        None \<Rightarrow> (c, [])
      | Some s \<Rightarrow>
          if initializing c
          then (let (s1, effs) = initialize outcome s
                in (c\<lparr>serviceRef := Some s1, initializing := False\<rparr>, effs))
          else (c, []))"
| "realtime_step env c (rt_on name event) = realtime_on env name event c"
| "realtime_step env c rt_recording_returns =
     (if recordingCalls c > 0 then startAudioVisualization (c\<lparr>recordingCalls := recordingCalls c - 1\<rparr>)
      else (c, []))"
| "realtime_step env c rt_animation_frame =
     (if animationRef c then startAudioVisualization c else (c, []))"
| "realtime_step env c (rt_search_settles outcome) = handlePropertySearch_settle env outcome c"
| "realtime_step env c rt_unmounts = realtime_unmount c"

text \<open>An environment for examples: nothing parses, and every text is empty.\<close>

definition plain_env :: js_env where
  "plain_env = \<lparr>JSON_parse_of = (\<lambda>v. None), JSON_stringify_of = (\<lambda>v. []),
                ToString_of = (\<lambda>v. []), Date_now1 = 0, Date_now2 = 0\<rparr>"

section \<open>Properties of the price range slider\<close>

lemma effective_simps:
  "effectiveMin (s\<lparr>localValues := v\<rparr>) = effectiveMin s"
  "effectiveMax (s\<lparr>localValues := v\<rparr>) = effectiveMax s"
  "effectiveStep (s\<lparr>localValues := v\<rparr>) = effectiveStep s"
  "effectiveMin (s\<lparr>isMinThumbDragging := b\<rparr>) = effectiveMin s"
  "effectiveMax (s\<lparr>isMinThumbDragging := b\<rparr>) = effectiveMax s"
  "effectiveStep (s\<lparr>isMinThumbDragging := b\<rparr>) = effectiveStep s"
  "effectiveMin (s\<lparr>isMaxThumbDragging := b\<rparr>) = effectiveMin s"
  "effectiveMax (s\<lparr>isMaxThumbDragging := b\<rparr>) = effectiveMax s"
  "effectiveStep (s\<lparr>isMaxThumbDragging := b\<rparr>) = effectiveStep s"
  by (simp_all add: effectiveMin_def effectiveMax_def effectiveStep_def isRent_def)

lemma effective_step_pos: "0 < effectiveStep s"
  by (simp add: effectiveStep_def)

lemma handleValueChange_simps:
  "minVal (handleValueChange s (a, b)) = a"
  "maxVal (handleValueChange s (a, b)) = b"
  "effectiveMin (handleValueChange s v) = effectiveMin s"
  "effectiveMax (handleValueChange s v) = effectiveMax s"
  "effectiveStep (handleValueChange s v) = effectiveStep s"
  by (simp_all add: handleValueChange_def minVal_def maxVal_def effective_simps)

text \<open>
  Each handler keeps the thumbs ordered and inside the effective range, provided they
  were so before. The range is needed: the keyboard handler clamps the minimum thumb
  up to \<open>effectiveMin\<close> and the maximum thumb down to \<open>effectiveMax\<close> without looking
  at the other thumb.
\<close>

lemma handleKeyDown_inv:
  assumes "ordered s" and "in_range s"
  shows "ordered (handleKeyDown s key t) \<and> in_range (handleKeyDown s key t)"
proof -
  have a: "minVal s + effectiveStep s \<le> maxVal s" "effectiveMin s \<le> minVal s"
    "maxVal s \<le> effectiveMax s"
    using assms by (simp_all add: ordered_def in_range_def)
  note p = effective_step_pos [of s]
  show ?thesis
    unfolding handleKeyDown_def Let_def ordered_def in_range_def
    using a p by (cases t) (simp_all add: handleValueChange_simps min_def max_def)
qed

lemma handleMouseMove_inv:
  assumes "ordered s" and "in_range s"
  shows "ordered (handleMouseMove s ev) \<and> in_range (handleMouseMove s ev)"
proof -
  have a: "minVal s + effectiveStep s \<le> maxVal s" "effectiveMin s \<le> minVal s"
    "maxVal s \<le> effectiveMax s"
    using assms by (simp_all add: ordered_def in_range_def)
  note p = effective_step_pos [of s]
  show ?thesis
    unfolding handleMouseMove_def Let_def ordered_def in_range_def
    using a p
    by (simp add: handleValueChange_simps min_def max_def split: option.split prod.split)
qed

lemma handleMouse_flags_inv:
  assumes "ordered s" and "in_range s"
  shows "ordered (handleMouseUp s) \<and> in_range (handleMouseUp s)"
    and "ordered (handleMouseDown s t) \<and> in_range (handleMouseDown s t)"
  using assms
  by (auto simp: handleMouseUp_def handleMouseDown_def ordered_def in_range_def
                 minVal_def maxVal_def effective_simps split: thumb.splits)

lemma slider_step_inv:
  assumes "ordered s" and "in_range s"
  shows "ordered (slider_step s ev) \<and> in_range (slider_step s ev)"
  using assms
  by (cases ev) (simp_all add: handleKeyDown_inv handleMouseMove_inv handleMouse_flags_inv)

lemma slider_run_inv:
  assumes "ordered s" and "in_range s"
  shows "ordered (slider_run s evs) \<and> in_range (slider_run s evs)"
  using assms unfolding slider_run_def
  by (induction evs arbitrary: s) (simp_all add: slider_step_inv)

text \<open>
  Claim C10, as stated: from any state with \<open>minValue + step \<le> maxValue\<close> every slider
  interaction yields a pair that still satisfies it. This fails for a pair that lies
  below the effective range, as the controlled value may when the prices come from a
  voice query: with the thumbs at 50000 and 100000 on a sale listing, Home on the
  minimum thumb moves it to 100000, which is not 50000 below the maximum.
\<close>

theorem slider_ordered_counterexample:
  "ordered \<lparr>listingType_prop = Some ForSale, localValues = (50000, 100000),
             isMinThumbDragging = False, isMaxThumbDragging = False\<rparr>
   \<and> \<not> ordered (slider_run \<lparr>listingType_prop = Some ForSale, localValues = (50000, 100000),
                               isMinThumbDragging = False, isMaxThumbDragging = False\<rparr>
                    [KeyDown ''Home'' MinThumb])"
  by (simp add: slider_run_def ordered_def handleKeyDown_def handleValueChange_def
                minVal_def maxVal_def effectiveStep_def effectiveMin_def isRent_def)

text \<open>
  Claim C10, amended: from any state whose thumbs are ordered
  (\<open>minValue + step \<le> maxValue\<close>) and lie inside the effective range
  (\<open>effectiveMin \<le> minValue\<close> and \<open>maxValue \<le> effectiveMax\<close>), every sequence of slider
  interactions (pointer down, pointer moves over a track of non-zero width, pointer up,
  key presses on either thumb) yields a pair that is again ordered and inside the range.
\<close>

theorem slider_invariant:
  assumes "ordered s" and "in_range s" and "\<forall>ev \<in> set evs. finite_move ev"
  shows "ordered (slider_run s evs) \<and> in_range (slider_run s evs)"
  using assms(1,2) by (rule slider_run_inv)

theorem slider_invariant_witness:
  "ordered (slider_run \<lparr>listingType_prop = Some ForSale, localValues = (100000, 10000000),
                         isMinThumbDragging = False, isMaxThumbDragging = False\<rparr>
              [MouseDown MinThumb, MouseMove \<lparr>clientX = 137, rect = Some (100, 100)\<rparr>, MouseUp,
               KeyDown ''End'' MinThumb, KeyDown ''ArrowLeft'' MaxThumb])
   \<and> in_range (slider_run \<lparr>listingType_prop = Some ForSale, localValues = (100000, 10000000),
                           isMinThumbDragging = False, isMaxThumbDragging = False\<rparr>
              [MouseDown MinThumb, MouseMove \<lparr>clientX = 137, rect = Some (100, 100)\<rparr>, MouseUp,
               KeyDown ''End'' MinThumb, KeyDown ''ArrowLeft'' MaxThumb])"
proof -
  let ?s = "\<lparr>listingType_prop = Some ForSale, localValues = (100000, 10000000),
             isMinThumbDragging = False, isMaxThumbDragging = False\<rparr>"
  let ?evs = "[MouseDown MinThumb, MouseMove \<lparr>clientX = 137, rect = Some (100, 100)\<rparr>, MouseUp,
               KeyDown ''End'' MinThumb, KeyDown ''ArrowLeft'' MaxThumb]"
  have h1: "ordered ?s"
    by (simp add: ordered_def minVal_def maxVal_def effectiveStep_def isRent_def)
  have h2: "in_range ?s"
    by (simp add: in_range_def minVal_def maxVal_def effectiveMin_def effectiveMax_def isRent_def)
  have h3: "\<forall>ev \<in> set ?evs. finite_move ev"
    by simp
  show ?thesis
    by (rule slider_invariant [OF h1 h2 h3])
qed

section \<open>Properties of the mock results\<close>

text \<open>
  After rounding, the price is clamped by the two final \<^verbatim>\<open>if\<close> statements, first
  from above and then from below; each fires only for a truthy bound. A minimum of 0 is
  not enforced by a clamp, but with a positive maximum the price cannot fall below 0.
\<close>

lemma mock_price_in_range:
  assumes "priceMin params = Some lo" and "priceMax params = Some hi"
    and "hi \<noteq> 0" and "lo \<le> hi" and "unit_interval r"
  shows "lo \<le> mock_price params r \<and> mock_price params r \<le> hi"
proof (cases "lo = 0")
  case False
  then show ?thesis
    using assms by (simp add: mock_price_def is_truthy_def truthy_num_def Let_def)
next
  case True
  have hi: "0 < hi" using assms True by simp
  have r: "0 \<le> r" "r \<le> 1" using assms(5) by (simp_all add: unit_interval_def)
  define p where "p = min (800000 + r * (hi - 800000)) hi"
  have "0 \<le> 800000 + r * (hi - 800000)"
  proof (cases "hi \<le> 800000")
    case True
    have "r * (800000 - hi) \<le> 1 * (800000 - hi)"
      using r True by (intro mult_right_mono) simp_all
    then show ?thesis using hi by (simp add: algebra_simps)
  next
    case False
    then have "0 \<le> r * (hi - 800000)" using r by simp
    then show ?thesis by simp
  qed
  then have "0 \<le> p" using hi by (simp add: p_def)
  then have "0 \<le> \<lfloor>p / 100000 + 1 / 2\<rfloor>" by simp
  then have nn: "0 \<le> Math_round (p / 100000) * 100000" by (simp add: Math_round_def)
  have "mock_price params r =
          (if Math_round (p / 100000) * 100000 > hi then hi else Math_round (p / 100000) * 100000)"
    using assms(1,2,3) True
    by (simp add: mock_price_def is_truthy_def truthy_num_def or_num_def Let_def p_def)
  then show ?thesis using nn hi True by simp
qed

lemma mock_rent_in_range:
  assumes "priceMin params = Some lo" and "priceMax params = Some hi"
    and "hi \<noteq> 0" and "lo \<le> hi" and "unit_interval r"
  shows "lo \<le> mock_rent params r \<and> mock_rent params r \<le> hi"
proof (cases "lo = 0")
  case False
  then show ?thesis
    using assms by (simp add: mock_rent_def is_truthy_def truthy_num_def Let_def)
next
  case True
  have hi: "0 < hi" using assms True by simp
  have r: "0 \<le> r" "r \<le> 1" using assms(5) by (simp_all add: unit_interval_def)
  define p where "p = 2000 + r * (hi - 2000)"
  have "0 \<le> p"
  proof (cases "hi \<le> 2000")
    case True
    have "r * (2000 - hi) \<le> 1 * (2000 - hi)"
      using r True by (intro mult_right_mono) simp_all
    then show ?thesis using hi by (simp add: algebra_simps p_def)
  next
    case False
    then have "0 \<le> r * (hi - 2000)" using r by simp
    then show ?thesis by (simp add: p_def)
  qed
  then have "0 \<le> \<lfloor>p / 100 + 1 / 2\<rfloor>" by simp
  then have nn: "0 \<le> Math_round (p / 100) * 100" by (simp add: Math_round_def)
  have "mock_rent params r =
          (if Math_round (p / 100) * 100 > hi then hi else Math_round (p / 100) * 100)"
    using assms(1,2,3) True
    by (simp add: mock_rent_def is_truthy_def truthy_num_def or_num_def Let_def p_def)
  then show ?thesis using nn hi True by simp
qed

lemma round_half_away_mono:
  assumes "x \<le> y"
  shows "round_half_away d x \<le> round_half_away d y"
proof -
  have pos: "(0::rat) < 10 ^ d" by simp
  have nn: "\<And>z::rat. 0 \<le> of_int \<lfloor>\<bar>z\<bar> * 10 ^ d + 1 / 2\<rfloor> / (10 ^ d :: rat)"
  proof -
    fix z :: rat
    have "0 \<le> \<bar>z\<bar> * 10 ^ d + 1 / 2" by simp
    then have "0 \<le> \<lfloor>\<bar>z\<bar> * 10 ^ d + 1 / 2\<rfloor>" by simp
    then show "0 \<le> of_int \<lfloor>\<bar>z\<bar> * 10 ^ d + 1 / 2\<rfloor> / (10 ^ d :: rat)" by simp
  qed
  consider "0 \<le> x" | "y \<le> 0" | "x < 0" "0 < y" using assms by linarith
  then show ?thesis
  proof cases
    case 1
    then have y: "0 \<le> y" using assms by simp
    have "\<bar>x\<bar> * 10 ^ d + 1 / 2 \<le> \<bar>y\<bar> * 10 ^ d + 1 / 2" using 1 y assms by (simp add: mult_right_mono)
    then have "\<lfloor>\<bar>x\<bar> * 10 ^ d + 1 / 2\<rfloor> \<le> \<lfloor>\<bar>y\<bar> * 10 ^ d + 1 / 2\<rfloor>" by (rule floor_mono)
    then have le: "of_int \<lfloor>\<bar>x\<bar> * 10 ^ d + 1 / 2\<rfloor> / (10 ^ d :: rat) \<le> of_int \<lfloor>\<bar>y\<bar> * 10 ^ d + 1 / 2\<rfloor> / 10 ^ d"
      by (simp add: divide_right_mono)
    show ?thesis
    proof (cases "x = 0")
      case True
      then show ?thesis using nn [of y] y by (cases "y = 0") (simp_all add: round_half_away_def sgn_if)
    next
      case False
      then have "0 < x" "0 < y" using 1 assms by simp_all
      then show ?thesis using le by (simp add: round_half_away_def)
    qed
  next
    case 2
    then have x: "x \<le> 0" using assms by simp
    have "\<bar>y\<bar> * 10 ^ d + 1 / 2 \<le> \<bar>x\<bar> * 10 ^ d + 1 / 2" using 2 x assms by (simp add: mult_right_mono)
    then have "\<lfloor>\<bar>y\<bar> * 10 ^ d + 1 / 2\<rfloor> \<le> \<lfloor>\<bar>x\<bar> * 10 ^ d + 1 / 2\<rfloor>" by (rule floor_mono)
    then have le: "of_int \<lfloor>\<bar>y\<bar> * 10 ^ d + 1 / 2\<rfloor> / (10 ^ d :: rat) \<le> of_int \<lfloor>\<bar>x\<bar> * 10 ^ d + 1 / 2\<rfloor> / 10 ^ d"
      by (simp add: divide_right_mono)
    show ?thesis
    proof (cases "y = 0")
      case True
      then show ?thesis using nn [of x] x by (cases "x = 0") (simp_all add: round_half_away_def sgn_if)
    next
      case False
      then have "x < 0" "y < 0" using 2 assms by simp_all
      then show ?thesis using le by (simp add: round_half_away_def)
    qed
  next
    case 3
    have "round_half_away d x = - (of_int \<lfloor>\<bar>x\<bar> * 10 ^ d + 1 / 2\<rfloor> / 10 ^ d)"
      unfolding round_half_away_def sgn_neg [OF 3(1)] by simp
    then have a: "round_half_away d x \<le> 0" using nn [of x] by linarith
    have "round_half_away d y = of_int \<lfloor>\<bar>y\<bar> * 10 ^ d + 1 / 2\<rfloor> / 10 ^ d"
      unfolding round_half_away_def sgn_pos [OF 3(2)] by simp
    then have "0 \<le> round_half_away d y" using nn [of y] by linarith
    then show ?thesis using a by linarith
  qed
qed

lemma round_half_away_error:
  "\<bar>round_half_away d x - x\<bar> \<le> 1 / (2 * 10 ^ d)"
proof -
  define y where "y = \<bar>x\<bar> * 10 ^ d"
  have pos: "(0::rat) < 10 ^ d" by simp
  have 1: "of_int \<lfloor>y + 1 / 2\<rfloor> \<le> y + 1 / 2" by (rule of_int_floor_le)
  have 2: "y + 1 / 2 < of_int \<lfloor>y + 1 / 2\<rfloor> + 1" by linarith
  have "\<bar>of_int \<lfloor>y + 1 / 2\<rfloor> - y\<bar> \<le> 1 / 2" using 1 2 by linarith
  then have "\<bar>of_int \<lfloor>y + 1 / 2\<rfloor> - y\<bar> / 10 ^ d \<le> (1 / 2) / 10 ^ d"
    by (rule divide_right_mono) simp
  moreover have "\<bar>of_int \<lfloor>y + 1 / 2\<rfloor> - y\<bar> / 10 ^ d = \<bar>of_int \<lfloor>y + 1 / 2\<rfloor> / 10 ^ d - \<bar>x\<bar>\<bar>"
  proof -
    have "(of_int \<lfloor>y + 1 / 2\<rfloor> - y) / 10 ^ d = of_int \<lfloor>y + 1 / 2\<rfloor> / 10 ^ d - \<bar>x\<bar>"
      unfolding y_def by (simp add: diff_divide_distrib)
    then have "\<bar>of_int \<lfloor>y + 1 / 2\<rfloor> / 10 ^ d - \<bar>x\<bar>\<bar> = \<bar>(of_int \<lfloor>y + 1 / 2\<rfloor> - y) / 10 ^ d\<bar>"
      by simp
    also have "\<dots> = \<bar>of_int \<lfloor>y + 1 / 2\<rfloor> - y\<bar> / \<bar>10 ^ d\<bar>" by (rule abs_divide)
    finally show ?thesis by simp
  qed
  ultimately have e: "\<bar>of_int \<lfloor>y + 1 / 2\<rfloor> / 10 ^ d - \<bar>x\<bar>\<bar> \<le> 1 / (2 * 10 ^ d)" by simp
  have "round_half_away d x - x = sgn x * (of_int \<lfloor>y + 1 / 2\<rfloor> / 10 ^ d - \<bar>x\<bar>)"
    by (simp add: round_half_away_def y_def algebra_simps sgn_if)
  then have "\<bar>round_half_away d x - x\<bar> = \<bar>sgn x\<bar> * \<bar>of_int \<lfloor>y + 1 / 2\<rfloor> / 10 ^ d - \<bar>x\<bar>\<bar>"
    by (simp add: abs_mult)
  also have "\<dots> \<le> \<bar>of_int \<lfloor>y + 1 / 2\<rfloor> / 10 ^ d - \<bar>x\<bar>\<bar>"
    by (simp add: sgn_if)
  finally show ?thesis using e by simp
qed

lemma round_half_away_integer: "round_half_away d (of_int k / 10 ^ d) = of_int k / 10 ^ d"
proof -
  have "\<bar>of_int k / 10 ^ d :: rat\<bar> * 10 ^ d + 1 / 2 = of_int \<bar>k\<bar> + 1 / 2"
    by (simp add: abs_divide)
  moreover have "\<lfloor>of_int \<bar>k\<bar> + 1 / 2 :: rat\<rfloor> = \<bar>k\<bar>" by linarith
  ultimately have "round_half_away d (of_int k / 10 ^ d) = sgn (of_int k / 10 ^ d :: rat) * of_int \<bar>k\<bar> / 10 ^ d"
    by (simp add: round_half_away_def)
  also have "\<dots> = of_int k / 10 ^ d"
    by (cases "k < 0"; cases "k = 0")
       (simp_all add: sgn_if abs_if zero_less_divide_iff divide_less_0_iff)
  finally show ?thesis .
qed

lemma Number_toFixed_mono:
  assumes "x \<le> y"
  shows "Number_toFixed x d \<le> Number_toFixed y d"
proof -
  have fix1: "round_half_away d (10 ^ 21) = 10 ^ 21"
    using round_half_away_integer [of d "10 ^ 21 * 10 ^ d"] by simp
  have fix2: "round_half_away d (- (10 ^ 21)) = - (10 ^ 21)"
    using round_half_away_integer [of d "- (10 ^ 21 * 10 ^ d)"] by simp
  consider "\<bar>x\<bar> < 10 ^ 21" "\<bar>y\<bar> < 10 ^ 21" | "\<bar>x\<bar> \<ge> 10 ^ 21" "\<bar>y\<bar> \<ge> 10 ^ 21"
    | "\<bar>x\<bar> < 10 ^ 21" "\<bar>y\<bar> \<ge> 10 ^ 21" | "\<bar>x\<bar> \<ge> 10 ^ 21" "\<bar>y\<bar> < 10 ^ 21"
    by linarith
  then show ?thesis
  proof cases
    case 1
    then show ?thesis using round_half_away_mono [OF assms] by (simp add: Number_toFixed_def)
  next
    case 2
    then show ?thesis using assms by (simp add: Number_toFixed_def)
  next
    case 3
    then have "x \<le> 10 ^ 21" "10 ^ 21 \<le> y" using assms by linarith+
    then have "round_half_away d x \<le> y"
      using round_half_away_mono [of x "10 ^ 21" d] fix1 by linarith
    then show ?thesis using 3 by (simp add: Number_toFixed_def)
  next
    case 4
    then have "x \<le> - (10 ^ 21)" "- (10 ^ 21) \<le> y" using assms by linarith+
    then have "x \<le> round_half_away d y"
      using round_half_away_mono [of "- (10 ^ 21)" y d] fix2 by linarith
    then show ?thesis using 4 by (simp add: Number_toFixed_def)
  qed
qed

lemma Number_toFixed_error: "\<bar>Number_toFixed x d - x\<bar> \<le> 1 / (2 * 10 ^ d)"
  using round_half_away_error [of d x] by (simp add: Number_toFixed_def)

lemma shown_price_mono:
  assumes "a \<le> b"
  shows "shown_price (priceDisplay rental a) \<le> shown_price (priceDisplay rental b)"
proof (cases rental)
  case True
  then show ?thesis
    using round_half_away_mono [OF assms, of 3] by (simp add: priceDisplay_def toLocaleString_number_def)
next
  case False
  have "a / 1000000 \<le> b / 1000000" using assms by simp
  then have "Number_toFixed (a / 1000000) 2 \<le> Number_toFixed (b / 1000000) 2"
    by (rule Number_toFixed_mono)
  then show ?thesis using False by (simp add: priceDisplay_def)
qed

lemma shown_price_error: "\<bar>shown_price (priceDisplay rental a) - a\<bar> \<le> 5000"
proof (cases rental)
  case True
  have "\<bar>round_half_away 3 a - a\<bar> \<le> 1 / (2 * 10 ^ 3)" by (rule round_half_away_error)
  then show ?thesis using True by (simp add: priceDisplay_def toLocaleString_number_def)
next
  case False
  have "\<bar>Number_toFixed (a / 1000000) 2 - a / 1000000\<bar> \<le> 1 / (2 * 10 ^ 2)"
    by (rule Number_toFixed_error)
  then have "\<bar>Number_toFixed (a / 1000000) 2 - a / 1000000\<bar> * 1000000 \<le> 1 / (2 * 10 ^ 2) * 1000000"
    by (intro mult_right_mono) simp_all
  moreover have "\<bar>Number_toFixed (a / 1000000) 2 - a / 1000000\<bar> * 1000000
                 = \<bar>Number_toFixed (a / 1000000) 2 * 1000000 - a\<bar>"
  proof -
    have "\<bar>Number_toFixed (a / 1000000) 2 - a / 1000000\<bar> * \<bar>1000000\<bar>
            = \<bar>(Number_toFixed (a / 1000000) 2 - a / 1000000) * 1000000\<bar>"
      by (rule abs_mult [symmetric])
    also have "(Number_toFixed (a / 1000000) 2 - a / 1000000) * 1000000
                 = Number_toFixed (a / 1000000) 2 * 1000000 - a"
      by (simp add: algebra_simps)
    finally show ?thesis by simp
  qed
  ultimately show ?thesis using False by (simp add: priceDisplay_def)
qed

text \<open>
  A bound that is a whole multiple of 10000 is stated exactly by both formats, so for
  such bounds the amount on the card lies between \<^verbatim>\<open>priceMin\<close> and
  \<^verbatim>\<open>priceMax\<close> themselves.
\<close>

lemma shown_price_exact:
  "shown_price (priceDisplay rental (10000 * of_int k)) = 10000 * of_int k"
proof (cases rental)
  case True
  have "round_half_away 3 (of_int (10000 * k * 1000) / 10 ^ 3) = of_int (10000 * k * 1000) / 10 ^ 3"
    by (rule round_half_away_integer)
  then show ?thesis using True by (simp add: priceDisplay_def toLocaleString_number_def)
next
  case False
  have e: "(10000 * of_int k :: rat) / 1000000 = of_int k / 10 ^ 2" by simp
  have "round_half_away 2 (of_int k / 10 ^ 2) = of_int k / 10 ^ 2"
    by (rule round_half_away_integer)
  then have "Number_toFixed (of_int k / 10 ^ 2) 2 = of_int k / 10 ^ 2"
    by (simp add: Number_toFixed_def)
  then show ?thesis using False unfolding priceDisplay_def e by simp
qed


lemma price_mock_result:
  "price (mock_result params now rs i) =
     (if is_rental params then priceDisplay True (mock_rent params (r_price rs i))
      else priceDisplay False (mock_price params (r_price rs i)))"
  by (simp add: mock_result_def Let_def)

lemma p2_price_mock_result2:
  "p2_price (mock_result2 params now rs i) =
     (if is_rental params then mock_rent params (r2_price rs i) else mock_price params (r2_price rs i))"
  by (auto simp: mock_result2_def Let_def is_rental_def split: option.split)

lemma mock_count_3_or_4:
  assumes "unit_interval r"
  shows "mock_count r = 3 \<or> mock_count r = 4"
proof -
  have "0 \<le> r * 2" "r * 2 < 2" using assms by (simp_all add: unit_interval_def)
  then have "0 \<le> \<lfloor>r * 2\<rfloor>" "\<lfloor>r * 2\<rfloor> < 2" by (simp_all add: floor_less_iff)
  then have "\<lfloor>r * 2\<rfloor> = 0 \<or> \<lfloor>r * 2\<rfloor> = 1" by linarith
  then show ?thesis by (auto simp: mock_count_def)
qed

lemma shown_price_in_range:
  assumes "lo \<le> a" and "a \<le> hi"
  shows "shown_price (priceDisplay rental lo) \<le> shown_price (priceDisplay rental a)
       \<and> shown_price (priceDisplay rental a) \<le> shown_price (priceDisplay rental hi)
       \<and> lo - 5000 \<le> shown_price (priceDisplay rental a)
       \<and> shown_price (priceDisplay rental a) \<le> hi + 5000"
  using shown_price_mono [OF assms(1), of rental] shown_price_mono [OF assms(2), of rental]
        shown_price_error [of rental a] assms
  by linarith

text \<open>
  Claim C8, amended: for every \<^verbatim>\<open>SearchParams\<close> in which \<^verbatim>\<open>priceMin\<close> and
  \<^verbatim>\<open>priceMax\<close> are both set, with \<^verbatim>\<open>priceMax\<close> not 0 and \<open>priceMin \<le> priceMax\<close>, and
  for every outcome of the random draws, \<^verbatim>\<open>generateMockResults\<close> returns three or four
  properties and the price of each lies between \<^verbatim>\<open>priceMin\<close> and \<^verbatim>\<open>priceMax\<close>:
  exactly so for the number that the copy with the numeric price returns, and up to the
  rounding of the format for the string that the other copy returns, in that the amount
  the string states lies between the amounts that \<^verbatim>\<open>priceMin\<close> and \<^verbatim>\<open>priceMax\<close>
  state in the same format, and between \<open>priceMin - 5000\<close> and \<open>priceMax + 5000\<close>.
\<close>

theorem generateMockResults_price_range:
  assumes "priceMin params = Some lo" and "priceMax params = Some hi"
    and "hi \<noteq> 0" and "lo \<le> hi" and "valid_randoms rs" and "valid_randoms2 rs2"
  shows "list_all (\<lambda>p. lo \<le> p2_price p \<and> p2_price p \<le> hi) (generateMockResults2 params now rs2)
       \<and> (length (generateMockResults2 params now rs2) = 3 \<or> length (generateMockResults2 params now rs2) = 4)
       \<and> list_all (\<lambda>p. shown_price (priceDisplay (is_rental params) lo) \<le> shown_price (price p)
                        \<and> shown_price (price p) \<le> shown_price (priceDisplay (is_rental params) hi)
                        \<and> lo - 5000 \<le> shown_price (price p) \<and> shown_price (price p) \<le> hi + 5000)
           (generateMockResults params now rs)
       \<and> (length (generateMockResults params now rs) = 3 \<or> length (generateMockResults params now rs) = 4)"
proof -
  have u: "\<And>i. unit_interval (r_price rs i)" and u2: "\<And>i. unit_interval (r2_price rs2 i)"
    using assms(5,6) by (simp_all add: valid_randoms_def valid_randoms2_def)
  have c: "unit_interval (r_count rs)" and c2: "unit_interval (r2_count rs2)"
    using assms(5,6) by (simp_all add: valid_randoms_def valid_randoms2_def)
  have 1: "list_all (\<lambda>p. lo \<le> p2_price p \<and> p2_price p \<le> hi) (generateMockResults2 params now rs2)"
    using mock_price_in_range [OF assms(1-4) u2] mock_rent_in_range [OF assms(1-4) u2]
    by (simp add: generateMockResults2_def p2_price_mock_result2 list_all_iff)
  have 2: "length (generateMockResults2 params now rs2) = 3 \<or> length (generateMockResults2 params now rs2) = 4"
    using mock_count_3_or_4 [OF c2] by (simp add: generateMockResults2_def)
  have 3: "list_all (\<lambda>p. shown_price (priceDisplay (is_rental params) lo) \<le> shown_price (price p)
                        \<and> shown_price (price p) \<le> shown_price (priceDisplay (is_rental params) hi)
                        \<and> lo - 5000 \<le> shown_price (price p) \<and> shown_price (price p) \<le> hi + 5000)
           (generateMockResults params now rs)"
  proof (cases "is_rental params")
    case True
    have "\<And>i. lo \<le> mock_rent params (r_price rs i) \<and> mock_rent params (r_price rs i) \<le> hi"
      using mock_rent_in_range [OF assms(1-4) u] .
    then show ?thesis
      using True shown_price_in_range [of lo _ hi True]
      by (simp add: generateMockResults_def price_mock_result list_all_iff)
  next
    case False
    have "\<And>i. lo \<le> mock_price params (r_price rs i) \<and> mock_price params (r_price rs i) \<le> hi"
      using mock_price_in_range [OF assms(1-4) u] .
    then show ?thesis
      using False shown_price_in_range [of lo _ hi False]
      by (simp add: generateMockResults_def price_mock_result list_all_iff)
  qed
  have 4: "length (generateMockResults params now rs) = 3 \<or> length (generateMockResults params now rs) = 4"
    using mock_count_3_or_4 [OF c] by (simp add: generateMockResults_def)
  show ?thesis using 1 2 3 4 by blast
qed

lemma valid_constant_randoms: "unit_interval r \<Longrightarrow> valid_randoms (constant_randoms r)"
  by (simp add: valid_randoms_def constant_randoms_def)

lemma valid_constant_randoms2: "unit_interval r \<Longrightarrow> valid_randoms2 (constant_randoms2 r)"
  by (simp add: valid_randoms2_def constant_randoms2_def allAmenities_def)

theorem generateMockResults_price_range_witness:
  "list_all (\<lambda>p. 0 \<le> p2_price p \<and> p2_price p \<le> 3500000)
      (generateMockResults2 (emptyParams\<lparr>priceMin := Some 0, priceMax := Some 3500000\<rparr>)
         1000 (constant_randoms2 (7 / 10)))
   \<and> (length (generateMockResults2 (emptyParams\<lparr>priceMin := Some 0, priceMax := Some 3500000\<rparr>)
                 1000 (constant_randoms2 (7 / 10))) = 3
     \<or> length (generateMockResults2 (emptyParams\<lparr>priceMin := Some 0, priceMax := Some 3500000\<rparr>)
                 1000 (constant_randoms2 (7 / 10))) = 4)
   \<and> list_all (\<lambda>p. shown_price (priceDisplay (is_rental (emptyParams\<lparr>priceMin := Some 0, priceMax := Some 3500000\<rparr>)) 0)
                       \<le> shown_price (price p)
                    \<and> shown_price (price p)
                       \<le> shown_price (priceDisplay (is_rental (emptyParams\<lparr>priceMin := Some 0, priceMax := Some 3500000\<rparr>)) 3500000)
                    \<and> 0 - 5000 \<le> shown_price (price p) \<and> shown_price (price p) \<le> 3500000 + 5000)
      (generateMockResults (emptyParams\<lparr>priceMin := Some 0, priceMax := Some 3500000\<rparr>)
         1000 (constant_randoms (7 / 10)))
   \<and> (length (generateMockResults (emptyParams\<lparr>priceMin := Some 0, priceMax := Some 3500000\<rparr>)
                 1000 (constant_randoms (7 / 10))) = 3
     \<or> length (generateMockResults (emptyParams\<lparr>priceMin := Some 0, priceMax := Some 3500000\<rparr>)
                 1000 (constant_randoms (7 / 10))) = 4)"
proof -
  let ?p = "emptyParams\<lparr>priceMin := Some 0, priceMax := Some 3500000\<rparr>"
  have h1: "priceMin ?p = Some 0" and h2: "priceMax ?p = Some 3500000" by simp_all
  have h3: "(3500000::number) \<noteq> 0" and h4: "(0::number) \<le> 3500000" by simp_all
  have h5: "valid_randoms (constant_randoms (7 / 10))"
    by (simp add: valid_randoms_def constant_randoms_def unit_interval_def)
  have h6: "valid_randoms2 (constant_randoms2 (7 / 10))"
    by (simp add: valid_randoms2_def constant_randoms2_def unit_interval_def allAmenities_def)
  show ?thesis
    by (rule generateMockResults_price_range [OF h1 h2 h3 h4 h5 h6])
qed

text \<open>
  Claim C8, as stated, covers every search in which both bounds are set, and the price
  every copy returns. The source tests the bounds for truthiness
  (\<^verbatim>\<open>params.priceMax && ...\<close>, \<^verbatim>\<open>params.priceMax || ...\<close>), so a bound of
  \<^verbatim>\<open>0\<close> counts as absent: with both bounds set to 0 and every draw 0, the default
  range is used and the first result costs 800000, above the requested maximum. And the
  copy that returns the price as a string prints it in millions with two decimals: for
  the bounds 1234567 and 1236000 and every draw 0 the first result is priced
  \<^verbatim>\<open>$1.23M\<close>, below the requested minimum.
\<close>

theorem generateMockResults_price_counterexample:
  "priceMin (emptyParams\<lparr>priceMin := Some 0, priceMax := Some 0\<rparr>) = Some 0
   \<and> priceMax (emptyParams\<lparr>priceMin := Some 0, priceMax := Some 0\<rparr>) = Some 0
   \<and> valid_randoms2 (constant_randoms2 0)
   \<and> p2_price (generateMockResults2 (emptyParams\<lparr>priceMin := Some 0, priceMax := Some 0\<rparr>)
                  1000 (constant_randoms2 0) ! 0) = 800000
   \<and> priceMin (emptyParams\<lparr>priceMin := Some 1234567, priceMax := Some 1236000\<rparr>) = Some 1234567
   \<and> priceMax (emptyParams\<lparr>priceMin := Some 1234567, priceMax := Some 1236000\<rparr>) = Some 1236000
   \<and> valid_randoms (constant_randoms 0)
   \<and> price (generateMockResults (emptyParams\<lparr>priceMin := Some 1234567, priceMax := Some 1236000\<rparr>)
               1000 (constant_randoms 0) ! 0) = Millions (123 / 100)
   \<and> shown_price (Millions (123 / 100)) = 1230000"
proof -
  have c: "mock_count 0 = 3" by (simp add: mock_count_def)
  have a: "generateMockResults2 (emptyParams\<lparr>priceMin := Some 0, priceMax := Some 0\<rparr>)
             1000 (constant_randoms2 0) ! 0
           = mock_result2 (emptyParams\<lparr>priceMin := Some 0, priceMax := Some 0\<rparr>) 1000 (constant_randoms2 0) 0"
    using c by (simp add: generateMockResults2_def constant_randoms2_def)
  have b: "generateMockResults (emptyParams\<lparr>priceMin := Some 1234567, priceMax := Some 1236000\<rparr>)
             1000 (constant_randoms 0) ! 0
           = mock_result (emptyParams\<lparr>priceMin := Some 1234567, priceMax := Some 1236000\<rparr>) 1000 (constant_randoms 0) 0"
    using c by (simp add: generateMockResults_def constant_randoms_def)
  have f1: "\<lfloor>17 / 2 :: rat\<rfloor> = 8" by code_simp
  have p1: "mock_price (emptyParams\<lparr>priceMin := Some 0, priceMax := Some 0\<rparr>) 0 = 800000"
    using f1 by (simp add: emptyParams_def mock_price_def Math_round_def or_num_def is_truthy_def truthy_num_def)
  have p2: "mock_price (emptyParams\<lparr>priceMin := Some 1234567, priceMax := Some 1236000\<rparr>) 0 = 1234567"
    by code_simp
  have d: "priceDisplay False 1234567 = Millions (123 / 100)"
    by code_simp
  have r1: "\<not> is_rental (emptyParams\<lparr>priceMin := Some 0, priceMax := Some 0\<rparr>)"
    and r2: "\<not> is_rental (emptyParams\<lparr>priceMin := Some 1234567, priceMax := Some 1236000\<rparr>)"
    by (simp_all add: is_rental_def emptyParams_def)
  show ?thesis
    unfolding a b p2_price_mock_result2 price_mock_result
    using r1 r2 p1 p2 d
    by (simp add: valid_randoms_def valid_randoms2_def constant_randoms_def constant_randoms2_def
                  unit_interval_def allAmenities_def)
qed
section \<open>Properties of the route handler\<close>

text \<open>
  Claim C9, as stated: every POST whose JSON body lacks a \<^verbatim>\<open>query\<close> field, or whose
  \<^verbatim>\<open>query\<close> is not a string, is answered with status 400 and the body
  \<^verbatim>\<open>{"error": "Invalid query"}\<close>. The JSON body \<^verbatim>\<open>null\<close> has no \<^verbatim>\<open>query\<close>
  field, but destructuring it throws before the check is reached, and the catch block
  answers with status 500.
\<close>

theorem POST_null_body_counterexample:
  "\<not> is_string (get_member Null ''query'')
   \<and> POST Some \<lparr>GOOGLE_AI_API_KEY = Some ''key'', GEMINI_API_KEY = None\<rparr> (Ok (Some (Obj [])))
           (Some Null)
       = (\<lparr>status_code = 500, json_body = Obj [(''error'', Str ''Internal server error'')]\<rparr>,
          [console_error ''Voice processing error:''])"
  by (simp add: POST_def destructure_request_def internal_server_error_def NextResponse_json_def)

text \<open>
  Claim C9, amended: every POST whose JSON body is not \<^verbatim>\<open>null\<close> and either lacks a
  \<^verbatim>\<open>query\<close> field or has a \<^verbatim>\<open>query\<close> that is not a string is answered with status
  400 and the body \<^verbatim>\<open>{"error": "Invalid query"}\<close>, and Gemini is not contacted;
  whatever the environment variables hold and whatever Gemini would answer.
\<close>

theorem POST_invalid_query:
  assumes "\<not> nullish b" and "\<not> is_string (get_member b ''query'')"
  shows "POST JSON_parse env gemini (Some b)
           = (\<lparr>status_code = 400, json_body = Obj [(''error'', Str ''Invalid query'')]\<rparr>, [])
       \<and> \<not> contacts_gemini (POST JSON_parse env gemini (Some b))"
  using assms
  by (simp add: POST_def destructure_request_def NextResponse_json_def contacts_gemini_def)

theorem POST_invalid_query_witness:
  "POST Some \<lparr>GOOGLE_AI_API_KEY = Some ''key'', GEMINI_API_KEY = None\<rparr> (Ok (Some (Obj [])))
        (Some (Obj [(''query'', Num 3), (''currentParams'', Obj [])]))
     = (\<lparr>status_code = 400, json_body = Obj [(''error'', Str ''Invalid query'')]\<rparr>, [])
   \<and> \<not> contacts_gemini
         (POST Some \<lparr>GOOGLE_AI_API_KEY = Some ''key'', GEMINI_API_KEY = None\<rparr> (Ok (Some (Obj [])))
               (Some (Obj [(''query'', Num 3), (''currentParams'', Obj [])])))"
proof -
  have h1: "\<not> nullish (Obj [(''query'', Num 3), (''currentParams'', Obj [])])"
    by simp
  have h2: "\<not> is_string (get_member (Obj [(''query'', Num 3), (''currentParams'', Obj [])]) ''query'')"
    by simp
  show ?thesis by (rule POST_invalid_query [OF h1 h2])
qed

text \<open>Neither does the handler contact Gemini for a body that is \<^verbatim>\<open>null\<close> or not JSON.\<close>

lemma POST_unreadable_body:
  assumes "req_json = None \<or> req_json = Some Null"
  shows "\<not> contacts_gemini (POST JSON_parse env gemini req_json)"
  using assms
  by (auto simp: POST_def destructure_request_def internal_server_error_def contacts_gemini_def)

section \<open>Properties of the merge of an extraction response\<close>

subsection \<open>Sets of strings\<close>

lemma Set_has_strings: "Set_has (map Str acc) (Str x) \<longleftrightarrow> x \<in> set acc"
  by (auto simp: Set_has_def list_ex_iff)

lemma foldl_Set_add_strings:
  "foldl Set_add (map Str acc) (map Str xs) = map Str (add_all acc xs)"
proof (induction xs arbitrary: acc)
  case Nil
  then show ?case by (simp add: add_all_def)
next
  case (Cons x xs)
  have step: "Set_add (map Str acc) (Str x) = map Str (if x \<in> set acc then acc else acc @ [x])"
    by (simp add: Set_add_def Set_has_strings)
  show ?case
    using Cons.IH [of "if x \<in> set acc then acc else acc @ [x]"]
    by (simp add: step add_all_def)
qed

lemma new_Set_strings: "new_Set (Arr (map Str old)) = Inr (map Str (add_all [] old))"
  using foldl_Set_add_strings [of "[]" old] by (simp add: new_Set_def)

lemma set_add_all: "set (add_all acc xs) = set acc \<union> set xs"
  unfolding add_all_def by (induction xs arbitrary: acc) auto

lemma distinct_add_all: "distinct acc \<Longrightarrow> distinct (add_all acc xs)"
  unfolding add_all_def by (induction xs arbitrary: acc) auto

lemma add_all_distinct: "distinct (acc @ xs) \<Longrightarrow> add_all acc xs = acc @ xs"
  unfolding add_all_def by (induction xs arbitrary: acc) auto

subsection \<open>Amenities and tags\<close>

text \<open>
  For existing entries that are strings, the branch for \<^verbatim>\<open>amenities\<close> (and for
  \<^verbatim>\<open>tags\<close>) appends to the existing entries, each taken once, the strings of the
  response that are in the catalogue and not among the existing ones.
\<close>

lemma merge_list_strings:
  assumes "own_prop sp key = Arr (map Str old)
           \<or> (\<not> truthy (own_prop sp key) \<and> old = [])"
  shows "merge_list key config sp (Arr xs) acc =
           (let new = filter (\<lambda>a. a \<in> set config \<and> a \<notin> set old) (strings_of xs)
            in if new = [] then Inr acc
               else Inr (acc\<lparr>updatedParamsPartial :=
                               AList.update key (Arr (map Str (add_all [] old @ new))) (updatedParamsPartial acc),
                             newGlowing := newGlowing acc @ new\<rparr>))"
proof -
  have ex: "new_Set (if truthy (own_prop sp key) then own_prop sp key else Arr [])
              = Inr (map Str (add_all [] old))"
    using assms new_Set_strings [of old] new_Set_strings [of "[]"] by auto
  have has: "Set_has (map Str (add_all [] old)) (Str a) \<longleftrightarrow> a \<in> set old" for a
    by (simp add: Set_has_strings set_add_all)
  show ?thesis
    by (simp add: merge_list_def ex has Let_def)
qed

text \<open>
  When neither the existing list nor the response repeats an entry, the list is extended
  by exactly the catalogue entries of the response that are new, nothing is removed and
  the result has no duplicate.
\<close>

lemma merge_list_extends:
  assumes "own_prop sp key = Arr (map Str old)" and "distinct old"
    and "distinct (strings_of xs)"
    and "merge_list key config sp (Arr xs) acc = Inr acc'"
    and "updatedParamsPartial acc' \<noteq> updatedParamsPartial acc"
  shows "\<exists>new. map_of (updatedParamsPartial acc') key = Some (Arr (map Str (old @ new)))
           \<and> set new = {a \<in> set (strings_of xs). a \<in> set config \<and> a \<notin> set old}
           \<and> distinct (old @ new)"
proof -
  let ?new = "filter (\<lambda>a. a \<in> set config \<and> a \<notin> set old) (strings_of xs)"
  have old: "add_all [] old = old"
    using assms(2) add_all_distinct [of "[]" old] by simp
  have m: "merge_list key config sp (Arr xs) acc =
           (if ?new = [] then Inr acc
            else Inr (acc\<lparr>updatedParamsPartial :=
                            AList.update key (Arr (map Str (old @ ?new))) (updatedParamsPartial acc),
                          newGlowing := newGlowing acc @ ?new\<rparr>))"
    using merge_list_strings [of sp key old config xs acc] assms(1)
    by (simp add: old Let_def)
  have ne: "?new \<noteq> []"
    using m assms(4,5) by (auto split: if_splits)
  then have "map_of (updatedParamsPartial acc') key = Some (Arr (map Str (old @ ?new)))"
    using m assms(4) by (auto simp: update_conv')
  moreover have "distinct (old @ ?new)"
    using assms(2,3) by auto
  ultimately show ?thesis by auto
qed

text \<open>
  Claim C1: one merge step of \<^verbatim>\<open>processTranscript\<close> extends the amenities with
  exactly those response amenities that are in the catalogue and not already present,
  and introduces no duplicate. The filter compares each response amenity with the
  existing ones only, not with the amenities it has already accepted from the same
  response: for a fresh state and the response
  \<^verbatim>\<open>{"amenities": {"value": ["Pool", "Pool"]}}\<close> the step stores the amenity twice.
\<close>

theorem merge_appends_repeated_amenity:
  "own_prop (searchParams (fst (processTranscript_settle (render mounted)
      (Response True (Some (Obj [(''amenities'', Obj [(''value'', Arr [Str ''Pool'', Str ''Pool''])])])))
      mounted))) ''amenities''
     = Arr [Str ''Pool'', Str ''Pool'']"
  by code_simp

text \<open>
  The existing amenities are those of the closure, and the closure of a listening session
  is the one the session was started in. In a session of two chunks, the first bringing
  a pool and the second a gym, the second merge starts again from the amenities the
  session began with and overwrites the pool.
\<close>

lemma session_drops_earlier_amenity:
  "recognitionRef (fst (vs_step mounted (click_start True))) = Some (render mounted)
   \<and> own_prop (searchParams (fst (vs_run mounted
        [click_start True,
         recognition_result (render mounted) [(True, ''with a pool'')],
         fetch_settled (render mounted)
           (Response True (Some (Obj [(''amenities'', Obj [(''value'', Arr [Str ''Pool''])])]))),
         recognition_result (render mounted) [(True, ''with a pool''), (True, '' and a gym'')]]))) ''amenities''
       = Arr [Str ''Pool'']
   \<and> own_prop (searchParams (fst (vs_run mounted
        [click_start True,
         recognition_result (render mounted) [(True, ''with a pool'')],
         fetch_settled (render mounted)
           (Response True (Some (Obj [(''amenities'', Obj [(''value'', Arr [Str ''Pool''])])]))),
         recognition_result (render mounted) [(True, ''with a pool''), (True, '' and a gym'')],
         fetch_settled (render mounted)
           (Response True (Some (Obj [(''amenities'', Obj [(''value'', Arr [Str ''Gym''])])])))])))
         ''amenities''
       = Arr [Str ''Gym'']"
  by code_simp

subsection \<open>The keys a merge leaves alone\<close>

lemma merge_sourceText_partial:
  "merge_sourceText st acc = Inr acc' \<Longrightarrow> updatedParamsPartial acc' = updatedParamsPartial acc"
  by (auto simp: merge_sourceText_def split: jsval.splits sum.splits)

lemma merge_list_partial:
  assumes "merge_list key config sp v acc = Inr acc'" and "k \<noteq> key"
  shows "map_of (updatedParamsPartial acc') k = map_of (updatedParamsPartial acc) k"
  using assms
  by (auto simp: merge_list_def Let_def update_conv' split: sum.splits jsval.splits if_splits)

lemma assign_other:
  "k \<noteq> key \<Longrightarrow> map_of (assign obj key v) k = map_of obj k"
  by (simp add: assign_def update_conv')

lemma merge_key_frame:
  assumes "merge_key sp acc kp = Inr acc'" and "k \<noteq> fst kp \<or> skipped kp"
  shows "map_of (updatedParamsPartial acc') k = map_of (updatedParamsPartial acc) k"
proof (cases "skipped kp")
  case True
  then have "merge_key sp acc kp = Inr acc"
    by (auto simp: merge_key_def skipped_def Let_def)
  then show ?thesis using assms(1) by simp
next
  case False
  then have ne: "k \<noteq> fst kp" using assms(2) by simp
  from False have nk: "key_in (fst kp) initialSearchParams" "truthy (snd kp)"
    "get_member (snd kp) ''value'' \<noteq> Undefined" "get_member (snd kp) ''value'' \<noteq> Null"
    by (auto simp: skipped_def)
  obtain mid where mid:
    "(if fst kp = ''amenities'' then
        merge_list ''amenities'' AMENITY_CONFIG sp (get_member (snd kp) ''value'') acc
      else if fst kp = ''tags'' then
        merge_list ''tags'' PERMANENT_TAG_CONFIG sp (get_member (snd kp) ''value'') acc
      else
        Inr (acc\<lparr>updatedParamsPartial :=
                   assign (updatedParamsPartial acc) (fst kp) (get_member (snd kp) ''value''),
                 newGlowing := newGlowing acc @ [fst kp]\<rparr>)) = Inr mid"
    and fin: "merge_sourceText (get_member (snd kp) ''sourceText'') mid = Inr acc'"
    using assms(1) nk by (auto simp: merge_key_def Let_def split: sum.splits)
  have "map_of (updatedParamsPartial mid) k = map_of (updatedParamsPartial acc) k"
    using mid ne
    by (auto simp: assign_other dest: merge_list_partial split: if_splits)
  then show ?thesis
    using merge_sourceText_partial [OF fin] by simp
qed

lemma merge_loop_frame:
  assumes "merge_loop sp acc kps = Inr acc'"
    and "list_all (\<lambda>kp. k \<noteq> fst kp \<or> skipped kp) kps"
  shows "map_of (updatedParamsPartial acc') k = map_of (updatedParamsPartial acc) k"
  using assms
proof (induction kps arbitrary: acc)
  case Nil
  then show ?case by simp
next
  case (Cons kp kps)
  then obtain acc1 where a1: "merge_key sp acc kp = Inr acc1"
    and rest: "merge_loop sp acc1 kps = Inr acc'"
    by (auto split: sum.splits)
  have "map_of (updatedParamsPartial acc1) k = map_of (updatedParamsPartial acc) k"
    using merge_key_frame [OF a1] Cons.prems(2) by simp
  moreover have "map_of (updatedParamsPartial acc') k = map_of (updatedParamsPartial acc1) k"
    using Cons.IH [OF rest] Cons.prems(2) by simp
  ultimately show ?case by simp
qed

lemma merge_response_frame:
  assumes "merge_response sp responseData = Inr acc"
    and "list_all (\<lambda>kp. k \<noteq> fst kp \<or> skipped kp) (enumerable_properties responseData)"
  shows "map_of (updatedParamsPartial acc) k = None"
proof -
  obtain acc0 where l: "merge_loop sp \<lparr>updatedParamsPartial = [], newGlowing = [], newlyHighlighted = []\<rparr>
                          (enumerable_properties responseData) = Inr acc0"
    and e: "updatedParamsPartial acc = updatedParamsPartial acc0"
    using assms(1) by (auto simp: merge_response_def split: sum.splits if_splits)
  show ?thesis
    using merge_loop_frame [OF l assms(2)] e by simp
qed

lemma spread_other:
  "map_of b k = None \<Longrightarrow> map_of (spread a b) k = map_of a k"
  unfolding spread_def
proof (induction b arbitrary: a)
  case Nil
  then show ?case by simp
next
  case (Cons kv b)
  obtain k' v' where kv: "kv = (k', v')" by (cases kv)
  have "k' \<noteq> k" and "map_of b k = None"
    using Cons.prems kv by (auto split: if_splits)
  then show ?case
    using Cons.IH [of "AList.update k' v' a"] kv by (simp add: update_conv')
qed

lemma processTranscript_settle_frame:
  assumes "\<And>responseData. outcome = Response True (Some responseData) \<Longrightarrow>
             list_all (\<lambda>kp. k \<noteq> fst kp \<or> skipped kp) (enumerable_properties responseData)"
  shows "own_prop (searchParams (fst (processTranscript_settle cl outcome c))) k
           = own_prop (searchParams c) k"
proof (cases outcome)
  case Rejected
  then show ?thesis by (simp add: processTranscript_settle_def processTranscript_catch_def)
next
  case (Response ok json)
  show ?thesis
  proof (cases "ok \<and> json \<noteq> None")
    case False
    then show ?thesis
      using Response by (auto simp: processTranscript_settle_def processTranscript_catch_def)
  next
    case True
    then obtain responseData where r: "outcome = Response True (Some responseData)"
      using Response by auto
    show ?thesis
    proof (cases "merge_response (cl_searchParams cl) responseData")
      case (Inl e)
      then show ?thesis
        using r by (simp add: processTranscript_settle_def processTranscript_catch_def)
    next
      case (Inr acc)
      have "map_of (updatedParamsPartial acc) k = None"
        using merge_response_frame [OF Inr assms [OF r]] .
      then have "map_of (spread (searchParams c) (updatedParamsPartial acc)) k = map_of (searchParams c) k"
        by (rule spread_other)
      then show ?thesis
        using r Inr by (simp add: processTranscript_settle_def own_prop_def)
    qed
  qed
qed

subsection \<open>A merge unsets nothing\<close>

text \<open>
  Every value the loop stores is neither \<^verbatim>\<open>undefined\<close> nor \<^verbatim>\<open>null\<close>, and the
  spread keeps every key: a parameter that was set is set after the step.
\<close>

lemma set_update_subset: "set (AList.update k v al) \<subseteq> insert (k, v) (set al)"
  by (induction al) auto

lemma set_values_update:
  assumes "set_values obj" and "\<not> nullish v"
  shows "set_values (AList.update k v obj)"
  using assms set_update_subset [of k v obj]
  by (auto simp: set_values_def list_all_iff)

lemma nullish_iff: "nullish v \<longleftrightarrow> v = Undefined \<or> v = Null"
  by (cases v) auto

lemma merge_list_set_values:
  assumes "merge_list key config sp v acc = Inr acc'" and "set_values (updatedParamsPartial acc)"
  shows "set_values (updatedParamsPartial acc')"
  using assms
  by (auto simp: merge_list_def Let_def set_values_update split: sum.splits jsval.splits if_splits)

lemma merge_key_set_values:
  assumes "merge_key sp acc kp = Inr acc'" and "set_values (updatedParamsPartial acc)"
  shows "set_values (updatedParamsPartial acc')"
proof (cases "skipped kp")
  case True
  then have "merge_key sp acc kp = Inr acc"
    by (auto simp: merge_key_def skipped_def Let_def)
  then show ?thesis using assms by simp
next
  case False
  then have nk: "key_in (fst kp) initialSearchParams" "truthy (snd kp)"
    "get_member (snd kp) ''value'' \<noteq> Undefined" "get_member (snd kp) ''value'' \<noteq> Null"
    by (auto simp: skipped_def)
  then have nn: "\<not> nullish (get_member (snd kp) ''value'')"
    by (simp add: nullish_iff)
  obtain mid where mid:
    "(if fst kp = ''amenities'' then
        merge_list ''amenities'' AMENITY_CONFIG sp (get_member (snd kp) ''value'') acc
      else if fst kp = ''tags'' then
        merge_list ''tags'' PERMANENT_TAG_CONFIG sp (get_member (snd kp) ''value'') acc
      else
        Inr (acc\<lparr>updatedParamsPartial :=
                   assign (updatedParamsPartial acc) (fst kp) (get_member (snd kp) ''value''),
                 newGlowing := newGlowing acc @ [fst kp]\<rparr>)) = Inr mid"
    and fin: "merge_sourceText (get_member (snd kp) ''sourceText'') mid = Inr acc'"
    using assms(1) nk by (auto simp: merge_key_def Let_def split: sum.splits)
  have "set_values (updatedParamsPartial mid)"
    using mid assms(2) nn
    by (auto simp: assign_def set_values_update dest: merge_list_set_values split: if_splits)
  then show ?thesis
    using merge_sourceText_partial [OF fin] by simp
qed

lemma merge_loop_set_values:
  assumes "merge_loop sp acc kps = Inr acc'" and "set_values (updatedParamsPartial acc)"
  shows "set_values (updatedParamsPartial acc')"
  using assms
proof (induction kps arbitrary: acc)
  case Nil
  then show ?case by simp
next
  case (Cons kp kps)
  then obtain acc1 where a1: "merge_key sp acc kp = Inr acc1"
    and rest: "merge_loop sp acc1 kps = Inr acc'"
    by (auto split: sum.splits)
  show ?case
    using Cons.IH [OF rest] merge_key_set_values [OF a1 Cons.prems(2)] by simp
qed

lemma merge_response_set_values:
  assumes "merge_response sp responseData = Inr acc"
  shows "set_values (updatedParamsPartial acc)"
proof -
  obtain acc0 where l: "merge_loop sp \<lparr>updatedParamsPartial = [], newGlowing = [], newlyHighlighted = []\<rparr>
                          (enumerable_properties responseData) = Inr acc0"
    and e: "updatedParamsPartial acc = updatedParamsPartial acc0"
    using assms by (auto simp: merge_response_def split: sum.splits if_splits)
  have "set_values (updatedParamsPartial acc0)"
    using merge_loop_set_values [OF l] by (simp add: set_values_def)
  then show ?thesis using e by simp
qed

lemma spread_lookup:
  "map_of (spread a b) k = Some v \<Longrightarrow> map_of a k = Some v \<or> (k, v) \<in> set b"
  unfolding spread_def
proof (induction b arbitrary: a)
  case Nil
  then show ?case by simp
next
  case (Cons kv b)
  obtain k' v' where kv: "kv = (k', v')" by (cases kv)
  have "map_of (AList.update k' v' a) k = Some v \<or> (k, v) \<in> set b"
    using Cons.IH [of "AList.update k' v' a"] Cons.prems kv by simp
  then show ?case
    using kv by (auto simp: update_conv' split: if_splits)
qed

lemma spread_keeps_keys:
  "map_of a k \<noteq> None \<Longrightarrow> map_of (spread a b) k \<noteq> None"
  unfolding spread_def
proof (induction b arbitrary: a)
  case Nil
  then show ?case by simp
next
  case (Cons kv b)
  obtain k' v' where kv: "kv = (k', v')" by (cases kv)
  have "map_of (AList.update k' v' a) k \<noteq> None"
    using Cons.prems by (simp add: update_conv')
  then show ?case
    using Cons.IH [of "AList.update k' v' a"] kv by simp
qed

lemma spread_set_values:
  assumes "\<not> nullish (own_prop a k)" and "set_values b"
  shows "\<not> nullish (own_prop (spread a b) k)"
proof -
  obtain v where v: "map_of a k = Some v" "\<not> nullish v"
    using assms(1) by (auto simp: own_prop_def split: option.splits)
  then obtain w where w: "map_of (spread a b) k = Some w"
    using spread_keeps_keys [of a k b] by auto
  then have "w = v \<or> (k, w) \<in> set b"
    using spread_lookup [OF w] v by auto
  then have "\<not> nullish w"
    using v assms(2) by (auto simp: set_values_def list_all_iff)
  then show ?thesis using w by (simp add: own_prop_def)
qed

lemma processTranscript_settle_never_unsets:
  assumes "\<not> nullish (own_prop (searchParams c) k)"
  shows "\<not> nullish (own_prop (searchParams (fst (processTranscript_settle cl outcome c))) k)"
proof (cases outcome)
  case Rejected
  then show ?thesis using assms by (simp add: processTranscript_settle_def processTranscript_catch_def)
next
  case (Response ok json)
  show ?thesis
  proof (cases "ok \<and> json \<noteq> None")
    case False
    then show ?thesis
      using Response assms by (auto simp: processTranscript_settle_def processTranscript_catch_def)
  next
    case True
    then obtain responseData where r: "outcome = Response True (Some responseData)"
      using Response by auto
    show ?thesis
    proof (cases "merge_response (cl_searchParams cl) responseData")
      case (Inl e)
      then show ?thesis
        using r assms by (simp add: processTranscript_settle_def processTranscript_catch_def)
    next
      case (Inr acc)
      have "\<not> nullish (own_prop (spread (searchParams c) (updatedParamsPartial acc)) k)"
        using spread_set_values [OF assms merge_response_set_values [OF Inr]] .
      then show ?thesis
        using r Inr assms by (simp add: processTranscript_settle_def)
    qed
  qed
qed


text \<open>
  Claim C2: a key that is absent from the response, or is not a key of the initial
  search-parameter record, or whose value is null or undefined, keeps its value, and
  no parameter is cleared. The lemmas \<open>processTranscript_settle_frame\<close> and
  \<open>processTranscript_settle_never_unsets\<close> above prove this for the keys the loop
  passes over, where "not a key of the initial record" is the test the source makes,
  \<^verbatim>\<open>key in initialSearchParams\<close>. That test also holds for the names inherited from
  \<^verbatim>\<open>Object.prototype\<close>: the key \<^verbatim>\<open>toString\<close> is not a key of the initial record,
  yet the response \<^verbatim>\<open>{"toString": {"value": "x"}}\<close> is stored under it.
\<close>

theorem merge_stores_inherited_key:
  "''toString'' \<notin> set (own_keys initialSearchParams)
   \<and> own_prop (searchParams mounted) ''toString'' = Undefined
   \<and> own_prop (searchParams (fst (processTranscript_settle (render mounted)
         (Response True (Some (Obj [(''toString'', Obj [(''value'', Str ''x'')])])))
         mounted))) ''toString''
       = Str ''x''"
  by code_simp

subsection \<open>The inputs of the merge\<close>

lemma processTranscript_settle_params:
  "searchParams (fst (processTranscript_settle cl outcome c)) =
     (case outcome of
        Response True (Some responseData) \<Rightarrow>
          (case merge_response (cl_searchParams cl) responseData of
             Inr acc \<Rightarrow> if length (updatedParamsPartial acc) > 0
                        then spread (searchParams c) (updatedParamsPartial acc) else searchParams c
           | Inl e \<Rightarrow> searchParams c)
      | _ \<Rightarrow> searchParams c)"
  by (simp add: processTranscript_settle_def processTranscript_catch_def
           split: fetch_outcome.split option.split sum.split bool.split)

lemma processTranscript_settle_highlighted:
  "highlightedText (fst (processTranscript_settle cl outcome c)) =
     (case step_highlights (cl_searchParams cl) outcome of
        None \<Rightarrow> highlightedText c
      | Some newly \<Rightarrow> add_all [] (highlightedText c @ newly))"
  by (simp add: processTranscript_settle_def processTranscript_catch_def step_highlights_def
           split: fetch_outcome.split option.split sum.split bool.split)

text \<open>
  The merge has three inputs: the response, the search parameters the update is applied
  to, and the search parameters that the closure captured, from which the existing
  amenities and tags are read. Two invocations that agree on all three compute
  identical updated search parameters and add the same newly highlighted strings to the
  highlighted text (or both leave it as it is), whatever the rest of the component state
  is.
\<close>

lemma processTranscript_settle_three_inputs:
  assumes "cl_searchParams cl1 = cl_searchParams cl2"
    and "searchParams c1 = searchParams c2"
  shows "searchParams (fst (processTranscript_settle cl1 outcome c1))
           = searchParams (fst (processTranscript_settle cl2 outcome c2))
       \<and> (\<exists>newly.
             (highlightedText (fst (processTranscript_settle cl1 outcome c1)) = highlightedText c1
              \<and> highlightedText (fst (processTranscript_settle cl2 outcome c2)) = highlightedText c2)
           \<or> (highlightedText (fst (processTranscript_settle cl1 outcome c1))
                 = add_all [] (highlightedText c1 @ newly)
              \<and> highlightedText (fst (processTranscript_settle cl2 outcome c2))
                 = add_all [] (highlightedText c2 @ newly)))"
proof
  show "searchParams (fst (processTranscript_settle cl1 outcome c1))
           = searchParams (fst (processTranscript_settle cl2 outcome c2))"
    unfolding processTranscript_settle_params assms by simp
  show "\<exists>newly.
             (highlightedText (fst (processTranscript_settle cl1 outcome c1)) = highlightedText c1
              \<and> highlightedText (fst (processTranscript_settle cl2 outcome c2)) = highlightedText c2)
           \<or> (highlightedText (fst (processTranscript_settle cl1 outcome c1))
                 = add_all [] (highlightedText c1 @ newly)
              \<and> highlightedText (fst (processTranscript_settle cl2 outcome c2))
                 = add_all [] (highlightedText c2 @ newly))"
  proof (cases "step_highlights (cl_searchParams cl2) outcome")
    case None
    then show ?thesis
      by (simp add: processTranscript_settle_highlighted assms(1))
  next
    case (Some newly)
    then show ?thesis
      by (intro exI [of _ newly]) (simp add: processTranscript_settle_highlighted assms(1))
  qed
qed

text \<open>
  Claim C3: the merge is a function of its two inputs, the prior search parameters and
  the extraction response. The code reads the existing tags from the search parameters
  of the closure the listening session was started in, and these are a third input:
  when the tag \<^verbatim>\<open>new\<close> is toggled after the session was started, and when it is
  toggled before, the search parameters at the time of the merge are
  \<^verbatim>\<open>{tags: ['new']}\<close> both times and the response brings the tag \<^verbatim>\<open>premium\<close> both
  times, yet the first merge yields \<^verbatim>\<open>['premium']\<close> and the second
  \<^verbatim>\<open>['new', 'premium']\<close>.
\<close>

theorem merge_depends_on_closure:
  "recognitionRef (fst (vs_run mounted [click_start True, toggle_tag ''new'']))
     = Some \<lparr>cl_isDemoMode = True, cl_status = Demo, cl_searchParams = []\<rparr>
   \<and> recognitionRef (fst (vs_run mounted [toggle_tag ''new'', click_start True]))
     = Some \<lparr>cl_isDemoMode = False, cl_status = Demo, cl_searchParams = [(''tags'', Arr [Str ''new''])]\<rparr>
   \<and> searchParams (fst (vs_run mounted
        [click_start True, toggle_tag ''new'',
         recognition_result \<lparr>cl_isDemoMode = True, cl_status = Demo, cl_searchParams = []\<rparr>
           [(True, ''premium ones'')]]))
     = [(''tags'', Arr [Str ''new''])]
   \<and> searchParams (fst (vs_run mounted
        [toggle_tag ''new'', click_start True,
         recognition_result
           \<lparr>cl_isDemoMode = False, cl_status = Demo, cl_searchParams = [(''tags'', Arr [Str ''new''])]\<rparr>
           [(True, ''premium ones'')]]))
     = [(''tags'', Arr [Str ''new''])]
   \<and> searchParams (fst (vs_run mounted
        [click_start True, toggle_tag ''new'',
         recognition_result \<lparr>cl_isDemoMode = True, cl_status = Demo, cl_searchParams = []\<rparr>
           [(True, ''premium ones'')],
         fetch_settled \<lparr>cl_isDemoMode = True, cl_status = Demo, cl_searchParams = []\<rparr>
           (Response True (Some (Obj [(''tags'', Obj [(''value'', Arr [Str ''premium''])])])))]))
     = [(''tags'', Arr [Str ''premium''])]
   \<and> searchParams (fst (vs_run mounted
        [toggle_tag ''new'', click_start True,
         recognition_result
           \<lparr>cl_isDemoMode = False, cl_status = Demo, cl_searchParams = [(''tags'', Arr [Str ''new''])]\<rparr>
           [(True, ''premium ones'')],
         fetch_settled
           \<lparr>cl_isDemoMode = False, cl_status = Demo, cl_searchParams = [(''tags'', Arr [Str ''new''])]\<rparr>
           (Response True (Some (Obj [(''tags'', Obj [(''value'', Arr [Str ''premium''])])])))]))
     = [(''tags'', Arr [Str ''new'', Str ''premium''])]"
  by code_simp
section \<open>Properties of the listening session\<close>

lemma switchToRealSearch_fields:
  "lastFinalTranscript (switchToRealSearch cl c) = lastFinalTranscript c"
  "recognitionRef (switchToRealSearch cl c) = recognitionRef c"
  "searchParams (switchToRealSearch cl c) = searchParams c"
  "highlightedText (switchToRealSearch cl c) = highlightedText c"
  by (simp_all add: switchToRealSearch_def)

lemma processTranscript_begin_lastFinal:
  "lastFinalTranscript (fst (processTranscript_begin cl t c)) = lastFinalTranscript c"
  by (simp add: processTranscript_begin_def handleSearch_def)

lemma processTranscript_begin_effects:
  "snd (processTranscript_begin cl t c) =
     (if is_command (toLowerCase (trim t))
      then (if recognitionRef c \<noteq> None then [recognition_stop] else [])
             @ (if generateMockResults_throws (Obj (cl_searchParams cl)) then []
                else [onResults_of (Obj (cl_searchParams cl))])
      else if length (trim t) < 3 then []
      else [fetch_voice_process (Obj [(''query'', Str t), (''currentParams'', Obj (cl_searchParams cl))])])"
  by (simp add: processTranscript_begin_def handleSearch_def)

lemma onresult_lastFinal:
  "lastFinalTranscript (fst (onresult cl r c)) =
     (case raw_chunk (lastFinalTranscript c) (final_transcript r) of
        None \<Rightarrow> lastFinalTranscript c | Some newChunk \<Rightarrow> final_transcript r)"
  by (simp add: onresult_def Let_def switchToRealSearch_fields processTranscript_begin_lastFinal
           split: option.split)

lemma onresult_effects:
  "snd (onresult cl r c) =
     (case raw_chunk (lastFinalTranscript c) (final_transcript r) of
        None \<Rightarrow> []
      | Some newChunk \<Rightarrow>
          if trim newChunk \<noteq> [] then snd (processTranscript_begin cl (trim newChunk) c) else [])"
  by (auto simp: onresult_def Let_def switchToRealSearch_fields processTranscript_begin_effects
           split: option.split)

lemma raw_chunk_prefix:
  assumes "prefix lastFinal final"
  shows "lastFinal @ (case raw_chunk lastFinal final of None \<Rightarrow> [] | Some ch \<Rightarrow> ch) = final"
  using assms by (auto simp: raw_chunk_def prefix_def)

lemma raw_chunk_next:
  assumes "prefix lastFinal final"
  shows "(case raw_chunk lastFinal final of None \<Rightarrow> lastFinal | Some ch \<Rightarrow> final) = final"
  using assms by (auto simp: raw_chunk_def prefix_def)

lemma onresult_chunks_partition:
  assumes "growing (lastFinalTranscript c) rs"
  shows "lastFinalTranscript c @ concat (onresult_chunks cl c rs)
           = lastFinalTranscript (onresult_states cl c rs)"
  using assms
proof (induction rs arbitrary: c)
  case Nil
  then show ?case by simp
next
  case (Cons r rs)
  let ?c1 = "fst (onresult cl r c)"
  have p: "prefix (lastFinalTranscript c) (final_transcript r)"
    and g: "growing (final_transcript r) rs"
    using Cons.prems by simp_all
  have next_last: "lastFinalTranscript ?c1 = final_transcript r"
    using raw_chunk_next [OF p] by (simp add: onresult_lastFinal)
  have ih: "lastFinalTranscript ?c1 @ concat (onresult_chunks cl ?c1 rs)
          = lastFinalTranscript (onresult_states cl ?c1 rs)"
    using g by (intro Cons.IH) (simp add: next_last)
  then have "lastFinalTranscript c @ concat (onresult_chunks cl c (r # rs))
          = (lastFinalTranscript c
               @ (case raw_chunk (lastFinalTranscript c) (final_transcript r) of
                    None \<Rightarrow> [] | Some ch \<Rightarrow> ch))
            @ concat (onresult_chunks cl ?c1 rs)"
    by (simp split: option.split)
  also have "\<dots> = final_transcript r @ concat (onresult_chunks cl ?c1 rs)"
    by (simp only: raw_chunk_prefix [OF p])
  also have "\<dots> = lastFinalTranscript (onresult_states cl ?c1 rs)"
    using ih by (simp only: next_last)
  finally show ?case by simp
qed

text \<open>
  Within one listening session the final transcript only grows. Then every recognition
  result cuts the prefix recorded in \<^verbatim>\<open>lastFinalTranscript\<close> off the final
  transcript, passes exactly the remaining chunk (trimmed) to \<^verbatim>\<open>processTranscript\<close>
  when it is not blank, and records the final transcript as the new prefix; over the
  session the chunks are consecutive pieces of the final transcript.
\<close>

lemma onresult_new_suffix_only:
  assumes "growing (lastFinalTranscript c) (r # rs)"
  shows "final_transcript r = lastFinalTranscript c @ drop (length (lastFinalTranscript c)) (final_transcript r)
       \<and> lastFinalTranscript (fst (onresult cl r c)) = final_transcript r
       \<and> snd (onresult cl r c) =
           (if trim (drop (length (lastFinalTranscript c)) (final_transcript r)) = [] then []
            else snd (processTranscript_begin cl
                        (trim (drop (length (lastFinalTranscript c)) (final_transcript r))) c))
       \<and> lastFinalTranscript c @ concat (onresult_chunks cl c (r # rs))
           = lastFinalTranscript (onresult_states cl c (r # rs))"
proof -
  have p: "prefix (lastFinalTranscript c) (final_transcript r)"
    using assms by simp
  have 1: "final_transcript r = lastFinalTranscript c @ drop (length (lastFinalTranscript c)) (final_transcript r)"
    using p by (auto simp: prefix_def)
  have 2: "lastFinalTranscript (fst (onresult cl r c)) = final_transcript r"
    using raw_chunk_next [OF p] by (simp add: onresult_lastFinal)
  have 3: "snd (onresult cl r c) =
           (if trim (drop (length (lastFinalTranscript c)) (final_transcript r)) = [] then []
            else snd (processTranscript_begin cl
                        (trim (drop (length (lastFinalTranscript c)) (final_transcript r))) c))"
    using p by (auto simp: onresult_effects raw_chunk_def prefix_def trim_def)
  show ?thesis
    using 1 2 3 onresult_chunks_partition [OF assms, of cl] by blast
qed


section \<open>Properties of the error paths\<close>

















section \<open>Properties of cancellation\<close>

text \<open>
  The messages of the realtime service: the wrapper of the socket leaves the type of a
  message as it is, and only \<^verbatim>\<open>interrupt\<close> sends a message of the type
  \<^verbatim>\<open>response.cancel\<close>.
\<close>

lemma ws_send_wrapper_type:
  "get_member (ws_send_wrapper s message) ''type'' = get_member message ''type''"
  by (cases message) (simp_all add: ws_send_wrapper_def update_conv')

lemma sendMessage_cancel:
  "list_ex is_response_cancel (sendMessage s message)
     \<longleftrightarrow> ws s = Some OPEN \<and> get_member message ''type'' = Str ''response.cancel''"
  by (simp add: sendMessage_def ws_send_wrapper_type)

lemma sendMessage_no_close: "ws_close \<notin> set (sendMessage s message)"
  by (simp add: sendMessage_def)

lemma sendSessionUpdate_quiet:
  "\<not> list_ex is_response_cancel (sendSessionUpdate s)" "ws_close \<notin> set (sendSessionUpdate s)"
  by (simp_all add: sendSessionUpdate_def sendMessage_cancel sendMessage_no_close sessionConfig_def)

lemma emit_event_quiet:
  "\<not> list_ex is_response_cancel (emit_event name data)" "ws_close \<notin> set (emit_event name data)"
  by (simp_all add: emit_event_def Let_def)

lemma sendTextMessage_quiet:
  "\<not> list_ex is_response_cancel (snd (sendTextMessage env text language s))"
  "ws_close \<notin> set (snd (sendTextMessage env text language s))"
  by (simp_all add: sendTextMessage_def generateEventId_def Let_def sendMessage_cancel
                    sendMessage_no_close)

lemma sendFunctionResult_quiet:
  "\<not> list_ex is_response_cancel (snd (sendFunctionResult env callId result s))"
  "ws_close \<notin> set (snd (sendFunctionResult env callId result s))"
  by (simp_all add: sendFunctionResult_def generateEventId_def Let_def sendMessage_cancel
                    sendMessage_no_close)

lemma stopRecording_quiet:
  "\<not> list_ex is_response_cancel (snd (stopRecording s))" "ws_close \<notin> set (snd (stopRecording s))"
  "ws (fst (stopRecording s)) = ws s"
  by (simp_all add: stopRecording_def emit_event_def Let_def)

lemma disconnect_cancel: "\<not> list_ex is_response_cancel (snd (disconnect s))"
  using stopRecording_quiet(1) [of s]
  by (simp add: disconnect_def Let_def split_beta)

lemma disconnect_close: "ws_close \<in> set (snd (disconnect s)) \<longleftrightarrow> ws s \<noteq> None"
  using stopRecording_quiet(2,3) [of s]
  by (simp add: disconnect_def Let_def split_beta)

lemma service_perform_cancel:
  "list_ex is_response_cancel (snd (service_perform env s call))
     \<longleftrightarrow> call = call_interrupt \<and> isConnected s \<and> ws s = Some OPEN"
proof (cases call)
  case (call_initialize outcome)
  then show ?thesis by (cases outcome) (simp_all add: initialize_def)
next
  case call_startRecording
  then show ?thesis by (simp add: startRecording_def)
next
  case call_stopRecording
  then show ?thesis using stopRecording_quiet(1) by simp
next
  case (call_sendTextMessage t language)
  then show ?thesis using sendTextMessage_quiet(1) by simp
next
  case (call_sendFunctionResult callId result)
  then show ?thesis using sendFunctionResult_quiet(1) by simp
next
  case (call_changeVoice voice)
  then show ?thesis using sendSessionUpdate_quiet(1) by (simp add: changeVoice_def Let_def)
next
  case (call_changeLanguage language)
  then show ?thesis by (simp add: changeLanguage_def Let_def sendMessage_cancel)
next
  case call_interrupt
  then show ?thesis by (simp add: interrupt_def sendMessage_cancel)
next
  case call_disconnect
  then show ?thesis using disconnect_cancel by simp
qed

lemma service_perform_close:
  "ws_close \<in> set (snd (service_perform env s call)) \<longleftrightarrow> call = call_disconnect \<and> ws s \<noteq> None"
proof (cases call)
  case (call_initialize outcome)
  then show ?thesis by (cases outcome) (simp_all add: initialize_def)
next
  case call_startRecording
  then show ?thesis by (simp add: startRecording_def)
next
  case call_stopRecording
  then show ?thesis using stopRecording_quiet(2) by simp
next
  case (call_sendTextMessage t language)
  then show ?thesis using sendTextMessage_quiet(2) by simp
next
  case (call_sendFunctionResult callId result)
  then show ?thesis using sendFunctionResult_quiet(2) by simp
next
  case (call_changeVoice voice)
  then show ?thesis using sendSessionUpdate_quiet(2) by (simp add: changeVoice_def Let_def)
next
  case (call_changeLanguage language)
  then show ?thesis by (simp add: changeLanguage_def Let_def sendMessage_no_close)
next
  case call_interrupt
  then show ?thesis by (simp add: interrupt_def sendMessage_no_close)
next
  case call_disconnect
  then show ?thesis using disconnect_close by simp
qed

lemma handleFunctionCall_quiet:
  "\<not> list_ex is_response_cancel (snd (handleFunctionCall env message s))"
  "ws_close \<notin> set (snd (handleFunctionCall env message s))"
  using sendFunctionResult_quiet emit_event_quiet
  by (simp_all add: handleFunctionCall_def Let_def split_beta split: option.split)

lemma handleRealtimeMessage_quiet:
  "\<not> list_ex is_response_cancel (snd (handleRealtimeMessage env message s))"
  "ws_close \<notin> set (snd (handleRealtimeMessage env message s))"
  using handleFunctionCall_quiet emit_event_quiet
  by (simp_all add: handleRealtimeMessage_def Let_def split_beta split: jsval.split)

lemma service_notify_quiet:
  "\<not> list_ex is_response_cancel (snd (service_notify env s cb))"
  "ws_close \<notin> set (snd (service_notify env s cb))"
proof -
  show "\<not> list_ex is_response_cancel (snd (service_notify env s cb))"
  proof (cases cb)
    case socket_open
    then show ?thesis using sendSessionUpdate_quiet(1) by (simp add: ws_onopen_def Let_def)
  next
    case (socket_message parsed)
    then show ?thesis using handleRealtimeMessage_quiet(1)
      by (simp add: ws_onmessage_def split: option.split)
  next
    case socket_error
    then show ?thesis by (simp add: ws_onerror_def)
  next
    case socket_close
    then show ?thesis by (simp add: ws_onclose_def)
  next
    case (microphone outcome)
    then show ?thesis using emit_event_quiet(1)
      by (cases outcome) (simp_all add: startRecording_settle_def Let_def)
  next
    case (recorder_data chunk)
    then show ?thesis by (cases chunk) (simp_all add: ondataavailable_def sendMessage_cancel)
  next
    case recorder_stop
    then show ?thesis by (simp add: mediaRecorder_onstop_def sendMessage_cancel)
  qed
  show "ws_close \<notin> set (snd (service_notify env s cb))"
  proof (cases cb)
    case socket_open
    then show ?thesis using sendSessionUpdate_quiet(2) by (simp add: ws_onopen_def Let_def)
  next
    case (socket_message parsed)
    then show ?thesis using handleRealtimeMessage_quiet(2)
      by (simp add: ws_onmessage_def split: option.split)
  next
    case socket_error
    then show ?thesis by (simp add: ws_onerror_def)
  next
    case socket_close
    then show ?thesis by (simp add: ws_onclose_def)
  next
    case (microphone outcome)
    then show ?thesis using emit_event_quiet(2)
      by (cases outcome) (simp_all add: startRecording_settle_def Let_def)
  next
    case (recorder_data chunk)
    then show ?thesis by (cases chunk) (simp_all add: ondataavailable_def sendMessage_no_close)
  next
    case recorder_stop
    then show ?thesis by (simp add: mediaRecorder_onstop_def sendMessage_no_close)
  qed
qed


lemma changeVoice_quiet:
  "\<not> list_ex is_response_cancel (snd (changeVoice voice s))" "ws_close \<notin> set (snd (changeVoice voice s))"
  using service_perform_cancel [of env s "call_changeVoice voice"]
        service_perform_close [of env s "call_changeVoice voice"] by simp_all

lemma changeLanguage_quiet:
  "\<not> list_ex is_response_cancel (snd (changeLanguage language s))"
  "ws_close \<notin> set (snd (changeLanguage language s))"
  using service_perform_cancel [of env s "call_changeLanguage language"]
        service_perform_close [of env s "call_changeLanguage language"] by simp_all

lemma startRecording_quiet:
  "\<not> list_ex is_response_cancel (snd (startRecording s))" "ws_close \<notin> set (snd (startRecording s))"
  by (simp_all add: startRecording_def)

lemma initialize_quiet:
  "\<not> list_ex is_response_cancel (snd (initialize outcome s))" "ws_close \<notin> set (snd (initialize outcome s))"
  by (cases outcome; simp add: initialize_def)+

lemma realtime_startRecording_quiet:
  "\<not> list_ex is_response_cancel (snd (realtime_startRecording r))"
  "ws_close \<notin> set (snd (realtime_startRecording r))"
  using startRecording_quiet
  by (simp_all add: realtime_startRecording_def split_beta Let_def split: option.split)

lemma realtime_on_quiet:
  "\<not> list_ex is_response_cancel (snd (realtime_on env name event r))"
  "ws_close \<notin> set (snd (realtime_on env name event r))"
  using realtime_startRecording_quiet
  by (simp_all add: realtime_on_def handlePropertySearch_def)

lemma handlePropertySearch_settle_quiet:
  "\<not> list_ex is_response_cancel (snd (handlePropertySearch_settle env outcome r))"
  "ws_close \<notin> set (snd (handlePropertySearch_settle env outcome r))"
  using sendFunctionResult_quiet
  by (simp_all add: handlePropertySearch_settle_def split_beta Let_def
               split: option.split search_outcome.split)

lemma realtime_unmount_cancel: "\<not> list_ex is_response_cancel (snd (realtime_unmount r))"
  using disconnect_cancel
  by (simp add: realtime_unmount_def split_beta Let_def split: option.split)

lemma realtime_unmount_close:
  "ws_close \<in> set (snd (realtime_unmount r)) \<longleftrightarrow> (\<exists>s. serviceRef r = Some s \<and> ws s \<noteq> None)"
  using disconnect_close
  by (simp add: realtime_unmount_def split_beta Let_def split: option.split)

lemma realtime_step_cancel: "\<not> list_ex is_response_cancel (snd (realtime_step env r rtev))"
proof (cases rtev)
  case (rt_select_voice voiceId)
  then show ?thesis using changeVoice_quiet(1)
    by (simp add: handleVoiceChange_def split_beta Let_def split: option.split)
next
  case (rt_select_language languageCode)
  then show ?thesis using changeLanguage_quiet(1)
    by (simp add: handleLanguageChange_def split_beta Let_def split: option.split)
next
  case rt_click_save
  then show ?thesis
    by (simp add: handleApiKeySave_def realtime_initializeService_def)
next
  case (rt_callback cb)
  then show ?thesis using service_notify_quiet(1)
    by (simp add: split_beta split: option.split)
next
  case (rt_initialize_settles outcome)
  then show ?thesis using initialize_quiet(1)
    by (simp add: split_beta split: option.split)
next
  case (rt_on name event)
  then show ?thesis using realtime_on_quiet(1) by simp
next
  case rt_recording_returns
  then show ?thesis by (simp add: startAudioVisualization_def)
next
  case rt_animation_frame
  then show ?thesis by (simp add: startAudioVisualization_def)
next
  case (rt_search_settles outcome)
  then show ?thesis using handlePropertySearch_settle_quiet(1) by simp
next
  case rt_unmounts
  then show ?thesis using realtime_unmount_cancel by simp
qed simp_all

lemma realtime_step_close:
  "ws_close \<in> set (snd (realtime_step env r rtev))
     \<longleftrightarrow> rtev = rt_unmounts \<and> (\<exists>s. serviceRef r = Some s \<and> ws s \<noteq> None)"
proof (cases rtev)
  case (rt_select_voice voiceId)
  then show ?thesis using changeVoice_quiet(2)
    by (simp add: handleVoiceChange_def split_beta Let_def split: option.split)
next
  case (rt_select_language languageCode)
  then show ?thesis using changeLanguage_quiet(2)
    by (simp add: handleLanguageChange_def split_beta Let_def split: option.split)
next
  case rt_click_save
  then show ?thesis
    by (simp add: handleApiKeySave_def realtime_initializeService_def)
next
  case (rt_callback cb)
  then show ?thesis using service_notify_quiet(2)
    by (simp add: split_beta split: option.split)
next
  case (rt_initialize_settles outcome)
  then show ?thesis using initialize_quiet(2)
    by (simp add: split_beta split: option.split)
next
  case (rt_on name event)
  then show ?thesis using realtime_on_quiet(2) by simp
next
  case rt_recording_returns
  then show ?thesis by (simp add: startAudioVisualization_def)
next
  case rt_animation_frame
  then show ?thesis by (simp add: startAudioVisualization_def)
next
  case (rt_search_settles outcome)
  then show ?thesis using handlePropertySearch_settle_quiet(2) by simp
next
  case rt_unmounts
  then show ?thesis using realtime_unmount_close by simp
qed simp_all

text \<open>The recognition session of \<^verbatim>\<open>VoiceSearch\<close> and its requests in flight.\<close>

lemma trim_idem: "trim (trim s) = trim s"
proof -
  define a where "a = dropWhile is_space s"
  define b where "b = rev (dropWhile is_space (rev a))"
  have b: "trim s = b" by (simp add: trim_def a_def b_def)
  have "dropWhile is_space b = b"
  proof (cases a)
    case Nil
    then show ?thesis by (simp add: b_def)
  next
    case (Cons x a')
    then have "\<not> is_space x"
      using hd_dropWhile [of is_space s] by (simp add: a_def)
    then have "dropWhile is_space (rev a' @ [x]) = dropWhile is_space (rev a') @ [x]"
      by (simp add: dropWhile_append3)
    then have "b = x # rev (dropWhile is_space (rev a'))"
      using Cons by (simp add: b_def)
    then show ?thesis using \<open>\<not> is_space x\<close> by simp
  qed
  then have "trim b = rev (dropWhile is_space (rev b))" by (simp add: trim_def)
  also have "\<dots> = rev (dropWhile is_space (dropWhile is_space (rev a)))" by (simp add: b_def)
  also have "\<dots> = b" by (simp add: b_def)
  finally show ?thesis by (simp add: b)
qed

lemma is_command_nonempty: "is_command (toLowerCase t) \<Longrightarrow> t \<noteq> []"
  by (auto simp: is_command_def toLowerCase_def)

lemma processTranscript_begin_stop:
  "recognition_stop \<in> set (snd (processTranscript_begin cl t c))
     \<longleftrightarrow> recognitionRef c \<noteq> None \<and> is_command (toLowerCase (trim t))"
  by (simp add: processTranscript_begin_effects)

lemma onresult_stop:
  "recognition_stop \<in> set (snd (onresult cl results c))
     \<longleftrightarrow> recognitionRef c \<noteq> None
         \<and> (\<exists>ch. raw_chunk (lastFinalTranscript c) (final_transcript results) = Some ch
                \<and> is_command (toLowerCase (trim ch)))"
proof (cases "raw_chunk (lastFinalTranscript c) (final_transcript results)")
  case None
  then show ?thesis by (simp add: onresult_effects)
next
  case (Some ch)
  show ?thesis
  proof (cases "trim ch = []")
    case True
    then have "\<not> is_command (toLowerCase (trim ch))" using is_command_nonempty by blast
    then show ?thesis using Some True by (simp add: onresult_effects)
  next
    case False
    then show ?thesis using Some
      by (simp add: onresult_effects processTranscript_begin_stop trim_idem)
  qed
qed

lemma processTranscript_settle_no_stop:
  "recognition_stop \<notin> set (snd (processTranscript_settle cl outcome c))"
  by (simp add: processTranscript_settle_def processTranscript_catch_def
           split: fetch_outcome.split option.split sum.split)

lemma vs_step_stop:
  "recognition_stop \<in> set (snd (vs_step c ev))
     \<longleftrightarrow> recognitionRef c \<noteq> None
         \<and> (ev = click_cancel \<or> ev = click_stop \<or> ev = click_search \<or> ev = unmount
            \<or> (\<exists>cl results ch. ev = recognition_result cl results
                  \<and> raw_chunk (lastFinalTranscript c) (final_transcript results) = Some ch
                  \<and> is_command (toLowerCase (trim ch))))"
proof (cases ev)
  case click_cancel
  then show ?thesis by (simp add: handleCancel_def Let_def)
next
  case (click_start supported)
  then show ?thesis by (simp add: handleStartListening_def Let_def)
next
  case click_stop
  then show ?thesis by (simp add: handleStopListening_def)
next
  case click_search
  then show ?thesis by (simp add: handleSearch_def)
next
  case (toggle_tag tagKey)
  then show ?thesis by (simp add: handleToggleTag_def Let_def split: option.split sum.split)
next
  case (price_change newRange)
  then show ?thesis by (simp add: handlePriceChange_def Let_def)
next
  case (recognition_result cl results)
  then show ?thesis using onresult_stop [of cl results c] by simp
next
  case (recognition_end cl)
  then show ?thesis by (simp add: onend_def Let_def)
next
  case (fetch_settled cl outcome)
  then show ?thesis using processTranscript_settle_no_stop by simp
next
  case unmount
  then show ?thesis by (simp add: unmount_cleanup_def)
qed

lemma processTranscript_begin_inFlight:
  "prefix (inFlight c) (inFlight (fst (processTranscript_begin cl t c)))"
  by (simp add: processTranscript_begin_def handleSearch_def)

lemma switchToRealSearch_inFlight: "inFlight (switchToRealSearch cl c) = inFlight c"
  by (simp add: switchToRealSearch_def)

lemma onresult_inFlight: "prefix (inFlight c) (inFlight (fst (onresult cl results c)))"
proof -
  have "\<And>c'. inFlight c' = inFlight c \<Longrightarrow> prefix (inFlight c) (inFlight (fst (processTranscript_begin cl t c')))" for t
    using processTranscript_begin_inFlight by metis
  then show ?thesis
    by (simp add: onresult_def Let_def switchToRealSearch_inFlight split: option.split)
qed

lemma processTranscript_settle_inFlight:
  "inFlight (fst (processTranscript_settle cl outcome c)) = inFlight c"
  by (simp add: processTranscript_settle_def processTranscript_catch_def
           split: fetch_outcome.split option.split sum.split)

lemma vs_step_inFlight:
  "(\<forall>cl outcome. ev \<noteq> fetch_settled cl outcome)
     \<longrightarrow> prefix (inFlight c) (inFlight (fst (vs_step c ev)))"
proof (cases ev)
  case click_cancel
  then show ?thesis by (simp add: handleCancel_def Let_def switchToRealSearch_inFlight)
next
  case (click_start supported)
  then show ?thesis by (simp add: handleStartListening_def Let_def switchToRealSearch_inFlight)
next
  case click_stop
  then show ?thesis by (simp add: handleStopListening_def)
next
  case click_search
  then show ?thesis by (simp add: handleSearch_def)
next
  case (toggle_tag tagKey)
  then show ?thesis
    by (simp add: handleToggleTag_def Let_def switchToRealSearch_inFlight split: option.split sum.split)
next
  case (price_change newRange)
  then show ?thesis by (simp add: handlePriceChange_def Let_def switchToRealSearch_inFlight)
next
  case (recognition_result cl results)
  then show ?thesis using onresult_inFlight by simp
next
  case (recognition_end cl)
  then show ?thesis by (simp add: onend_def Let_def)
next
  case (fetch_settled cl outcome)
  then show ?thesis by simp
next
  case unmount
  then show ?thesis by (simp add: unmount_cleanup_def)
qed

lemma vs_step_settled_inFlight:
  "inFlight (fst (vs_step c (fetch_settled cl outcome))) = remove1 cl (inFlight c)"
  by (simp add: processTranscript_settle_inFlight remove1_idem)

text \<open>The recognition of the two modal components and their requests in flight.\<close>

lemma checkConfirmationPhrase_empty: "\<not> checkConfirmationPhrase []"
  by code_simp

lemma enhanced_processTranscript_no_stop:
  "recognition_stop \<notin> set (snd (enhanced_processTranscript cl m))"
  by (simp add: enhanced_processTranscript_def Let_def)

lemma enhanced_handleSearch_stop:
  "recognition_stop \<in> set (snd (enhanced_handleSearch cl m)) \<longleftrightarrow> recognitions m \<noteq> []"
  using enhanced_processTranscript_no_stop [of cl m]
  by (simp add: enhanced_handleSearch_def split_beta)

lemma enhanced_onresult_stop:
  "recognition_stop \<in> set (snd (enhanced_onresult cl results m))
     \<longleftrightarrow> recognitions m \<noteq> [] \<and> checkConfirmationPhrase (finalTranscriptUpdate results)"
  using checkConfirmationPhrase_empty
  by (auto simp: enhanced_onresult_def Let_def enhanced_handleSearch_stop resetSilenceTimer_def)

lemma modal_settle_no_stop:
  "recognition_stop \<notin> set (snd (modal_processTranscript_settle outcome m))"
  by (simp add: modal_processTranscript_settle_def split: fetch_outcome.split option.split)

lemma silence_timer_fires_stop:
  "recognition_stop \<in> set (snd (silence_timer_fires m))
     \<longleftrightarrow> recognitions m \<noteq> [] \<and> (\<exists>cl. silenceTimeout m = Some cl \<and> mc_isListening cl)"
  by (simp add: silence_timer_fires_def split: option.split)

lemma enhanced_step_stop:
  "recognition_stop \<in> set (snd (enhanced_step m mev))
     \<longleftrightarrow> recognitions m \<noteq> []
         \<and> (mev = modal_unmounts
            \<or> (mev = silence_timeout_fires \<and> (\<exists>cl. silenceTimeout m = Some cl \<and> mc_isListening cl))
            \<or> (mev = click_find \<and> voice_state m = VS_confirming)
            \<or> (\<exists>i results. mev = recognition_onresult i results \<and> i < length (recognitions m)
                  \<and> checkConfirmationPhrase (finalTranscriptUpdate results)))"
proof (cases mev)
  case (mount_timer_fires supported)
  then show ?thesis
    by (simp add: initializeVoiceRecognition_def split: option.split)
next
  case (recognition_onstart i)
  then show ?thesis by (simp add: modal_onstart_def)
next
  case (recognition_onresult i results)
  then show ?thesis using enhanced_onresult_stop by auto
next
  case (recognition_onend i)
  then show ?thesis by (simp add: enhanced_onend_def Let_def)
next
  case (recognition_onerror i err)
  then show ?thesis by (simp add: modal_onerror_def)
next
  case silence_timeout_fires
  then show ?thesis using silence_timer_fires_stop by simp
next
  case click_close
  then show ?thesis by simp
next
  case (click_retry supported)
  then show ?thesis by (simp add: handleRetry_def initializeVoiceRecognition_def)
next
  case click_find
  then show ?thesis using enhanced_handleSearch_stop by (simp add: modal_render_def)
next
  case (response_settled outcome)
  then show ?thesis using modal_settle_no_stop by simp
next
  case modal_unmounts
  then show ?thesis by (simp add: modal_unmount_def)
qed

lemma instant_step_stop:
  "recognition_stop \<in> set (snd (instant_step m mev))
     \<longleftrightarrow> recognitions m \<noteq> []
         \<and> (mev = modal_unmounts
            \<or> (mev = silence_timeout_fires \<and> (\<exists>cl. silenceTimeout m = Some cl \<and> mc_isListening cl)))"
proof (cases mev)
  case (mount_timer_fires supported)
  then show ?thesis
    by (simp add: initializeVoiceRecognition_def split: option.split)
next
  case (recognition_onstart i)
  then show ?thesis by (simp add: modal_onstart_def)
next
  case (recognition_onresult i results)
  then show ?thesis by (simp add: instant_onresult_def Let_def)
next
  case (recognition_onend i)
  then show ?thesis by (simp add: instant_onend_def processCompleteTranscript_def Let_def)
next
  case (recognition_onerror i err)
  then show ?thesis by (simp add: modal_onerror_def)
next
  case silence_timeout_fires
  then show ?thesis using silence_timer_fires_stop by simp
next
  case click_close
  then show ?thesis by simp
next
  case (click_retry supported)
  then show ?thesis by simp
next
  case click_find
  then show ?thesis by simp
next
  case (response_settled outcome)
  then show ?thesis using modal_settle_no_stop by simp
next
  case modal_unmounts
  then show ?thesis by (simp add: modal_unmount_def)
qed

lemma modal_settle_requests:
  "requests (fst (modal_processTranscript_settle outcome m)) = requests m"
  by (simp add: modal_processTranscript_settle_def split: fetch_outcome.split option.split)

lemma enhanced_step_requests:
  "(\<forall>outcome. mev \<noteq> response_settled outcome) \<longrightarrow> requests m \<le> requests (fst (enhanced_step m mev))"
  by (cases mev)
     (simp_all add: initializeVoiceRecognition_def modal_onstart_def enhanced_onresult_def
        enhanced_handleSearch_def enhanced_processTranscript_def resetSilenceTimer_def
        enhanced_onend_def modal_onerror_def silence_timer_fires_def handleRetry_def
        modal_unmount_def Let_def split_beta split: option.split)

lemma instant_step_requests:
  "(\<forall>outcome. mev \<noteq> response_settled outcome) \<longrightarrow> requests m \<le> requests (fst (instant_step m mev))"
  by (cases mev)
     (simp_all add: initializeVoiceRecognition_def modal_onstart_def instant_onresult_def
        processCompleteTranscript_def resetSilenceTimer_def
        instant_onend_def modal_onerror_def silence_timer_fires_def
        modal_unmount_def Let_def split_beta split: option.split)

text \<open>The tracks of the microphone are stopped by \<^verbatim>\<open>stopRecording\<close> and \<^verbatim>\<open>disconnect\<close>.\<close>

lemma stopRecording_media:
  "mediaStream_stop \<in> set (snd (stopRecording s)) \<longleftrightarrow> isRecording s \<and> mediaStream s"
  "mediaStream (fst (stopRecording s)) = (mediaStream s \<and> \<not> isRecording s)"
  "ws (fst (stopRecording s)) = ws s" "audioContext (fst (stopRecording s)) = audioContext s"
  by (auto simp: stopRecording_def emit_event_def Let_def)

lemma disconnect_media: "mediaStream_stop \<in> set (snd (disconnect s)) \<longleftrightarrow> mediaStream s"
  using stopRecording_media [of s]
  by (auto simp: disconnect_def Let_def split_beta)

lemma sendMessage_no_media: "mediaStream_stop \<notin> set (sendMessage s message)"
  by (simp add: sendMessage_def)

lemma emit_event_no_media: "mediaStream_stop \<notin> set (emit_event name data)"
  by (simp add: emit_event_def Let_def)

lemma sendFunctionResult_no_media:
  "mediaStream_stop \<notin> set (snd (sendFunctionResult env callId result s))"
  by (simp add: sendFunctionResult_def generateEventId_def Let_def sendMessage_no_media)

lemma service_perform_media:
  "mediaStream_stop \<in> set (snd (service_perform env s call))
     \<longleftrightarrow> (call = call_stopRecording \<and> isRecording s \<and> mediaStream s)
         \<or> (call = call_disconnect \<and> mediaStream s)"
proof (cases call)
  case (call_initialize outcome)
  then show ?thesis by (cases outcome) (simp_all add: initialize_def)
next
  case call_startRecording
  then show ?thesis by (simp add: startRecording_def)
next
  case call_stopRecording
  then show ?thesis using stopRecording_media(1) by simp
next
  case (call_sendTextMessage t language)
  then show ?thesis
    by (simp add: sendTextMessage_def generateEventId_def Let_def sendMessage_no_media)
next
  case (call_sendFunctionResult callId result)
  then show ?thesis using sendFunctionResult_no_media by simp
next
  case (call_changeVoice voice)
  then show ?thesis
    by (simp add: changeVoice_def Let_def sendSessionUpdate_def sendMessage_no_media)
next
  case (call_changeLanguage language)
  then show ?thesis by (simp add: changeLanguage_def Let_def sendMessage_no_media)
next
  case call_interrupt
  then show ?thesis by (simp add: interrupt_def sendMessage_no_media)
next
  case call_disconnect
  then show ?thesis using disconnect_media by simp
qed

lemma handleRealtimeMessage_no_media:
  "mediaStream_stop \<notin> set (snd (handleRealtimeMessage env message s))"
  using sendFunctionResult_no_media emit_event_no_media
  by (simp add: handleRealtimeMessage_def handleFunctionCall_def Let_def split_beta
           split: jsval.split option.split)

lemma service_notify_no_media: "mediaStream_stop \<notin> set (snd (service_notify env s cb))"
proof (cases cb)
  case socket_open
  then show ?thesis by (simp add: ws_onopen_def Let_def sendSessionUpdate_def sendMessage_no_media)
next
  case (socket_message parsed)
  then show ?thesis using handleRealtimeMessage_no_media
    by (simp add: ws_onmessage_def split: option.split)
next
  case socket_error
  then show ?thesis by (simp add: ws_onerror_def)
next
  case socket_close
  then show ?thesis by (simp add: ws_onclose_def)
next
  case (microphone outcome)
  then show ?thesis using emit_event_no_media
    by (cases outcome) (simp_all add: startRecording_settle_def Let_def)
next
  case (recorder_data chunk)
  then show ?thesis by (cases chunk) (simp_all add: ondataavailable_def sendMessage_no_media)
next
  case recorder_stop
  then show ?thesis by (simp add: mediaRecorder_onstop_def sendMessage_no_media)
qed

lemma realtime_step_media:
  "mediaStream_stop \<in> set (snd (realtime_step env r rtev))
     \<longleftrightarrow> rtev = rt_unmounts \<and> (\<exists>s'. serviceRef r = Some s' \<and> mediaStream s')"
proof (cases rtev)
  case (rt_select_voice voiceId)
  then show ?thesis using service_perform_media [of env _ "call_changeVoice voiceId"]
    by (simp add: handleVoiceChange_def split_beta Let_def split: option.split)
next
  case (rt_select_language languageCode)
  then show ?thesis using service_perform_media [of env _ "call_changeLanguage languageCode"]
    by (simp add: handleLanguageChange_def split_beta Let_def split: option.split)
next
  case rt_click_save
  then show ?thesis
    by (simp add: handleApiKeySave_def realtime_initializeService_def)
next
  case (rt_callback cb)
  then show ?thesis using service_notify_no_media
    by (simp add: split_beta split: option.split)
next
  case (rt_initialize_settles outcome)
  then show ?thesis using service_perform_media [of env _ "call_initialize outcome"]
    by (simp add: split_beta split: option.split)
next
  case (rt_on name event)
  then show ?thesis using service_perform_media [of env _ call_startRecording]
    by (simp add: realtime_on_def handlePropertySearch_def realtime_startRecording_def
                  split_beta Let_def split: option.split)
next
  case rt_recording_returns
  then show ?thesis by (simp add: startAudioVisualization_def)
next
  case rt_animation_frame
  then show ?thesis by (simp add: startAudioVisualization_def)
next
  case (rt_search_settles outcome)
  then show ?thesis using sendFunctionResult_no_media
    by (simp add: handlePropertySearch_settle_def split_beta Let_def
             split: option.split search_outcome.split)
next
  case rt_unmounts
  then show ?thesis using disconnect_media
    by (simp add: realtime_unmount_def split_beta Let_def split: option.split)
qed simp_all

text \<open>
  In the states the modal components reach, the silence timer is a closure of the first
  render, in which \<^verbatim>\<open>isListening\<close> is false, and the search button is not rendered:
  there the recognition is stopped by the unmount cleanup and, in
  \<^verbatim>\<open>EnhancedVoiceSearch\<close>, by a confirmation phrase.
\<close>

lemma enhanced_step_stop_reachable:
  assumes "first_render_only m"
  shows "recognition_stop \<in> set (snd (enhanced_step m mev))
     \<longleftrightarrow> recognitions m \<noteq> []
         \<and> (mev = modal_unmounts
            \<or> (\<exists>i results. mev = recognition_onresult i results \<and> i < length (recognitions m)
                  \<and> checkConfirmationPhrase (finalTranscriptUpdate results)))"
  using assms enhanced_step_stop [of m mev]
  by (auto simp: first_render_only_def first_render_def)

lemma instant_step_stop_reachable:
  assumes "first_render_only m"
  shows "recognition_stop \<in> set (snd (instant_step m mev))
     \<longleftrightarrow> recognitions m \<noteq> [] \<and> mev = modal_unmounts"
  using assms instant_step_stop [of m mev]
  by (auto simp: first_render_only_def first_render_def)


text \<open>
  Claim C6, as stated: no operation ever issues a cancellation of in-flight work. The
  realtime service has a method for it: on a connected service with an open socket
  \<^verbatim>\<open>interrupt\<close> sends the message \<^verbatim>\<open>response.cancel\<close>. The cancel button of
  \<^verbatim>\<open>VoiceSearch\<close> stops a running recognition session. And \<^verbatim>\<open>disconnect\<close> closes
  the socket, with whatever response is pending on it.
\<close>

theorem cancellation_counterexample:
  "snd (interrupt ((new_OpenAIRealtimeService ''sk-test'' ''cedar'' ''en'')
                     \<lparr>ws := Some OPEN, isConnected := True, audioContext := True\<rparr>))
     = [ws_send (Obj [(''type'', Str ''response.cancel'')])]
   \<and> snd (vs_step (mounted\<lparr>status := Listening, isDemoMode := False,
                           recognitionRef := Some (render mounted)\<rparr>) click_cancel)
     = [recognition_stop]
   \<and> snd (disconnect ((new_OpenAIRealtimeService ''sk-test'' ''cedar'' ''en'')
                     \<lparr>ws := Some OPEN, isConnected := True, audioContext := True\<rparr>))
     = [ws_close, audioContext_close]"
  by (simp add: interrupt_def sendMessage_def ws_send_wrapper_def handleCancel_def Let_def
                switchToRealSearch_def mounted_def render_def new_OpenAIRealtimeService_def
                disconnect_def)

text \<open>
  Claim C6, amended: work in flight is cancelled by the following operations and by no
  other.
  \<^item> A \<^verbatim>\<open>response.cancel\<close> message for the pending response is sent by
    \<^verbatim>\<open>OpenAIRealtimeService.interrupt\<close> alone among the methods and callbacks of the
    service, exactly when the service is connected and its socket is open; no operation
    of \<^verbatim>\<open>EnhancedRealtimeVoiceSearch\<close> sends one.
  \<^item> The socket is closed by \<^verbatim>\<open>disconnect\<close> alone, when there is a socket, and the
    tracks of the microphone are stopped by \<^verbatim>\<open>stopRecording\<close> while recording and by
    \<^verbatim>\<open>disconnect\<close> alone, when there is a media stream; of the operations of
    \<^verbatim>\<open>EnhancedRealtimeVoiceSearch\<close> only the unmount cleanup does either.
  \<^item> A recognition session is stopped, when there is one: in \<^verbatim>\<open>VoiceSearch\<close> by
    \<^verbatim>\<open>handleCancel\<close>, \<^verbatim>\<open>handleStopListening\<close>, \<^verbatim>\<open>handleSearch\<close>, a recognition
    result whose new chunk is a command, and the unmount cleanup; in
    \<^verbatim>\<open>EnhancedVoiceSearch\<close> by the unmount cleanup, the silence timer of a render that was
    listening, the search button and a recognition result with a confirmation phrase; in
    \<^verbatim>\<open>InstantVoiceSearch\<close> by the unmount cleanup and the silence timer.
  \<^item> No operation aborts a request in flight: in \<^verbatim>\<open>VoiceSearch\<close> every operation
    other than the arrival of a response keeps the requests that are in flight, and the
    arrival of a response removes the one it answers; in the two modal components no
    operation other than the arrival of a response lowers the number of requests in
    flight.
\<close>

theorem cancellation_by_named_operations:
  "(list_ex is_response_cancel (snd (service_perform env s call1))
      \<longleftrightarrow> call1 = call_interrupt \<and> isConnected s \<and> ws s = Some OPEN)
   \<and> \<not> list_ex is_response_cancel (snd (service_notify env s cb))
   \<and> (ws_close \<in> set (snd (service_perform env s call2)) \<longleftrightarrow> call2 = call_disconnect \<and> ws s \<noteq> None)
   \<and> ws_close \<notin> set (snd (service_notify env s cb))
   \<and> (mediaStream_stop \<in> set (snd (service_perform env s call3))
        \<longleftrightarrow> (call3 = call_stopRecording \<and> isRecording s \<and> mediaStream s)
            \<or> (call3 = call_disconnect \<and> mediaStream s))
   \<and> mediaStream_stop \<notin> set (snd (service_notify env s cb))
   \<and> \<not> list_ex is_response_cancel (snd (realtime_step env r rtev))
   \<and> (ws_close \<in> set (snd (realtime_step env r rtev))
        \<longleftrightarrow> rtev = rt_unmounts \<and> (\<exists>s'. serviceRef r = Some s' \<and> ws s' \<noteq> None))
   \<and> (mediaStream_stop \<in> set (snd (realtime_step env r rtev))
        \<longleftrightarrow> rtev = rt_unmounts \<and> (\<exists>s'. serviceRef r = Some s' \<and> mediaStream s'))
   \<and> (recognition_stop \<in> set (snd (vs_step c ev1))
        \<longleftrightarrow> recognitionRef c \<noteq> None
            \<and> (ev1 = click_cancel \<or> ev1 = click_stop \<or> ev1 = click_search \<or> ev1 = unmount
               \<or> (\<exists>cl results ch. ev1 = recognition_result cl results
                     \<and> raw_chunk (lastFinalTranscript c) (final_transcript results) = Some ch
                     \<and> is_command (toLowerCase (trim ch)))))
   \<and> ((\<forall>cl outcome. ev2 \<noteq> fetch_settled cl outcome)
        \<longrightarrow> prefix (inFlight c) (inFlight (fst (vs_step c ev2))))
   \<and> inFlight (fst (vs_step c (fetch_settled cl0 outcome0))) = remove1 cl0 (inFlight c)
   \<and> (recognition_stop \<in> set (snd (enhanced_step m mev1))
        \<longleftrightarrow> recognitions m \<noteq> []
            \<and> (mev1 = modal_unmounts
               \<or> (mev1 = silence_timeout_fires \<and> (\<exists>cl. silenceTimeout m = Some cl \<and> mc_isListening cl))
               \<or> (mev1 = click_find \<and> voice_state m = VS_confirming)
               \<or> (\<exists>i results. mev1 = recognition_onresult i results \<and> i < length (recognitions m)
                     \<and> checkConfirmationPhrase (finalTranscriptUpdate results))))
   \<and> (recognition_stop \<in> set (snd (instant_step m mev1))
        \<longleftrightarrow> recognitions m \<noteq> []
            \<and> (mev1 = modal_unmounts
               \<or> (mev1 = silence_timeout_fires \<and> (\<exists>cl. silenceTimeout m = Some cl \<and> mc_isListening cl))))
   \<and> ((\<forall>outcome. mev2 \<noteq> response_settled outcome)
        \<longrightarrow> requests m \<le> requests (fst (enhanced_step m mev2)))
   \<and> ((\<forall>outcome. mev2 \<noteq> response_settled outcome)
        \<longrightarrow> requests m \<le> requests (fst (instant_step m mev2)))"
  by (intro conjI)
     (rule service_perform_cancel, rule service_notify_quiet(1), rule service_perform_close,
      rule service_notify_quiet(2), rule service_perform_media, rule service_notify_no_media,
      rule realtime_step_cancel, rule realtime_step_close, rule realtime_step_media,
      rule vs_step_stop, rule vs_step_inFlight, rule vs_step_settled_inFlight,
      rule enhanced_step_stop, rule instant_step_stop,
      rule enhanced_step_requests, rule instant_step_requests)

theorem cancellation_by_named_operations_witness:
  "list_ex is_response_cancel
     (snd (service_perform plain_env
             ((new_OpenAIRealtimeService ''sk-test'' ''cedar'' ''en'')
                \<lparr>ws := Some OPEN, isConnected := True, isRecording := True, mediaStream := True,
                 audioContext := True\<rparr>) call_interrupt))
   \<and> \<not> list_ex is_response_cancel
     (snd (service_notify plain_env
             ((new_OpenAIRealtimeService ''sk-test'' ''cedar'' ''en'')
                \<lparr>ws := Some OPEN, isConnected := True, isRecording := True, mediaStream := True,
                 audioContext := True\<rparr>) socket_open))
   \<and> ws_close \<in> set
     (snd (service_perform plain_env
             ((new_OpenAIRealtimeService ''sk-test'' ''cedar'' ''en'')
                \<lparr>ws := Some OPEN, isConnected := True, isRecording := True, mediaStream := True,
                 audioContext := True\<rparr>) call_disconnect))
   \<and> ws_close \<notin> set
     (snd (service_notify plain_env
             ((new_OpenAIRealtimeService ''sk-test'' ''cedar'' ''en'')
                \<lparr>ws := Some OPEN, isConnected := True, isRecording := True, mediaStream := True,
                 audioContext := True\<rparr>) socket_open))
   \<and> mediaStream_stop \<in> set
     (snd (service_perform plain_env
             ((new_OpenAIRealtimeService ''sk-test'' ''cedar'' ''en'')
                \<lparr>ws := Some OPEN, isConnected := True, isRecording := True, mediaStream := True,
                 audioContext := True\<rparr>) call_stopRecording))
   \<and> mediaStream_stop \<notin> set
     (snd (service_notify plain_env
             ((new_OpenAIRealtimeService ''sk-test'' ''cedar'' ''en'')
                \<lparr>ws := Some OPEN, isConnected := True, isRecording := True, mediaStream := True,
                 audioContext := True\<rparr>) socket_open))
   \<and> \<not> list_ex is_response_cancel
     (snd (realtime_step plain_env
             (realtime_initial\<lparr>serviceRef := Some ((new_OpenAIRealtimeService ''sk-test'' ''cedar'' ''en'')
                \<lparr>ws := Some OPEN, isConnected := True, isRecording := True, mediaStream := True,
                 audioContext := True\<rparr>)\<rparr>) rt_unmounts))
   \<and> ws_close \<in> set
     (snd (realtime_step plain_env
             (realtime_initial\<lparr>serviceRef := Some ((new_OpenAIRealtimeService ''sk-test'' ''cedar'' ''en'')
                \<lparr>ws := Some OPEN, isConnected := True, isRecording := True, mediaStream := True,
                 audioContext := True\<rparr>)\<rparr>) rt_unmounts))
   \<and> mediaStream_stop \<in> set
     (snd (realtime_step plain_env
             (realtime_initial\<lparr>serviceRef := Some ((new_OpenAIRealtimeService ''sk-test'' ''cedar'' ''en'')
                \<lparr>ws := Some OPEN, isConnected := True, isRecording := True, mediaStream := True,
                 audioContext := True\<rparr>)\<rparr>) rt_unmounts))
   \<and> recognition_stop \<in> set
     (snd (vs_step (mounted\<lparr>status := Processing, isDemoMode := False,
                           recognitionRef := Some (render mounted), inFlight := [render mounted]\<rparr>)
             click_cancel))
   \<and> prefix (inFlight (mounted\<lparr>status := Processing, isDemoMode := False,
                           recognitionRef := Some (render mounted), inFlight := [render mounted]\<rparr>))
        (inFlight (fst (vs_step (mounted\<lparr>status := Processing, isDemoMode := False,
                           recognitionRef := Some (render mounted), inFlight := [render mounted]\<rparr>)
             click_cancel)))
   \<and> inFlight (fst (vs_step (mounted\<lparr>status := Processing, isDemoMode := False,
                           recognitionRef := Some (render mounted), inFlight := [render mounted]\<rparr>)
             (fetch_settled (render mounted) Rejected)))
       = remove1 (render mounted)
           (inFlight (mounted\<lparr>status := Processing, isDemoMode := False,
                           recognitionRef := Some (render mounted), inFlight := [render mounted]\<rparr>))
   \<and> recognition_stop \<in> set
     (snd (enhanced_step (modal_mounted\<lparr>recognitions := [first_render], mountTimer := None\<rparr>)
             modal_unmounts))
   \<and> recognition_stop \<in> set
     (snd (instant_step (modal_mounted\<lparr>recognitions := [first_render], mountTimer := None\<rparr>)
             modal_unmounts))
   \<and> requests (modal_mounted\<lparr>recognitions := [first_render], mountTimer := None\<rparr>)
       \<le> requests (fst (enhanced_step (modal_mounted\<lparr>recognitions := [first_render], mountTimer := None\<rparr>)
             modal_unmounts))
   \<and> requests (modal_mounted\<lparr>recognitions := [first_render], mountTimer := None\<rparr>)
       \<le> requests (fst (instant_step (modal_mounted\<lparr>recognitions := [first_render], mountTimer := None\<rparr>)
             modal_unmounts))"
  using cancellation_by_named_operations
          [of plain_env
              "(new_OpenAIRealtimeService ''sk-test'' ''cedar'' ''en'')
                 \<lparr>ws := Some OPEN, isConnected := True, isRecording := True, mediaStream := True,
                  audioContext := True\<rparr>"
              call_interrupt socket_open call_disconnect call_stopRecording
              "realtime_initial\<lparr>serviceRef := Some ((new_OpenAIRealtimeService ''sk-test'' ''cedar'' ''en'')
                 \<lparr>ws := Some OPEN, isConnected := True, isRecording := True, mediaStream := True,
                  audioContext := True\<rparr>)\<rparr>"
              rt_unmounts
              "mounted\<lparr>status := Processing, isDemoMode := False,
                       recognitionRef := Some (render mounted), inFlight := [render mounted]\<rparr>"
              click_cancel click_cancel "render mounted" Rejected
              "modal_mounted\<lparr>recognitions := [first_render], mountTimer := None\<rparr>"
              modal_unmounts modal_unmounts]
  by (simp add: new_OpenAIRealtimeService_def)

section \<open>Properties of persistent storage\<close>

lemma onresult_effect_kinds: "list_all voice_search_effect (snd (onresult cl r c))"
  by (simp add: onresult_def Let_def processTranscript_begin_effects split: option.split)

lemma processTranscript_settle_effect_kinds:
  "list_all voice_search_effect (snd (processTranscript_settle cl outcome c))"
  by (simp add: processTranscript_settle_def processTranscript_catch_def
           split: fetch_outcome.split option.split sum.split)

lemma handler_effect_kinds:
  "list_all voice_search_effect (snd (handleCancel cl c))"
  "list_all voice_search_effect (snd (handleStartListening supported cl c))"
  "list_all voice_search_effect (snd (handleStopListening c))"
  "list_all voice_search_effect (snd (handleSearch cl c))"
  "list_all voice_search_effect (snd (handleToggleTag cl tagKey c))"
  "list_all voice_search_effect (snd (handlePriceChange cl newRange c))"
  "list_all voice_search_effect (snd (onend cl c))"
  by (simp_all add: handleCancel_def handleStartListening_def handleStopListening_def
        handleSearch_def handleToggleTag_def handlePriceChange_def onend_def Let_def
        split: option.split sum.split)

lemma vs_step_effect_kinds: "list_all voice_search_effect (snd (vs_step c ev))"
  by (cases ev)
     (simp_all add: handler_effect_kinds onresult_effect_kinds processTranscript_settle_effect_kinds
                    unmount_cleanup_def)

lemma store_after_kept:
  "list_all (\<lambda>e. \<forall>k v. e \<noteq> localStorage_setItem k v) effs \<Longrightarrow> store_after st effs = st"
  unfolding store_after_def
proof (induction effs arbitrary: st)
  case Nil
  then show ?case by simp
next
  case (Cons e effs)
  then have "store_effect st e = st" by (cases e) auto
  then show ?case using Cons by simp
qed

lemma voice_search_effect_no_write:
  "voice_search_effect e \<Longrightarrow> \<forall>k v. e \<noteq> localStorage_setItem k v"
  by (cases e) auto

lemma modal_settle_no_write:
  "list_all (\<lambda>e. \<forall>k v. e \<noteq> localStorage_setItem k v) (snd (modal_processTranscript_settle outcome m))"
  by (simp add: modal_processTranscript_settle_def split: fetch_outcome.split option.split)

text \<open>
  Every operation and callback of the realtime service, every event of
  \<^verbatim>\<open>EnhancedRealtimeVoiceSearch\<close> other than saving the API key, and every event of the two
  modal components leave the store as it is.
\<close>

lemma store_after_simps:
  "store_after st [] = st"
  "store_after st (e # effs) = store_after (store_effect st e) effs"
  "store_after st (effs @ effs') = store_after (store_after st effs) effs'"
  by (simp_all add: store_after_def)

lemma sendMessage_no_write: "store_after st (sendMessage s message) = st"
  by (simp add: sendMessage_def store_after_simps)

lemma emit_event_no_write: "store_after st (emit_event name data) = st"
  by (simp add: emit_event_def Let_def store_after_simps)

lemma sendFunctionResult_no_write: "store_after st (snd (sendFunctionResult env callId result s)) = st"
  by (simp add: sendFunctionResult_def generateEventId_def Let_def store_after_simps sendMessage_no_write)

lemma stopRecording_no_write: "store_after st (snd (stopRecording s)) = st"
  by (simp add: stopRecording_def store_after_simps emit_event_no_write)

lemma disconnect_no_write: "store_after st (snd (disconnect s)) = st"
  by (simp add: disconnect_def Let_def split_beta store_after_simps stopRecording_no_write)

lemma service_perform_no_write: "store_after st (snd (service_perform env s call)) = st"
proof (cases call)
  case (call_initialize outcome)
  then show ?thesis by (cases outcome) (simp_all add: initialize_def store_after_simps)
next
  case call_startRecording
  then show ?thesis by (simp add: startRecording_def store_after_simps)
next
  case call_stopRecording
  then show ?thesis by (simp add: stopRecording_no_write)
next
  case (call_sendTextMessage t language)
  then show ?thesis
    by (simp add: sendTextMessage_def generateEventId_def Let_def store_after_simps sendMessage_no_write)
next
  case (call_sendFunctionResult callId result)
  then show ?thesis by (simp add: sendFunctionResult_no_write)
next
  case (call_changeVoice voice)
  then show ?thesis
    by (simp add: changeVoice_def Let_def sendSessionUpdate_def sendMessage_no_write store_after_simps)
next
  case (call_changeLanguage language)
  then show ?thesis by (simp add: changeLanguage_def Let_def sendMessage_no_write store_after_simps)
next
  case call_interrupt
  then show ?thesis by (simp add: interrupt_def sendMessage_no_write store_after_simps)
next
  case call_disconnect
  then show ?thesis by (simp add: disconnect_no_write)
qed

lemma handleRealtimeMessage_no_write:
  "store_after st (snd (handleRealtimeMessage env message s)) = st"
  by (simp add: handleRealtimeMessage_def handleFunctionCall_def Let_def split_beta
                store_after_simps emit_event_no_write sendFunctionResult_no_write
           split: jsval.split option.split)

lemma service_notify_no_write: "store_after st (snd (service_notify env s cb)) = st"
proof (cases cb)
  case socket_open
  then show ?thesis
    by (simp add: ws_onopen_def Let_def sendSessionUpdate_def sendMessage_no_write store_after_simps)
next
  case (socket_message parsed)
  then show ?thesis
    by (simp add: ws_onmessage_def handleRealtimeMessage_no_write store_after_simps split: option.split)
next
  case socket_error
  then show ?thesis by (simp add: ws_onerror_def store_after_simps)
next
  case socket_close
  then show ?thesis by (simp add: ws_onclose_def store_after_simps)
next
  case (microphone outcome)
  then show ?thesis
    by (cases outcome) (simp_all add: startRecording_settle_def Let_def store_after_simps emit_event_no_write)
next
  case (recorder_data chunk)
  then show ?thesis
    by (cases chunk) (simp_all add: ondataavailable_def sendMessage_no_write store_after_simps)
next
  case recorder_stop
  then show ?thesis by (simp add: mediaRecorder_onstop_def sendMessage_no_write)
qed

lemma realtime_step_no_write:
  "rtev \<noteq> rt_click_save \<Longrightarrow> store_after st (snd (realtime_step env r rtev)) = st"
proof (cases rtev)
  case (rt_select_voice voiceId)
  then show ?thesis using service_perform_no_write [of st env _ "call_changeVoice voiceId"]
    by (simp add: handleVoiceChange_def split_beta Let_def store_after_simps split: option.split)
next
  case (rt_select_language languageCode)
  then show ?thesis using service_perform_no_write [of st env _ "call_changeLanguage languageCode"]
    by (simp add: handleLanguageChange_def split_beta Let_def store_after_simps split: option.split)
next
  case (rt_callback cb)
  then show ?thesis using service_notify_no_write
    by (simp add: split_beta store_after_simps split: option.split)
next
  case (rt_initialize_settles outcome)
  then show ?thesis using service_perform_no_write [of st env _ "call_initialize outcome"]
    by (simp add: split_beta store_after_simps split: option.split)
next
  case (rt_on name event)
  then show ?thesis using service_perform_no_write [of st env _ call_startRecording]
    by (simp add: realtime_on_def handlePropertySearch_def realtime_startRecording_def
                  split_beta Let_def store_after_simps split: option.split)
next
  case rt_recording_returns
  then show ?thesis by (simp add: startAudioVisualization_def store_after_simps)
next
  case rt_animation_frame
  then show ?thesis by (simp add: startAudioVisualization_def store_after_simps)
next
  case (rt_search_settles outcome)
  then show ?thesis using sendFunctionResult_no_write
    by (simp add: handlePropertySearch_settle_def split_beta Let_def store_after_simps
             split: option.split search_outcome.split)
next
  case rt_unmounts
  then show ?thesis using disconnect_no_write
    by (simp add: realtime_unmount_def split_beta Let_def store_after_simps split: option.split)
qed (simp_all add: store_after_simps)

lemma modal_step_no_write:
  "store_after st (snd (enhanced_step m mev)) = st"
  "store_after st (snd (instant_step m mev)) = st"
  by (cases mev;
      simp add: initializeVoiceRecognition_def modal_onstart_def enhanced_onresult_def
        instant_onresult_def enhanced_handleSearch_def enhanced_processTranscript_def
        processCompleteTranscript_def resetSilenceTimer_def enhanced_onend_def instant_onend_def
        modal_onerror_def silence_timer_fires_def handleRetry_def modal_unmount_def
        modal_processTranscript_settle_def Let_def split_beta store_after_simps
      split: option.split fetch_outcome.split)+

text \<open>
  Claim C7, as stated: no operation writes to persistent storage. Saving the API key in
  the settings of \<^verbatim>\<open>EnhancedRealtimeVoiceSearch\<close> stores it in \<^verbatim>\<open>localStorage\<close>,
  and the next mount of the component reads it back from there.
\<close>

theorem handleApiKeySave_persists_counterexample:
  "store_after [] (snd (handleApiKeySave ''sk-test''
       (realtime_initial\<lparr>connection_state := CS_error, showSettings := True\<rparr>)))
     = [(''openai_api_key'', ''sk-test'')]
   \<and> apiKey (fst (realtime_mount [(''openai_api_key'', ''sk-test'')])) = ''sk-test''"
  by (simp add: handleApiKeySave_def realtime_initializeService_def store_after_def
                realtime_mount_def realtime_initial_def)

text \<open>
  Claim C7, amended: no operation of \<^verbatim>\<open>VoiceSearch\<close>, no settled request of
  \<^verbatim>\<open>EnhancedVoiceSearch\<close> or \<^verbatim>\<open>InstantVoiceSearch\<close> and no \<^verbatim>\<open>interrupt\<close> of the
  realtime service writes to persistent storage; \<^verbatim>\<open>handleApiKeySave\<close> of
  \<^verbatim>\<open>EnhancedRealtimeVoiceSearch\<close> does: it stores the API key in \<^verbatim>\<open>localStorage\<close>
  under \<^verbatim>\<open>openai_api_key\<close>.
\<close>

theorem storage_written_by_handleApiKeySave_only:
  "store_after st (snd (vs_step c ev)) = st
   \<and> store_after st (snd (modal_processTranscript_settle outcome m)) = st
   \<and> store_after st (snd (interrupt s)) = st
   \<and> store_after st (snd (handleApiKeySave key r)) = AList.update ''openai_api_key'' key st"
proof -
  have "list_all (\<lambda>e. \<forall>k v. e \<noteq> localStorage_setItem k v) (snd (vs_step c ev))"
    using vs_step_effect_kinds [of c ev] voice_search_effect_no_write
    by (simp add: list_all_iff)
  then have 1: "store_after st (snd (vs_step c ev)) = st"
    by (rule store_after_kept)
  have 2: "store_after st (snd (modal_processTranscript_settle outcome m)) = st"
    using modal_settle_no_write by (rule store_after_kept)
  have 3: "store_after st (snd (interrupt s)) = st"
    by (simp add: interrupt_def sendMessage_def store_after_def)
  have 4: "store_after st (snd (handleApiKeySave key r)) = AList.update ''openai_api_key'' key st"
    by (simp add: handleApiKeySave_def realtime_initializeService_def store_after_def)
  show ?thesis using 1 2 3 4 by simp
qed

theorem storage_written_by_handleApiKeySave_only_witness:
  "store_after [(''theme'', ''dark'')] (snd (vs_step mounted (click_start True))) = [(''theme'', ''dark'')]
   \<and> store_after [(''theme'', ''dark'')] (snd (modal_processTranscript_settle Rejected
        (modal_mounted\<lparr>voice_state := VS_processing\<rparr>))) = [(''theme'', ''dark'')]
   \<and> store_after [(''theme'', ''dark'')] (snd (interrupt
        ((new_OpenAIRealtimeService ''sk-test'' ''cedar'' ''en'')
           \<lparr>ws := Some OPEN, isConnected := True, audioContext := True\<rparr>))) = [(''theme'', ''dark'')]
   \<and> store_after [(''theme'', ''dark'')] (snd (handleApiKeySave ''sk-test''
        (realtime_initial\<lparr>connection_state := CS_error, showSettings := True\<rparr>)))
       = [(''theme'', ''dark''), (''openai_api_key'', ''sk-test'')]"
  using storage_written_by_handleApiKeySave_only
          [of "[(''theme'', ''dark'')]" mounted "click_start True" Rejected
              "modal_mounted\<lparr>voice_state := VS_processing\<rparr>"
              "(new_OpenAIRealtimeService ''sk-test'' ''cedar'' ''en'')
                 \<lparr>ws := Some OPEN, isConnected := True, audioContext := True\<rparr>"
              "''sk-test''" "realtime_initial\<lparr>connection_state := CS_error, showSettings := True\<rparr>"]
  by simp
end
